theory Spec2Isabelle
  imports Main "HOL-Library.AList"
begin

section \<open>JavaScript values\<close>

text \<open>
  The widget code handles untyped data (\<^verbatim>\<open>Record<string, unknown>\<close>) next to typed
  definitions. Untyped data is a \<open>jsval\<close>: objects are association lists in insertion
  order, looked up by the first binding of a key. \<open>JZod\<close> and \<open>JFun\<close> stand for a Zod
  schema object and for a function value; the number tags them.
\<close>

datatype jsval =
    JUndefined
  | JNull
  | JBool bool
  | JNum int
  | JStr string
  | JArr "jsval list"
  | JObj "(string \<times> jsval) list"
  | JZod nat
  | JFun nat

type_synonym jsobject = "(string \<times> jsval) list"

fun truthy :: "jsval \<Rightarrow> bool" where
  "truthy JUndefined = False"
| "truthy JNull = False"
| "truthy (JBool b) = b"
| "truthy (JNum n) = (n \<noteq> 0)"
| "truthy (JStr s) = (s \<noteq> [])"
| "truthy (JArr xs) = True"
| "truthy (JObj kvs) = True"
| "truthy (JZod n) = True"
| "truthy (JFun n) = True"

fun typeof :: "jsval \<Rightarrow> string" where
  "typeof JUndefined = ''undefined''"
| "typeof JNull = ''object''"
| "typeof (JBool b) = ''boolean''"
| "typeof (JNum n) = ''number''"
| "typeof (JStr s) = ''string''"
| "typeof (JArr xs) = ''object''"
| "typeof (JObj kvs) = ''object''"
| "typeof (JZod n) = ''object''"
| "typeof (JFun n) = ''function''"

fun isArray :: "jsval \<Rightarrow> bool" where
  "isArray (JArr xs) = True"
| "isArray v = False"

fun nullish :: "jsval \<Rightarrow> bool" where
  "nullish JUndefined = True"
| "nullish JNull = True"
| "nullish v = False"

text \<open>Property read \<^verbatim>\<open>v.k\<close> on a value that is not null or undefined.\<close>

fun js_get :: "jsval \<Rightarrow> string \<Rightarrow> jsval" where
  "js_get (JObj kvs) k = (case map_of kvs k of Some v \<Rightarrow> v | None \<Rightarrow> JUndefined)"
| "js_get v k = JUndefined"

text \<open>Optional chaining \<^verbatim>\<open>v?.k\<close>.\<close>

definition js_get_opt :: "jsval \<Rightarrow> string \<Rightarrow> jsval" where
  "js_get_opt v k = (if nullish v then JUndefined else js_get v k)"

text \<open>\<^verbatim>\<open>a || b\<close> and \<^verbatim>\<open>a ?? b\<close> on values.\<close>

definition js_or :: "jsval \<Rightarrow> jsval \<Rightarrow> jsval" where
  "js_or a b = (if truthy a then a else b)"

definition js_nullish_or :: "jsval \<Rightarrow> jsval \<Rightarrow> jsval" where
  "js_nullish_or a b = (if nullish a then b else a)"

text \<open>
  Property write \<^verbatim>\<open>o.k = v\<close> on an object literal under construction: an existing key
  keeps its position, a new key goes last.
\<close>

definition obj_set :: "jsobject \<Rightarrow> string \<Rightarrow> jsval \<Rightarrow> jsobject" where
  "obj_set kvs k v = AList.update k v kvs"

text \<open>Object spread \<^verbatim>\<open>{...a, ...b}\<close>: the bindings of \<open>b\<close> are written onto \<open>a\<close> in order.\<close>

definition obj_spread :: "jsobject \<Rightarrow> jsobject \<Rightarrow> jsobject" where
  "obj_spread a b = foldl (\<lambda>acc (k, v). obj_set acc k v) a b"

text \<open>Optional strings: \<open>None\<close> is \<^verbatim>\<open>undefined\<close>; the empty string is falsy.\<close>

definition str_truthy :: "string option \<Rightarrow> bool" where
  "str_truthy s = (case s of None \<Rightarrow> False | Some t \<Rightarrow> t \<noteq> [])"

definition str_or :: "string option \<Rightarrow> string option \<Rightarrow> string option" where
  "str_or a b = (if str_truthy a then a else b)"

section \<open>Widget definitions\<close>

text \<open>
  \<^verbatim>\<open>CSPConfig\<close> and the \<^verbatim>\<open>metadata\<close> block of an \<^verbatim>\<open>mcpApps\<close> widget. A list that is
  \<open>None\<close> is absent. Keys the code never names are kept in \<open>csp_other\<close> and \<open>md_other\<close>.
\<close>

record csp_config =
  connectDomains :: "string list option"
  resourceDomains :: "string list option"
  frameDomains :: "string list option"
  baseUriDomains :: "string list option"
  scriptDirectives :: "string list option"
  styleDirectives :: "string list option"
  csp_other :: jsobject

record widget_metadata =
  csp :: "csp_config option"
  md_other :: jsobject

text \<open>A value that is either given or computed from the call parameters.\<close>

datatype output_src = Static jsval | Dynamic "jsval \<Rightarrow> jsval"

text \<open>
  \<^verbatim>\<open>UIResourceDefinition\<close>, with the fields the two modules read. \<open>wtype\<close> is the
  \<^verbatim>\<open>type\<close> tag, a string at run time; \<open>meta\<close> is \<^verbatim>\<open>_meta\<close>; \<open>body\<close> stands for the
  presentation fields (\<^verbatim>\<open>htmlTemplate\<close>, \<^verbatim>\<open>script\<close>, ...) that only the resource
  construction routine reads.
\<close>

record UIResourceDefinition =
  wtype :: string
  name :: string
  title :: "string option"
  description :: "string option"
  props :: jsval
  annotations :: jsval
  toolAnnotations :: jsval
  exposeAsTool :: "bool option"
  metadata :: "widget_metadata option"
  appsSdkMetadata :: "jsobject option"
  toolOutput :: "output_src option"
  structuredContent :: "output_src option"
  meta :: "jsobject option"
  href :: "string option"
  url :: "string option"
  widget :: "string option"
  body :: jsval

datatype error =
    UnknownWidgetType string
  | UnsupportedUIResourceType
  | InvalidURL string

section \<open>CSP format converter\<close>

text \<open>\<^verbatim>\<open>snakeCaseCspToCamelCase\<close>: six guarded property writes on a fresh object.\<close>

definition snakeCaseCspToCamelCase :: "jsval \<Rightarrow> jsobject option" where
  "snakeCaseCspToCamelCase wcsp =
    (if \<not> truthy wcsp \<or> typeof wcsp \<noteq> ''object'' then None
     else
       let result = [];
           result = (if isArray (js_get wcsp ''connect_domains'')
                     then obj_set result ''connectDomains'' (js_get wcsp ''connect_domains'')
                     else result);
           result = (if isArray (js_get wcsp ''resource_domains'')
                     then obj_set result ''resourceDomains'' (js_get wcsp ''resource_domains'')
                     else result);
           result = (if isArray (js_get wcsp ''frame_domains'')
                     then obj_set result ''frameDomains'' (js_get wcsp ''frame_domains'')
                     else result);
           result = (if isArray (js_get wcsp ''base_uri_domains'')
                     then obj_set result ''baseUriDomains'' (js_get wcsp ''base_uri_domains'')
                     else result);
           result = (if isArray (js_get wcsp ''script_directives'')
                     then obj_set result ''scriptDirectives'' (js_get wcsp ''script_directives'')
                     else result);
           result = (if isArray (js_get wcsp ''style_directives'')
                     then obj_set result ''styleDirectives'' (js_get wcsp ''style_directives'')
                     else result)
       in if length result > 0 then Some result else None)"

text \<open>
  The field table as the specification words it: source key, target key. The lookup
  \<open>converted\<close> reads a target key off the converter's result, an \<^verbatim>\<open>undefined\<close> result
  having no keys.
\<close>

definition csp_field_table :: "(string \<times> string) list" where
  "csp_field_table =
    [(''connect_domains'', ''connectDomains''),
     (''resource_domains'', ''resourceDomains''),
     (''frame_domains'', ''frameDomains''),
     (''base_uri_domains'', ''baseUriDomains''),
     (''script_directives'', ''scriptDirectives''),
     (''style_directives'', ''styleDirectives'')]"

definition converted :: "jsobject option \<Rightarrow> string \<Rightarrow> jsval option" where
  "converted r k = (case r of None \<Rightarrow> None | Some kvs \<Rightarrow> map_of kvs k)"

definition converted_keys :: "jsobject option \<Rightarrow> string set" where
  "converted_keys r = (case r of None \<Rightarrow> {} | Some kvs \<Rightarrow> fst ` set kvs)"

section \<open>Resource URI resolver\<close>

text \<open>\<^verbatim>\<open>getBuildIdPart\<close>; an absent or empty build id gives the empty string.\<close>

definition getBuildIdPart :: "string option \<Rightarrow> string" where
  "getBuildIdPart buildId = (if str_truthy buildId then ''-'' @ the buildId else '''')"

text \<open>
  \<^verbatim>\<open>generateUniqueWidgetUri\<close>. The source draws \<^verbatim>\<open>Math.random().toString(36).substring(2, 15)\<close>;
  the draw is the argument \<open>randomId\<close>. \<open>extension\<close> is \<open>None\<close> when the caller leaves it
  out, which selects the default \<^verbatim>\<open>".html"\<close>.
\<close>

definition generateUniqueWidgetUri ::
  "string \<Rightarrow> string option \<Rightarrow> string option \<Rightarrow> string \<Rightarrow> string" where
  "generateUniqueWidgetUri nm buildId extension randomId =
    (let ext = (case extension of None \<Rightarrow> ''.html'' | Some e \<Rightarrow> e);
         buildIdPart = (if str_truthy buildId then ''-'' @ the buildId else '''')
     in ''ui://widget/'' @ nm @ buildIdPart @ ''-'' @ randomId @ ext)"

record uri_mime =
  uri :: "string option"
  mimeType :: string

text \<open>
  \<^verbatim>\<open>getResourceUriAndMimeType\<close>: the switch has four cases and a throwing default.
  For \<^verbatim>\<open>externalUrl\<close> the URI is \<^verbatim>\<open>href || url\<close>, which may be undefined.
\<close>

definition getResourceUriAndMimeType ::
  "UIResourceDefinition \<Rightarrow> string option \<Rightarrow> error + uri_mime" where
  "getResourceUriAndMimeType d buildId =
    (let buildIdPart = (if str_truthy buildId then ''-'' @ the buildId else '''') in
     if wtype d = ''externalUrl'' then
       Inr \<lparr>uri = str_or (href d) (url d), mimeType = ''text/uri-list''\<rparr>
     else if wtype d = ''rawHtml'' then
       Inr \<lparr>uri = Some (''ui://widget/'' @ name d @ buildIdPart @ ''.html''),
            mimeType = ''text/html''\<rparr>
     else if wtype d = ''remoteDom'' then
       Inr \<lparr>uri = Some (''ui://widget/'' @ name d @ buildIdPart @ ''.js''),
            mimeType = ''application/vnd.mcp-ui.remote-dom+javascript''\<rparr>
     else if wtype d = ''mcpApps'' then
       Inr \<lparr>uri = Some (''ui://widget/'' @ name d @ buildIdPart @ ''.html''),
            mimeType = ''text/html;profile=mcp-app''\<rparr>
     else Inl (UnknownWidgetType (''Unknown widget type: '' @ wtype d)))"


section \<open>Definition enricher\<close>

definition empty_csp :: csp_config where
  "empty_csp =
    \<lparr>connectDomains = None, resourceDomains = None, frameDomains = None,
     baseUriDomains = None, scriptDirectives = None, styleDirectives = None,
     csp_other = []\<rparr>"

definition empty_metadata :: widget_metadata where
  "empty_metadata = \<lparr>csp = None, md_other = []\<rparr>"

text \<open>
  \<^verbatim>\<open>enrichDefinitionWithServerOrigin\<close>. \<open>serverOrigin\<close> is \<open>None\<close> for \<^verbatim>\<open>null\<close>. An array
  is truthy even when empty, so \<^verbatim>\<open>!csp.resourceDomains\<close> holds only for an absent list;
  \<^verbatim>\<open>includes\<close> on an array of strings is membership.
\<close>

definition enrichDefinitionWithServerOrigin ::
  "UIResourceDefinition \<Rightarrow> string option \<Rightarrow> UIResourceDefinition" where
  "enrichDefinitionWithServerOrigin d serverOrigin =
    (if \<not> str_truthy serverOrigin \<or> wtype d \<noteq> ''mcpApps'' then d
     else
       let origin = the serverOrigin;
           enrichedMetadata = (case metadata d of Some m \<Rightarrow> m | None \<Rightarrow> empty_metadata);
           c = (case csp enrichedMetadata of None \<Rightarrow> empty_csp | Some c0 \<Rightarrow> c0);
           c = (case resourceDomains c of
                  None \<Rightarrow> c\<lparr>resourceDomains := Some [origin]\<rparr>
                | Some xs \<Rightarrow>
                    if origin \<notin> set xs then c\<lparr>resourceDomains := Some (xs @ [origin])\<rparr>
                    else c);
           c = (case connectDomains c of
                  None \<Rightarrow> c\<lparr>connectDomains := Some [origin]\<rparr>
                | Some xs \<Rightarrow>
                    if origin \<notin> set xs then c\<lparr>connectDomains := Some (xs @ [origin])\<rparr>
                    else c);
           c = (case baseUriDomains c of
                  None \<Rightarrow> c\<lparr>baseUriDomains := Some [origin]\<rparr>
                | Some xs \<Rightarrow>
                    if origin \<notin> set xs then c\<lparr>baseUriDomains := Some (xs @ [origin])\<rparr>
                    else c);
           enrichedMetadata = enrichedMetadata\<lparr>csp := Some c\<rparr>
       in d\<lparr>metadata := Some enrichedMetadata\<rparr>)"

text \<open>
  Reading one CSP list off a definition, an absent metadata block, CSP object or list
  counting as the empty list.
\<close>

definition csp_list ::
  "(csp_config \<Rightarrow> string list option) \<Rightarrow> UIResourceDefinition \<Rightarrow> string list" where
  "csp_list sel d =
    (case metadata d of
       None \<Rightarrow> []
     | Some m \<Rightarrow> (case csp m of
         None \<Rightarrow> []
       | Some c \<Rightarrow> (case sel c of None \<Rightarrow> [] | Some xs \<Rightarrow> xs)))"

text \<open>A widget definition with nothing but its type tag and name set, for examples.\<close>

definition bare_widget :: "string \<Rightarrow> string \<Rightarrow> UIResourceDefinition" where
  "bare_widget t n =
    \<lparr>wtype = t, name = n, title = None, description = None, props = JUndefined,
     annotations = JUndefined, toolAnnotations = JUndefined, exposeAsTool = None,
     metadata = None, appsSdkMetadata = None, toolOutput = None,
     structuredContent = None, meta = None, href = None, url = None, widget = None,
     body = JUndefined\<rparr>"

section \<open>Auxiliary definitions for the properties\<close>

text \<open>One guarded write of the converter, to reason about the six writes one at a time.\<close>

definition copy_field :: "jsval \<Rightarrow> string \<Rightarrow> string \<Rightarrow> jsobject \<Rightarrow> jsobject" where
  "copy_field w s c r = (if isArray (js_get w s) then obj_set r c (js_get w s) else r)"

text \<open>
  The enricher's step on one list, and the specification's set-like append: the origin
  goes last unless it is already there.
\<close>

definition add_origin :: "string \<Rightarrow> string list option \<Rightarrow> string list" where
  "add_origin origin l =
    (case l of None \<Rightarrow> [origin] | Some xs \<Rightarrow> if origin \<in> set xs then xs else xs @ [origin])"

definition append_once :: "string \<Rightarrow> string list \<Rightarrow> string list" where
  "append_once origin xs = (if origin \<in> set xs then xs else xs @ [origin])"

text \<open>An \<^verbatim>\<open>mcpApps\<close> widget whose author listed the server's origin twice.\<close>

definition dup_widget :: UIResourceDefinition where
  "dup_widget = (bare_widget ''mcpApps'' ''kanban'')
     \<lparr>metadata := Some \<lparr>csp = Some (empty_csp\<lparr>resourceDomains :=
         Some [''https://host:3000'', ''https://cdn.example'', ''https://host:3000'']\<rparr>),
       md_other = []\<rparr>\<rparr>"

section \<open>Collaborators\<close>

text \<open>
  The registrar calls code that is not part of the two modules: the URI and resource
  construction helpers of \<^verbatim>\<open>widget-helpers\<close>, the two protocol adapters and the URL
  parser. They are parameters of the model, bundled in one record. \<open>urlOrigin\<close> is
  \<^verbatim>\<open>new URL(s).origin\<close>, \<open>None\<close> when the constructor throws.
\<close>

record WidgetServerConfig =
  cfg_serverHost :: string
  cfg_serverPort :: nat
  cfg_serverBaseUrl :: "string option"
  cfg_buildId :: "string option"

record collaborators =
  generateWidgetUri :: "string option \<Rightarrow> string option \<Rightarrow> string option \<Rightarrow> string"
  createWidgetUIResource :: "UIResourceDefinition \<Rightarrow> jsval \<Rightarrow> WidgetServerConfig \<Rightarrow> jsval"
  applyDefaultProps :: "jsval \<Rightarrow> jsval"
  convertPropsToInputs :: "jsval \<Rightarrow> jsval"
  mcpApps_buildToolMetadata :: "UIResourceDefinition \<Rightarrow> string \<Rightarrow> jsobject"
  appsSdk_buildToolMetadata :: "UIResourceDefinition \<Rightarrow> string \<Rightarrow> jsobject"
  mcpApps_buildResourceMetadata :: "UIResourceDefinition \<Rightarrow> jsval"
  appsSdk_buildResourceMetadata :: "UIResourceDefinition \<Rightarrow> jsval"
  urlOrigin :: "string \<Rightarrow> string option"

section \<open>Protocol metadata\<close>

text \<open>The bindings an object spread \<^verbatim>\<open>...v\<close> contributes; nothing unless \<open>v\<close> is an object.\<close>

fun spread_of :: "jsval \<Rightarrow> jsobject" where
  "spread_of (JObj kvs) = kvs"
| "spread_of v = []"

text \<open>\<^verbatim>\<open>Object.keys(v).length\<close>.\<close>

fun keys_length :: "jsval \<Rightarrow> nat" where
  "keys_length (JObj kvs) = length kvs"
| "keys_length (JArr xs) = length xs"
| "keys_length v = 0"

definition opt_str :: "string option \<Rightarrow> jsval" where
  "opt_str s = (case s of None \<Rightarrow> JUndefined | Some t \<Rightarrow> JStr t)"

definition opt_obj :: "jsobject option \<Rightarrow> jsval" where
  "opt_obj m = (case m of None \<Rightarrow> JUndefined | Some kvs \<Rightarrow> JObj kvs)"

text \<open>\<^verbatim>\<open>buildDualProtocolMetadata\<close>: four spreads, later ones overriding earlier ones.\<close>

definition buildDualProtocolMetadata ::
  "collaborators \<Rightarrow> UIResourceDefinition \<Rightarrow> string \<Rightarrow> jsval \<Rightarrow> jsobject" where
  "buildDualProtocolMetadata E d u existingMetadata =
    (let mcpAppsToolMeta = mcpApps_buildToolMetadata E d u;
         appsSdkToolMeta = appsSdk_buildToolMetadata E d u;
         appsSdkResourceMeta = appsSdk_buildResourceMetadata E d
     in obj_spread (obj_spread (obj_spread (spread_of existingMetadata) mcpAppsToolMeta)
          appsSdkToolMeta)
          (spread_of (js_or (js_get appsSdkResourceMeta ''_meta'') (JObj []))))"

text \<open>\<^verbatim>\<open>buildResourceUiMeta\<close>.\<close>

definition buildResourceUiMeta :: "collaborators \<Rightarrow> UIResourceDefinition \<Rightarrow> jsval" where
  "buildResourceUiMeta E d =
    (let mcpAppsResourceMeta = mcpApps_buildResourceMetadata E d;
         uiMeta = js_or (js_get_opt (js_get mcpAppsResourceMeta ''_meta'') ''ui'') JUndefined;
         uiMeta =
           (if wtype d = ''mcpApps'' then
              let appsSdkResourceMeta = appsSdk_buildResourceMetadata E d;
                  openaiWidgetCSP =
                    js_get_opt (js_get appsSdkResourceMeta ''_meta'') ''openai/widgetCSP''
              in (case snakeCaseCspToCamelCase openaiWidgetCSP of
                    Some c \<Rightarrow>
                      JObj (obj_spread (spread_of (js_or uiMeta (JObj []))) [(''csp'', JObj c)])
                  | None \<Rightarrow> uiMeta)
            else uiMeta)
     in if truthy uiMeta \<and> keys_length uiMeta > 0 then uiMeta else JUndefined)"

section \<open>Tool-call output builder\<close>

text \<open>\<^verbatim>\<open>generateToolOutput\<close>. A function is truthy; a given value is tested as it is.\<close>

definition generateToolOutput :: "UIResourceDefinition \<Rightarrow> jsval \<Rightarrow> string \<Rightarrow> jsval" where
  "generateToolOutput d params displayName =
    (let result = [(''content'', JArr [JObj [(''type'', JStr ''text''), (''text'', JStr displayName)]])]
     in case structuredContent d of
          Some (Dynamic f) \<Rightarrow> JObj (obj_set result ''structuredContent'' (f params))
        | Some (Static v) \<Rightarrow>
            if truthy v then JObj (obj_set result ''structuredContent'' v) else JObj result
        | None \<Rightarrow> JObj result)"

section \<open>Server state\<close>

text \<open>
  The values of the \<^verbatim>\<open>widgetDefinitions\<close> map. The registrar writes \<^verbatim>\<open>widgetType\<close> and
  \<^verbatim>\<open>metadata\<close>; the read handlers look for the key \<^verbatim>\<open>"mcp-use/fullDefinition"\<close>, here the
  field \<open>fullDefinition\<close>.
\<close>

record stored_definition =
  widgetType :: string
  stored_metadata :: "widget_metadata option"
  fullDefinition :: "UIResourceDefinition option"

text \<open>
  The callbacks one call of \<^verbatim>\<open>uiResourceRegistration\<close> creates are closures over that
  call's local variables. A closure is the record of the captured values; the server the
  callbacks also capture is mutable, so an invocation takes the server's state at that
  time as an argument.
\<close>

record closure =
  c_definition :: UIResourceDefinition
  c_displayName :: string
  c_resourceUri :: string
  c_serverConfig :: WidgetServerConfig

datatype handler =
    ResourceReadCallback closure
  | TemplateReadCallback closure
  | ToolCallback closure
  | OtherHandler nat

text \<open>
  A registration record is an object with a mutable \<^verbatim>\<open>config\<close> and a mutable \<^verbatim>\<open>handler\<close>.
  Records live in a store, \<open>records\<close>, addressed by position; the three registration maps
  hold addresses, so a record's identity is its address and an update in place is a write
  to the store that leaves the maps alone.
\<close>

type_synonym addr = nat

record reg_record =
  config :: jsobject
  handler :: handler

record registrations =
  tools :: "(string \<times> addr) list"
  resources :: "(string \<times> addr) list"
  resourceTemplates :: "(string \<times> addr) list"

text \<open>
  A session's \<^verbatim>\<open>server?.sendToolListChanged\<close>: absent, present, or present and throwing
  (a disconnected transport).
\<close>

datatype notifier = Notifies | Throws

text \<open>
  The calls the registrar makes into the server and the runtime, in order. \<open>CallSetTimeout\<close>
  is the scheduling of the deferred tool-list notification; the deferred body runs after
  the registrar has returned and is not part of the model.
\<close>

datatype call =
    CallResource jsobject handler
  | CallResourceTemplate jsobject handler
  | CallTool jsobject handler
  | CallAddWidgetTool jsobject handler
  | CallPropagateWidgetResourcesToSessions string
  | CallSendToolListChanged string
  | CallSetTimeout nat
  | CallConsoleLog string

text \<open>
  \<^verbatim>\<open>UIResourceServer\<close>. \<open>hasPropagate\<close> and \<open>hasAddWidgetTool\<close> say whether the server object
  has the methods \<^verbatim>\<open>propagateWidgetResourcesToSessions\<close> and \<^verbatim>\<open>addWidgetTool\<close>, which the
  registrar tests with \<^verbatim>\<open>typeof\<close>.
\<close>

record server =
  buildId :: "string option"
  serverHost :: string
  serverPort :: "nat option"
  serverBaseUrl :: "string option"
  widgetDefinitions :: "(string \<times> stored_definition) list"
  registrations :: "registrations option"
  sessions :: "(string \<times> notifier option) list option"
  hasPropagate :: bool
  hasAddWidgetTool :: bool
  records :: "reg_record list"
  calls :: "call list"

text \<open>\<^verbatim>\<open>Map.get\<close> on a registration map: the record a key is bound to, with its address.\<close>

definition reg_get :: "server \<Rightarrow> (string \<times> addr) list \<Rightarrow> string \<Rightarrow> (addr \<times> reg_record) option" where
  "reg_get s m k =
    (case map_of m k of
       None \<Rightarrow> None
     | Some a \<Rightarrow> if a < length (records s) then Some (a, records s ! a) else None)"

text \<open>
  Modelled from the spec: the registration methods of the hosting server (\<^verbatim>\<open>MCPServer\<close>
  is not among the sources). Each call is logged. When the server exposes its
  registrations, the method allocates a record and binds it in the queryable map under
  the key the hot-update path looks up: \<^verbatim>\<open>name:uri\<close> for a resource, the name for a
  resource template and for a tool.
\<close>

definition server_resource :: "server \<Rightarrow> jsobject \<Rightarrow> handler \<Rightarrow> server" where
  "server_resource s def h =
    (let s = s\<lparr>calls := calls s @ [CallResource def h]\<rparr> in
     case registrations s of
       None \<Rightarrow> s
     | Some r \<Rightarrow>
         (case (js_get (JObj def) ''name'', js_get (JObj def) ''uri'') of
            (JStr n, JStr u) \<Rightarrow>
              s\<lparr>records := records s @ [\<lparr>config = def, handler = h\<rparr>],
                registrations :=
                  Some (r\<lparr>resources := AList.update (n @ '':'' @ u) (length (records s)) (resources r)\<rparr>)\<rparr>
          | _ \<Rightarrow> s))"

definition server_resourceTemplate :: "server \<Rightarrow> jsobject \<Rightarrow> handler \<Rightarrow> server" where
  "server_resourceTemplate s def h =
    (let s = s\<lparr>calls := calls s @ [CallResourceTemplate def h]\<rparr> in
     case registrations s of
       None \<Rightarrow> s
     | Some r \<Rightarrow>
         (case js_get (JObj def) ''name'' of
            JStr n \<Rightarrow>
              s\<lparr>records := records s @ [\<lparr>config = def, handler = h\<rparr>],
                registrations :=
                  Some (r\<lparr>resourceTemplates :=
                    AList.update n (length (records s)) (resourceTemplates r)\<rparr>)\<rparr>
          | _ \<Rightarrow> s))"

definition bind_tool :: "server \<Rightarrow> jsobject \<Rightarrow> handler \<Rightarrow> server" where
  "bind_tool s def h =
    (case registrations s of
       None \<Rightarrow> s
     | Some r \<Rightarrow>
         (case js_get (JObj def) ''name'' of
            JStr n \<Rightarrow>
              s\<lparr>records := records s @ [\<lparr>config = def, handler = h\<rparr>],
                registrations :=
                  Some (r\<lparr>tools := AList.update n (length (records s)) (tools r)\<rparr>)\<rparr>
          | _ \<Rightarrow> s))"

definition server_tool :: "server \<Rightarrow> jsobject \<Rightarrow> handler \<Rightarrow> server" where
  "server_tool s def h = bind_tool (s\<lparr>calls := calls s @ [CallTool def h]\<rparr>) def h"

definition server_addWidgetTool :: "server \<Rightarrow> jsobject \<Rightarrow> handler \<Rightarrow> server" where
  "server_addWidgetTool s def h =
    bind_tool (s\<lparr>calls := calls s @ [CallAddWidgetTool def h]\<rparr>) def h"

text \<open>
  The notification loop over the live sessions: \<^verbatim>\<open>sendToolListChanged\<close> is called on every
  session that has it, and a throwing call is caught.
\<close>

fun notifyToolListChanged :: "(string \<times> notifier option) list \<Rightarrow> call list" where
  "notifyToolListChanged [] = []"
| "notifyToolListChanged ((sid, n) # rest) =
    (case n of
       None \<Rightarrow> notifyToolListChanged rest
     | Some _ \<Rightarrow> CallSendToolListChanged sid # notifyToolListChanged rest)"

section \<open>Handlers\<close>

text \<open>
  \<^verbatim>\<open>getLatestDefinition\<close>: the stored entry for the closure's widget name is read at
  invocation time, and its \<^verbatim>\<open>"mcp-use/fullDefinition"\<close> is preferred to the definition the
  closure captured.
\<close>

definition getLatestDefinition :: "server \<Rightarrow> closure \<Rightarrow> UIResourceDefinition" where
  "getLatestDefinition s clo =
    (let stored = map_of (widgetDefinitions s) (name (c_definition clo));
         full = (case stored of None \<Rightarrow> None | Some st \<Rightarrow> fullDefinition st)
     in case full of Some f \<Rightarrow> f | None \<Rightarrow> c_definition clo)"

text \<open>\<^verbatim>\<open>uiResource.resource.uri = u\<close>, then \<^verbatim>\<open>uiResource.resource\<close>.\<close>

definition resource_with_uri :: "jsval \<Rightarrow> string \<Rightarrow> jsval" where
  "resource_with_uri uiResource u =
    (case js_get uiResource ''resource'' of
       JObj kvs \<Rightarrow> JObj (obj_set kvs ''uri'' (JStr u))
     | v \<Rightarrow> v)"

definition resourceReadCallback :: "collaborators \<Rightarrow> server \<Rightarrow> closure \<Rightarrow> jsval" where
  "resourceReadCallback E s clo =
    (let latestDef = getLatestDefinition s clo;
         params = (if wtype latestDef = ''externalUrl''
                   then applyDefaultProps E (props latestDef) else JObj []);
         uiResource = createWidgetUIResource E latestDef params (c_serverConfig clo)
     in JObj [(''contents'', JArr [resource_with_uri uiResource (c_resourceUri clo)])])"

definition templateReadCallback ::
  "collaborators \<Rightarrow> server \<Rightarrow> closure \<Rightarrow> string \<Rightarrow> jsval" where
  "templateReadCallback E s clo u =
    (let latestDef = getLatestDefinition s clo;
         uiResource = createWidgetUIResource E latestDef (JObj []) (c_serverConfig clo)
     in JObj [(''contents'', JArr [resource_with_uri uiResource u])])"

text \<open>
  \<^verbatim>\<open>toolCallback\<close>. It reads the captured \<^verbatim>\<open>enrichedDefinition\<close> and \<^verbatim>\<open>displayName\<close> and does
  not consult the server.
\<close>

definition toolCallback :: "collaborators \<Rightarrow> closure \<Rightarrow> jsval \<Rightarrow> jsval" where
  "toolCallback E clo params =
    (let enrichedDefinition = c_definition clo;
         displayName = c_displayName clo
     in if wtype enrichedDefinition = ''appsSdk'' \<or> wtype enrichedDefinition = ''mcpApps'' then
          let toolOutputResult =
                (case toolOutput enrichedDefinition of
                   Some (Dynamic f) \<Rightarrow> f params
                 | Some (Static v) \<Rightarrow>
                     if truthy v then v
                     else generateToolOutput enrichedDefinition params displayName
                 | None \<Rightarrow> generateToolOutput enrichedDefinition params displayName);
              content = js_or (js_get_opt toolOutputResult ''content'')
                          (JArr [JObj [(''type'', JStr ''text''), (''text'', JStr displayName)]]);
              contentArray = (if isArray content then content else JArr [content])
          in JObj [(''content'', contentArray),
                   (''structuredContent'',
                      js_nullish_or (js_get_opt toolOutputResult ''structuredContent'') params)]
        else
          let uiResource =
                createWidgetUIResource E enrichedDefinition params (c_serverConfig clo)
          in JObj [(''content'',
                JArr [JObj [(''type'', JStr ''text''),
                            (''text'', JStr (''Displaying '' @ displayName)),
                            (''description'', JStr (''Show MCP-UI widget for '' @ displayName))],
                      uiResource])])"

text \<open>Running a handler: a resource read, a template read of a URI, or a tool call.\<close>

datatype request = ReadResource | ReadTemplate string | InvokeTool jsval

fun run_handler :: "collaborators \<Rightarrow> server \<Rightarrow> handler \<Rightarrow> request \<Rightarrow> jsval option" where
  "run_handler E s (ResourceReadCallback clo) ReadResource = Some (resourceReadCallback E s clo)"
| "run_handler E s (TemplateReadCallback clo) (ReadTemplate u) =
     Some (templateReadCallback E s clo u)"
| "run_handler E s (ToolCallback clo) (InvokeTool params) = Some (toolCallback E clo params)"
| "run_handler E s h rq = None"

section \<open>Registrar\<close>

text \<open>
  The loop over \<^verbatim>\<open>server.registrations.tools\<close> that patches the metadata of tools which
  were registered before the widget they name.
\<close>

definition patchToolsForWidget :: "collaborators \<Rightarrow> UIResourceDefinition \<Rightarrow> server \<Rightarrow> server" where
  "patchToolsForWidget E d s =
    (case registrations s of
       None \<Rightarrow> s
     | Some r \<Rightarrow>
         s\<lparr>records :=
           foldl (\<lambda>rs (k, a).
               if a < length rs then
                 let toolReg = rs ! a;
                     widgetConfig = js_get (JObj (config toolReg)) ''widget''
                 in if js_get_opt widgetConfig ''name'' = JStr (name d) then
                      let buildIdPart = getBuildIdPart (buildId s);
                          outputTemplate = ''ui://widget/'' @ name d @ buildIdPart @ ''.html''
                      in rs[a := toolReg\<lparr>config :=
                           obj_set (config toolReg) ''_meta''
                             (JObj (buildDualProtocolMetadata E d outputTemplate
                                (js_get (JObj (config toolReg)) ''_meta'')))\<rparr>]
                    else rs
               else rs)
             (records s) (tools r)\<rparr>)"

text \<open>
  The bookkeeping write: only Apps SDK and MCP Apps widgets are stored, and only their
  type tag and metadata.
\<close>

definition storeWidgetDefinition :: "collaborators \<Rightarrow> UIResourceDefinition \<Rightarrow> server \<Rightarrow> server" where
  "storeWidgetDefinition E d s =
    (if wtype d = ''appsSdk'' \<or> wtype d = ''mcpApps'' then
       let s = s\<lparr>widgetDefinitions :=
                 AList.update (name d)
                   \<lparr>widgetType = wtype d,
                    stored_metadata = (if wtype d = ''mcpApps'' then metadata d else None),
                    fullDefinition = None\<rparr>
                   (widgetDefinitions s)\<rparr>
       in if wtype d = ''mcpApps'' then patchToolsForWidget E d s else s
     else s)"

text \<open>The variant switch of the registrar.\<close>

definition resolveUriAndMime ::
  "collaborators \<Rightarrow> UIResourceDefinition \<Rightarrow> server \<Rightarrow> error + (string \<times> string)" where
  "resolveUriAndMime E d s =
    (if wtype d = ''externalUrl'' then
       Inr (generateWidgetUri E (widget d) (buildId s) None, ''text/uri-list'')
     else if wtype d = ''rawHtml'' then
       Inr (generateWidgetUri E (Some (name d)) (buildId s) None, ''text/html'')
     else if wtype d = ''remoteDom'' then
       Inr (generateWidgetUri E (Some (name d)) (buildId s) None,
            ''application/vnd.mcp-ui.remote-dom+javascript'')
     else if wtype d = ''appsSdk'' then
       Inr (generateWidgetUri E (Some (name d)) (buildId s) (Some ''.html''),
            ''text/html+skybridge'')
     else if wtype d = ''mcpApps'' then
       Inr (generateWidgetUri E (Some (name d)) (buildId s) (Some ''.html''),
            ''text/html;profile=mcp-app'')
     else Inl UnsupportedUIResourceType)"

text \<open>The listing-level \<^verbatim>\<open>_meta\<close> of the resource.\<close>

definition buildResourceMeta :: "collaborators \<Rightarrow> UIResourceDefinition \<Rightarrow> jsobject" where
  "buildResourceMeta E d =
    (let resourceUiMeta = (if wtype d = ''mcpApps'' then buildResourceUiMeta E d else JUndefined);
         defMetaPublic =
           (case meta d of
              Some m \<Rightarrow> filter (\<lambda>(k, v). k \<noteq> ''mcp-use/widget'' \<and> k \<noteq> ''ui'') m
            | None \<Rightarrow> []);
         listingUi = js_or resourceUiMeta (JObj [])
     in obj_spread defMetaPublic
          (if keys_length listingUi > 0 then [(''ui'', listingUi)] else []))"

text \<open>
  Initial registration of the resource and, for Apps SDK and MCP Apps widgets, of the
  resource template; or, on a hot update, the write of \<^verbatim>\<open>config\<close> and \<^verbatim>\<open>handler\<close> on the
  records found under the widget's keys.
\<close>

definition registerOrUpdateResources ::
  "UIResourceDefinition \<Rightarrow> server \<Rightarrow> bool \<Rightarrow> string \<Rightarrow> string \<Rightarrow> jsobject \<Rightarrow> closure \<Rightarrow> server" where
  "registerOrUpdateResources d s isUpdate resourceUri mime resourceMeta clo =
    (if \<not> isUpdate then
       let s = server_resource s
                 [(''name'', JStr (name d)),
                  (''uri'', JStr resourceUri),
                  (''title'', opt_str (title d)),
                  (''description'', opt_str (description d)),
                  (''mimeType'', JStr mime),
                  (''_meta'', JObj resourceMeta),
                  (''annotations'', annotations d)]
                 (ResourceReadCallback clo)
       in if wtype d = ''appsSdk'' \<or> wtype d = ''mcpApps'' then
            let buildIdPart = (if str_truthy (buildId s) then ''-'' @ the (buildId s) else '''');
                uriTemplate = ''ui://widget/'' @ name d @ buildIdPart @ ''-{id}.html''
            in server_resourceTemplate s
                 [(''name'', JStr (name d @ ''-dynamic'')),
                  (''resourceTemplate'',
                     JObj [(''uriTemplate'', JStr uriTemplate),
                           (''name'', JStr (if str_truthy (title d) then the (title d) else name d)),
                           (''description'', opt_str (description d)),
                           (''mimeType'', JStr mime)]),
                  (''_meta'', JObj resourceMeta),
                  (''title'', opt_str (title d)),
                  (''description'', opt_str (description d)),
                  (''annotations'', annotations d)]
                 (TemplateReadCallback clo)
          else s
     else
       (case registrations s of
          None \<Rightarrow> s
        | Some r \<Rightarrow>
            let resourceKey = name d @ '':'' @ resourceUri;
                s = (case reg_get s (resources r) resourceKey of
                       None \<Rightarrow> s
                     | Some (a, existingResource) \<Rightarrow>
                         s\<lparr>records := (records s)[a :=
                           \<lparr>config = obj_spread (config existingResource)
                                        [(''_meta'', JObj resourceMeta)],
                            handler = ResourceReadCallback clo\<rparr>]\<rparr>);
                resourceTemplateKey = name d @ ''-dynamic''
            in (case reg_get s (resourceTemplates r) resourceTemplateKey of
                  None \<Rightarrow> s
                | Some (a, existingTemplate) \<Rightarrow>
                    s\<lparr>records := (records s)[a :=
                      \<lparr>config = obj_spread (config existingTemplate)
                                   [(''_meta'', JObj resourceMeta)],
                       handler = TemplateReadCallback clo\<rparr>]\<rparr>)))"

text \<open>
  The effective \<^verbatim>\<open>exposeAsTool\<close>:
  \<^verbatim>\<open>definition.exposeAsTool ?? _meta?.["mcp-use/widget"]?.exposeAsTool ?? true\<close>.
\<close>

definition widgetMetadata_of :: "UIResourceDefinition \<Rightarrow> jsval" where
  "widgetMetadata_of d =
    (case meta d of None \<Rightarrow> JUndefined | Some m \<Rightarrow> js_get (JObj m) ''mcp-use/widget'')"

definition resolveExposeAsTool :: "UIResourceDefinition \<Rightarrow> jsval" where
  "resolveExposeAsTool d =
    (case exposeAsTool d of
       Some b \<Rightarrow> JBool b
     | None \<Rightarrow> js_nullish_or (js_get_opt (widgetMetadata_of d) ''exposeAsTool'') (JBool True))"

text \<open>The propagation of a new widget's resources to the sessions that are already live.\<close>

definition propagateResources :: "UIResourceDefinition \<Rightarrow> server \<Rightarrow> bool \<Rightarrow> server" where
  "propagateResources d s isUpdate =
    (if \<not> isUpdate \<and> sessions s \<noteq> None \<and> hasPropagate s then
       s\<lparr>calls := calls s @ [CallPropagateWidgetResourcesToSessions (name d)]\<rparr>
     else s)"

text \<open>The tool's \<^verbatim>\<open>_meta\<close>: Apps SDK fields for an Apps SDK widget, both protocols for MCP Apps.\<close>

definition buildToolMetadata ::
  "collaborators \<Rightarrow> UIResourceDefinition \<Rightarrow> string \<Rightarrow> jsobject" where
  "buildToolMetadata E d resourceUri =
    (if wtype d = ''appsSdk'' \<and> appsSdkMetadata d \<noteq> None then
       let toolMetadata = obj_set [] ''openai/outputTemplate'' (JStr resourceUri);
           appsSdkMeta = JObj (the (appsSdkMetadata d))
       in foldl (\<lambda>tm field.
              if js_get appsSdkMeta field \<noteq> JUndefined
              then obj_set tm field (js_get appsSdkMeta field) else tm)
            toolMetadata
            [''openai/toolInvocation/invoking'', ''openai/toolInvocation/invoked'',
             ''openai/widgetAccessible'', ''openai/resultCanProduceWidget'']
     else if wtype d = ''mcpApps'' then
       obj_spread [] (buildDualProtocolMetadata E d resourceUri (JObj []))
     else [])"

text \<open>
  The input schema source and the tool definition. \<open>JZod\<close> is the one value that is an
  instance of \<^verbatim>\<open>z.ZodObject\<close>. The JSON-schema branch follows the declared shape of such a
  schema (\<^verbatim>\<open>properties\<close> an object of objects, \<^verbatim>\<open>required\<close> an array of strings).
\<close>

fun isZodObject :: "jsval \<Rightarrow> bool" where
  "isZodObject (JZod n) = True"
| "isZodObject v = False"

fun hasOwnProperty :: "jsval \<Rightarrow> string \<Rightarrow> bool" where
  "hasOwnProperty (JObj kvs) k = (map_of kvs k \<noteq> None)"
| "hasOwnProperty v k = False"

fun elements :: "jsval \<Rightarrow> jsval list" where
  "elements (JArr xs) = xs"
| "elements v = []"

definition resolvePropsOrSchema :: "UIResourceDefinition \<Rightarrow> jsval" where
  "resolvePropsOrSchema d =
    (let widgetMetadataSchema = widgetMetadata_of d
     in js_or (js_or (js_or (props d) (js_get_opt widgetMetadataSchema ''props''))
                 (js_get_opt widgetMetadataSchema ''inputs''))
          (js_get_opt widgetMetadataSchema ''schema''))"

definition buildToolDefinition ::
  "collaborators \<Rightarrow> UIResourceDefinition \<Rightarrow> jsobject \<Rightarrow> jsobject" where
  "buildToolDefinition E d toolMetadata =
    (let propsOrSchema = resolvePropsOrSchema d;
         isZodSchema = (truthy propsOrSchema \<and> typeof propsOrSchema = ''object''
                        \<and> isZodObject propsOrSchema);
         isJsonSchema =
           (if truthy propsOrSchema \<and> typeof propsOrSchema = ''object'' \<and> \<not> isZodSchema then
              let hasSchemaKey = hasOwnProperty propsOrSchema ''$schema'';
                  hasTypeObject = (js_get propsOrSchema ''type'' = JStr ''object''
                                   \<and> hasOwnProperty propsOrSchema ''properties'')
              in hasSchemaKey \<or> hasTypeObject
            else False);
         toolDefinition =
           [(''name'', JStr (name d)),
            (''title'', opt_str (title d)),
            (''description'', opt_str (description d)),
            (''annotations'', toolAnnotations d),
            (''_meta'', if length toolMetadata > 0 then JObj toolMetadata else JUndefined)]
     in if isZodSchema then obj_set toolDefinition ''schema'' propsOrSchema
        else if isJsonSchema then
          (if truthy (js_get propsOrSchema ''properties'') then
             let requiredFields = elements (js_or (js_get propsOrSchema ''required'') (JArr []))
             in obj_set toolDefinition ''inputs''
                  (JArr (map (\<lambda>(nm, prop).
                      JObj [(''name'', JStr nm),
                            (''type'', js_or (js_get prop ''type'') (JStr ''string'')),
                            (''description'', js_get prop ''description''),
                            (''required'', JBool (JStr nm \<in> set requiredFields)),
                            (''default'', js_get prop ''default'')])
                    (spread_of (js_get propsOrSchema ''properties''))))
           else toolDefinition)
        else if truthy propsOrSchema then
          obj_set toolDefinition ''inputs'' (convertPropsToInputs E propsOrSchema)
        else toolDefinition)"

text \<open>
  The tool entry: on a hot update of a server that exposes its registrations, a write of
  \<^verbatim>\<open>config\<close> and \<^verbatim>\<open>handler\<close> on the existing tool record and an immediate notification of
  the live sessions; otherwise a registration through \<^verbatim>\<open>addWidgetTool\<close> or \<^verbatim>\<open>tool\<close>, the
  latter with a notification deferred by 50 ms.
\<close>

definition registerOrUpdateTool ::
  "UIResourceDefinition \<Rightarrow> server \<Rightarrow> bool \<Rightarrow> jsobject \<Rightarrow> closure \<Rightarrow> server" where
  "registerOrUpdateTool d s isUpdate toolDefinition clo =
    (if isUpdate \<and> registrations s \<noteq> None then
       (case reg_get s (tools (the (registrations s))) (name d) of
          None \<Rightarrow> s
        | Some (a, existingTool) \<Rightarrow>
            let s = s\<lparr>records := (records s)[a :=
                      \<lparr>config = obj_spread (config existingTool)
                          [(''title'', js_get (JObj toolDefinition) ''title''),
                           (''description'', js_get (JObj toolDefinition) ''description''),
                           (''annotations'', js_get (JObj toolDefinition) ''annotations''),
                           (''_meta'', js_get (JObj toolDefinition) ''_meta''),
                           (''inputs'', js_get (JObj toolDefinition) ''inputs''),
                           (''schema'', js_get (JObj toolDefinition) ''schema'')],
                       handler = ToolCallback clo\<rparr>]\<rparr>
            in (case sessions s of
                  None \<Rightarrow> s
                | Some ss \<Rightarrow> s\<lparr>calls := calls s @ notifyToolListChanged ss\<rparr>))
     else
       let s = s\<lparr>calls := calls s @
                 [CallConsoleLog (''[UI Registration] Registering new tool: '' @ name d)]\<rparr>
       in if hasAddWidgetTool s then server_addWidgetTool s toolDefinition (ToolCallback clo)
          else
            let s = server_tool s toolDefinition (ToolCallback clo)
            in s\<lparr>calls := calls s @ [CallSetTimeout 50]\<rparr>)"

text \<open>
  \<^verbatim>\<open>uiResourceRegistration\<close>. The two places that throw (\<^verbatim>\<open>new URL\<close> and the default of the
  variant switch) are reached before any write to the server, so an error carries no
  state.
\<close>

definition uiResourceRegistration ::
  "collaborators \<Rightarrow> server \<Rightarrow> UIResourceDefinition \<Rightarrow> error + server" where
  "uiResourceRegistration E s d =
    (let displayName = (if str_truthy (title d) then the (title d) else name d)
     in case (if str_truthy (serverBaseUrl s)
              then (case urlOrigin E (the (serverBaseUrl s)) of
                      None \<Rightarrow> Inl (InvalidURL (the (serverBaseUrl s)))
                    | Some origin \<Rightarrow> Inr (Some origin))
              else Inr None) of
          Inl e \<Rightarrow> Inl e
        | Inr serverOrigin \<Rightarrow>
            let enrichedDefinition = enrichDefinitionWithServerOrigin d serverOrigin;
                isUpdate = (map_of (widgetDefinitions s) (name enrichedDefinition) \<noteq> None);
                s = storeWidgetDefinition E enrichedDefinition s
            in (case resolveUriAndMime E enrichedDefinition s of
                 Inl e \<Rightarrow> Inl e
               | Inr (resourceUri, mime) \<Rightarrow>
                   let serverConfig =
                         \<lparr>cfg_serverHost = serverHost s,
                          cfg_serverPort = (case serverPort s of
                                              None \<Rightarrow> 3000
                                            | Some p \<Rightarrow> if p = 0 then 3000 else p),
                          cfg_serverBaseUrl = serverBaseUrl s,
                          cfg_buildId = buildId s\<rparr>;
                       resourceMeta = buildResourceMeta E enrichedDefinition;
                       clo = \<lparr>c_definition = enrichedDefinition,
                              c_displayName = displayName,
                              c_resourceUri = resourceUri,
                              c_serverConfig = serverConfig\<rparr>;
                       s = registerOrUpdateResources enrichedDefinition s isUpdate
                             resourceUri mime resourceMeta clo;
                       exposeAsTool = resolveExposeAsTool enrichedDefinition;
                       s = propagateResources enrichedDefinition s isUpdate
                   in if truthy exposeAsTool then
                        let toolMetadata = buildToolMetadata E enrichedDefinition resourceUri;
                            toolDefinition =
                              buildToolDefinition E enrichedDefinition toolMetadata
                        in Inr (registerOrUpdateTool enrichedDefinition s isUpdate
                                  toolDefinition clo)
                      else Inr s))"

section \<open>Example collaborators, servers and widgets\<close>

text \<open>
  Simple stand-ins for the collaborators, used only to evaluate the model at concrete
  inputs: the URI helper concatenates name, build id and extension; the resource
  construction routine returns a resource that carries the definition's title and body.
\<close>

definition stub_collaborators :: collaborators where
  "stub_collaborators =
    \<lparr>generateWidgetUri = (\<lambda>n b e. ''ui://widget/''
         @ (case n of None \<Rightarrow> ''undefined'' | Some x \<Rightarrow> x)
         @ getBuildIdPart b
         @ (case e of None \<Rightarrow> ''.html'' | Some x \<Rightarrow> x)),
     createWidgetUIResource = (\<lambda>d p c.
         JObj [(''type'', JStr ''resource''),
               (''resource'', JObj [(''uri'', JStr ''''),
                                    (''title'', opt_str (title d)),
                                    (''text'', body d)])]),
     applyDefaultProps = (\<lambda>p. p),
     convertPropsToInputs = (\<lambda>p. JArr []),
     mcpApps_buildToolMetadata = (\<lambda>d u. [(''ui/resourceUri'', JStr u)]),
     appsSdk_buildToolMetadata = (\<lambda>d u. [(''openai/outputTemplate'', JStr u)]),
     mcpApps_buildResourceMetadata = (\<lambda>d. JObj []),
     appsSdk_buildResourceMetadata = (\<lambda>d. JObj []),
     urlOrigin = (\<lambda>u. Some u)\<rparr>"

text \<open>The closure a registration of \<open>d\<close> would capture on a server without build id.\<close>

definition closure_of :: "UIResourceDefinition \<Rightarrow> closure" where
  "closure_of d =
    \<lparr>c_definition = d,
     c_displayName = (if str_truthy (title d) then the (title d) else name d),
     c_resourceUri = ''ui://widget/'' @ name d @ ''.html'',
     c_serverConfig = \<lparr>cfg_serverHost = ''localhost'', cfg_serverPort = 3000,
                       cfg_serverBaseUrl = None, cfg_buildId = None\<rparr>\<rparr>"

text \<open>An Apps SDK widget whose author returns two content items from \<^verbatim>\<open>toolOutput\<close>.\<close>

definition two_item_widget :: UIResourceDefinition where
  "two_item_widget = (bare_widget ''appsSdk'' ''kanban'')
     \<lparr>title := Some ''Board'',
      toolOutput := Some (Static (JObj [(''content'',
        JArr [JObj [(''type'', JStr ''text''), (''text'', JStr ''3 tasks'')],
              JObj [(''type'', JStr ''text''), (''text'', JStr ''2 overdue'')]])]))\<rparr>"

text \<open>
  What the author's \<^verbatim>\<open>toolOutput\<close> provides as content for a call with parameters \<open>p\<close>;
  undefined when there is no \<^verbatim>\<open>toolOutput\<close>.
\<close>

definition authoredContent :: "UIResourceDefinition \<Rightarrow> jsval \<Rightarrow> jsval" where
  "authoredContent d p =
    (case toolOutput d of
       None \<Rightarrow> JUndefined
     | Some (Static v) \<Rightarrow> js_get_opt v ''content''
     | Some (Dynamic f) \<Rightarrow> js_get_opt (f p) ''content'')"

definition text_item :: "string \<Rightarrow> jsval" where
  "text_item t = JObj [(''type'', JStr ''text''), (''text'', JStr t)]"

section \<open>Observations on the call log\<close>

text \<open>
  The kinds of calls the properties speak about, and the widget, tool or resource name
  a call is about. Both server methods that register a tool count as tool registrations.
\<close>

datatype call_kind = KResource | KTemplate | KTool | KPropagate | KNotify | KOther

fun kind_of :: "call \<Rightarrow> call_kind" where
  "kind_of (CallResource def h) = KResource"
| "kind_of (CallResourceTemplate def h) = KTemplate"
| "kind_of (CallTool def h) = KTool"
| "kind_of (CallAddWidgetTool def h) = KTool"
| "kind_of (CallPropagateWidgetResourcesToSessions n) = KPropagate"
| "kind_of (CallSendToolListChanged sid) = KNotify"
| "kind_of (CallSetTimeout ms) = KOther"
| "kind_of (CallConsoleLog msg) = KOther"

definition def_name :: "jsobject \<Rightarrow> string" where
  "def_name def = (case js_get (JObj def) ''name'' of JStr n \<Rightarrow> n | _ \<Rightarrow> [])"

fun call_name :: "call \<Rightarrow> string" where
  "call_name (CallResource def h) = def_name def"
| "call_name (CallResourceTemplate def h) = def_name def"
| "call_name (CallTool def h) = def_name def"
| "call_name (CallAddWidgetTool def h) = def_name def"
| "call_name (CallPropagateWidgetResourcesToSessions n) = n"
| "call_name (CallSendToolListChanged sid) = sid"
| "call_name (CallSetTimeout ms) = []"
| "call_name (CallConsoleLog msg) = []"

definition names_of :: "call_kind \<Rightarrow> call list \<Rightarrow> string list" where
  "names_of k cs = map call_name (filter (\<lambda>c. kind_of c = k) cs)"

section \<open>Auxiliary definitions for the registrar's properties\<close>

text \<open>
  The server origin a registration computes, and the closure its callbacks capture once
  the variant switch has chosen the resource URI \<open>u\<close>.
\<close>

definition server_origin :: "collaborators \<Rightarrow> server \<Rightarrow> string option" where
  "server_origin E s =
    (if str_truthy (serverBaseUrl s) then urlOrigin E (the (serverBaseUrl s)) else None)"

definition registration_closure ::
  "collaborators \<Rightarrow> server \<Rightarrow> UIResourceDefinition \<Rightarrow> string \<Rightarrow> closure" where
  "registration_closure E s d u =
    \<lparr>c_definition = enrichDefinitionWithServerOrigin d (server_origin E s),
     c_displayName = (if str_truthy (title d) then the (title d) else name d),
     c_resourceUri = u,
     c_serverConfig =
       \<lparr>cfg_serverHost = serverHost s,
        cfg_serverPort = (case serverPort s of
                            None \<Rightarrow> 3000
                          | Some p \<Rightarrow> if p = 0 then 3000 else p),
        cfg_serverBaseUrl = serverBaseUrl s,
        cfg_buildId = buildId s\<rparr>\<rparr>"

text \<open>
  The state a successful registration ends in, given the URI and MIME type the variant
  switch chose: the four phases of \<^verbatim>\<open>uiResourceRegistration\<close> in sequence.
\<close>

definition registration_result ::
  "collaborators \<Rightarrow> server \<Rightarrow> UIResourceDefinition \<Rightarrow> string \<Rightarrow> string \<Rightarrow> server" where
  "registration_result E s d u mime =
    (let ed = enrichDefinitionWithServerOrigin d (server_origin E s);
         upd = (map_of (widgetDefinitions s) (name d) \<noteq> None);
         clo = registration_closure E s d u;
         s3 = propagateResources ed
                (registerOrUpdateResources ed (storeWidgetDefinition E ed s) upd u mime
                   (buildResourceMeta E ed) clo) upd
     in if truthy (resolveExposeAsTool d)
        then registerOrUpdateTool ed s3 upd
               (buildToolDefinition E ed (buildToolMetadata E ed u)) clo
        else s3)"

text \<open>
  The inputs on which the registrar does not throw: one of the five variant tags, and a
  \<^verbatim>\<open>serverBaseUrl\<close> that is absent or parses.
\<close>

definition known_type :: "UIResourceDefinition \<Rightarrow> bool" where
  "known_type d = (wtype d \<in> {''externalUrl'', ''rawHtml'', ''remoteDom'', ''appsSdk'', ''mcpApps''})"

definition origin_ok :: "collaborators \<Rightarrow> server \<Rightarrow> bool" where
  "origin_ok E s = (\<not> str_truthy (serverBaseUrl s) \<or> urlOrigin E (the (serverBaseUrl s)) \<noteq> None)"

text \<open>
  The names in the calls of one kind that the log holds after a registration; \<open>None\<close>
  when the registration throws.
\<close>

definition registration_log ::
  "collaborators \<Rightarrow> server \<Rightarrow> UIResourceDefinition \<Rightarrow> call_kind \<Rightarrow> string list option" where
  "registration_log E s d k =
    (case uiResourceRegistration E s d of
       Inl e \<Rightarrow> None
     | Inr s' \<Rightarrow> Some (names_of k (calls s')))"

text \<open>The server's map of tool registrations, empty when it exposes none.\<close>

definition tools_of :: "server \<Rightarrow> (string \<times> addr) list" where
  "tools_of s = (case registrations s of None \<Rightarrow> [] | Some r \<Rightarrow> tools r)"

text \<open>
  Example servers: one with nothing but a host name; one with a live session but without
  the \<^verbatim>\<open>propagateWidgetResourcesToSessions\<close> method; one with two live sessions, the
  method, and its registrations exposed. And the widget of the repository's integration
  test that sets \<^verbatim>\<open>exposeAsTool: false\<close>, here with a legacy fallback that says true.
\<close>

definition bare_server :: server where
  "bare_server =
    \<lparr>buildId = None, serverHost = ''localhost'', serverPort = None, serverBaseUrl = None,
     widgetDefinitions = [], registrations = None, sessions = None,
     hasPropagate = False, hasAddWidgetTool = False, records = [], calls = []\<rparr>"

definition hookless_server :: server where
  "hookless_server = bare_server\<lparr>sessions := Some [(''session-1'', Some Notifies)]\<rparr>"

definition live_server :: server where
  "live_server = bare_server
     \<lparr>sessions := Some [(''session-1'', Some Notifies), (''session-2'', Some Throws)],
      hasPropagate := True,
      registrations := Some \<lparr>tools = [], resources = [], resourceTemplates = []\<rparr>\<rparr>"

definition manual_widget :: UIResourceDefinition where
  "manual_widget = (bare_widget ''appsSdk'' ''manual-widget'')
     \<lparr>exposeAsTool := Some False,
      meta := Some [(''mcp-use/widget'', JObj [(''exposeAsTool'', JBool True)])]\<rparr>"

section \<open>Auxiliary definitions for hot updates\<close>

text \<open>
  Registering a list of definitions one after the other, and what can be observed
  afterwards: the handlers the server was given for resources, the title of the
  definition a handler captured, the names in the call log, the registration maps, and
  the result of a resource read through the one resource handler the server was given.
\<close>

fun register_all :: "collaborators \<Rightarrow> server \<Rightarrow> UIResourceDefinition list \<Rightarrow> server option" where
  "register_all E s [] = Some s"
| "register_all E s (d # ds) =
    (case uiResourceRegistration E s d of Inl e \<Rightarrow> None | Inr s' \<Rightarrow> register_all E s' ds)"

fun resource_handlers :: "call list \<Rightarrow> handler list" where
  "resource_handlers [] = []"
| "resource_handlers (CallResource def h # cs) = h # resource_handlers cs"
| "resource_handlers (c # cs) = resource_handlers cs"

fun handler_title :: "handler \<Rightarrow> string option" where
  "handler_title (ResourceReadCallback clo) = title (c_definition clo)"
| "handler_title (TemplateReadCallback clo) = title (c_definition clo)"
| "handler_title (ToolCallback clo) = title (c_definition clo)"
| "handler_title (OtherHandler n) = None"

definition log_after ::
  "collaborators \<Rightarrow> server \<Rightarrow> UIResourceDefinition list \<Rightarrow> call_kind \<Rightarrow> string list option" where
  "log_after E s ds k = map_option (\<lambda>s'. names_of k (calls s')) (register_all E s ds)"

definition registrations_after ::
  "collaborators \<Rightarrow> server \<Rightarrow> UIResourceDefinition list \<Rightarrow> registrations option" where
  "registrations_after E s ds = Option.bind (register_all E s ds) registrations"

definition read_after ::
  "collaborators \<Rightarrow> server \<Rightarrow> UIResourceDefinition list \<Rightarrow> jsval option" where
  "read_after E s ds =
    (case register_all E s ds of
       None \<Rightarrow> None
     | Some s' \<Rightarrow>
         (case resource_handlers (calls s') of
            [h] \<Rightarrow> run_handler E s' h ReadResource
          | _ \<Rightarrow> None))"

text \<open>A widget and its redefinition with a changed title and body.\<close>

definition widget_A :: UIResourceDefinition where
  "widget_A = (bare_widget ''mcpApps'' ''w'')\<lparr>title := Some ''A'', body := JStr ''<p>old</p>''\<rparr>"

definition widget_B :: UIResourceDefinition where
  "widget_B = (bare_widget ''mcpApps'' ''w'')\<lparr>title := Some ''B'', body := JStr ''<p>new</p>''\<rparr>"

text \<open>
  The configurations a hot update writes, the address a registration map binds a key to,
  and the state a hot update ends in on a server that exposes its registrations \<open>r\<close>:
  the bookkeeping write, the writes on the resource and template records, and the write
  on the tool record with the notifications.
\<close>

definition tool_update_config :: "jsobject \<Rightarrow> jsobject \<Rightarrow> jsobject" where
  "tool_update_config existing toolDefinition =
     obj_spread existing
       [(''title'', js_get (JObj toolDefinition) ''title''),
        (''description'', js_get (JObj toolDefinition) ''description''),
        (''annotations'', js_get (JObj toolDefinition) ''annotations''),
        (''_meta'', js_get (JObj toolDefinition) ''_meta''),
        (''inputs'', js_get (JObj toolDefinition) ''inputs''),
        (''schema'', js_get (JObj toolDefinition) ''schema'')]"

definition resource_update_config :: "jsobject \<Rightarrow> jsobject \<Rightarrow> jsobject" where
  "resource_update_config existing resourceMeta =
     obj_spread existing [(''_meta'', JObj resourceMeta)]"

definition reg_addr :: "server \<Rightarrow> (string \<times> addr) list \<Rightarrow> string \<Rightarrow> addr option" where
  "reg_addr s m k =
    (case map_of m k of
       None \<Rightarrow> None
     | Some a \<Rightarrow> if a < length (records s) then Some a else None)"

definition hot_records ::
  "UIResourceDefinition \<Rightarrow> server \<Rightarrow> registrations \<Rightarrow> string \<Rightarrow> jsobject \<Rightarrow> closure \<Rightarrow> reg_record list" where
  "hot_records d s r u rm clo =
    (let rs1 = (case reg_addr s (resources r) (name d @ '':'' @ u) of
                  None \<Rightarrow> records s
                | Some a \<Rightarrow> (records s)[a :=
                    \<lparr>config = resource_update_config (config (records s ! a)) rm,
                     handler = ResourceReadCallback clo\<rparr>])
     in case reg_addr s (resourceTemplates r) (name d @ ''-dynamic'') of
          None \<Rightarrow> rs1
        | Some a \<Rightarrow> rs1[a :=
            \<lparr>config = resource_update_config (config (rs1 ! a)) rm,
             handler = TemplateReadCallback clo\<rparr>])"

definition hot_result ::
  "collaborators \<Rightarrow> server \<Rightarrow> registrations \<Rightarrow> UIResourceDefinition \<Rightarrow> string \<Rightarrow> server" where
  "hot_result E s r d u =
    (let ed = enrichDefinitionWithServerOrigin d (server_origin E s);
         clo = registration_closure E s d u;
         s1 = storeWidgetDefinition E ed s;
         s2 = s1\<lparr>records := hot_records ed s1 r u (buildResourceMeta E ed) clo\<rparr>
     in if truthy (resolveExposeAsTool d) then
          (case reg_addr s (tools r) (name d) of
             None \<Rightarrow> s2
           | Some a \<Rightarrow>
               s2\<lparr>records := (records s2)[a :=
                    \<lparr>config = tool_update_config (config (records s2 ! a))
                        (buildToolDefinition E ed (buildToolMetadata E ed u)),
                     handler = ToolCallback clo\<rparr>],
                  calls := calls s @
                    (case sessions s of None \<Rightarrow> [] | Some ss \<Rightarrow> notifyToolListChanged ss)\<rparr>)
        else s2)"

text \<open>The captured title of the handler of the record at an address, after the registrations.\<close>

definition handler_title_at ::
  "collaborators \<Rightarrow> server \<Rightarrow> UIResourceDefinition list \<Rightarrow> addr \<Rightarrow> string option" where
  "handler_title_at E s ds a =
    (case register_all E s ds of
       None \<Rightarrow> None
     | Some s' \<Rightarrow> if a < length (records s') then handler_title (handler (records s' ! a)) else None)"

text \<open>The registration maps of the example server after the first registration of the widget.\<close>

definition live_registrations :: registrations where
  "live_registrations =
    \<lparr>tools = [(''w'', 2)],
     resources = [(''w:ui://widget/w.html'', 0)],
     resourceTemplates = [(''w-dynamic'', 1)]\<rparr>"

section \<open>The enricher on an object store\<close>

text \<open>
  Whether the enricher mutates its argument or returns a copy is a question about object
  identity, which the value model above cannot ask. Here JavaScript objects live in a
  store addressed by position; a property holds a primitive or a reference; allocation
  appends to the store, so an address at or beyond the old length is fresh.
\<close>

datatype hval = HPrim jsval | HRef addr

datatype hobj = HObject "(string \<times> hval) list" | HArray "hval list"

type_synonym objstore = "hobj list"

definition alloc :: "objstore \<Rightarrow> hobj \<Rightarrow> objstore \<times> addr" where
  "alloc h ob = (h @ [ob], length h)"

text \<open>
  Truthiness, the lookup in an object's bindings, the property read \<^verbatim>\<open>v?.k\<close> (undefined on
  anything that is not an object), a chain of such reads, the bindings an object spread
  copies, the elements of an array, and the property write \<^verbatim>\<open>o.k = v\<close> in place.
\<close>

fun h_truthy :: "hval \<Rightarrow> bool" where
  "h_truthy (HPrim v) = truthy v"
| "h_truthy (HRef a) = True"

definition hprop :: "(string \<times> hval) list \<Rightarrow> string \<Rightarrow> hval" where
  "hprop kvs k = (case map_of kvs k of Some v \<Rightarrow> v | None \<Rightarrow> HPrim JUndefined)"

fun h_get :: "objstore \<Rightarrow> hval \<Rightarrow> string \<Rightarrow> hval" where
  "h_get h (HRef a) k =
     (if a < length h
      then (case h ! a of HObject kvs \<Rightarrow> hprop kvs k | HArray xs \<Rightarrow> HPrim JUndefined)
      else HPrim JUndefined)"
| "h_get h (HPrim v) k = HPrim JUndefined"

fun path_get :: "objstore \<Rightarrow> hval \<Rightarrow> string list \<Rightarrow> hval" where
  "path_get h v [] = v"
| "path_get h v (k # ks) = path_get h (h_get h v k) ks"

fun obj_fields :: "objstore \<Rightarrow> hval \<Rightarrow> (string \<times> hval) list option" where
  "obj_fields h (HRef a) =
     (if a < length h then (case h ! a of HObject kvs \<Rightarrow> Some kvs | HArray xs \<Rightarrow> None) else None)"
| "obj_fields h (HPrim v) = None"

fun arr_elems :: "objstore \<Rightarrow> hval \<Rightarrow> hval list option" where
  "arr_elems h (HRef a) =
     (if a < length h then (case h ! a of HArray xs \<Rightarrow> Some xs | HObject kvs \<Rightarrow> None) else None)"
| "arr_elems h (HPrim v) = None"

definition set_field :: "objstore \<Rightarrow> addr \<Rightarrow> string \<Rightarrow> hval \<Rightarrow> objstore" where
  "set_field h a k v =
     (case obj_fields h (HRef a) of
        Some kvs \<Rightarrow> h[a := HObject (AList.update k v kvs)]
      | None \<Rightarrow> h)"

text \<open>
  \<^verbatim>\<open>v ? {...v} : {}\<close>: the bindings of the fresh object. \<open>None\<close> marks a value outside the
  declared types (a truthy value that is not an object), as it does in the functions
  below.
\<close>

definition spread_or_empty :: "objstore \<Rightarrow> hval \<Rightarrow> (string \<times> hval) list option" where
  "spread_or_empty h v = (if h_truthy v then obj_fields h v else Some [])"

text \<open>
  One of the three blocks of \<^verbatim>\<open>enrichDefinitionWithServerOrigin\<close> that add the origin to
  a list of the CSP object at \<open>c\<close>; the blocks differ in the property name \<open>k\<close> only. A new
  array is allocated and assigned; an existing array is read, never written.
\<close>

definition ensure_origin :: "objstore \<Rightarrow> addr \<Rightarrow> string \<Rightarrow> string \<Rightarrow> objstore option" where
  "ensure_origin h c k origin =
    (let cur = h_get h (HRef c) k in
     if \<not> h_truthy cur then
       (let (h1, a) = alloc h (HArray [HPrim (JStr origin)])
        in Some (set_field h1 c k (HRef a)))
     else
       (case arr_elems h cur of
          None \<Rightarrow> None
        | Some xs \<Rightarrow>
            if HPrim (JStr origin) \<notin> set xs then
              (let (h1, a) = alloc h (HArray (xs @ [HPrim (JStr origin)]))
               in Some (set_field h1 c k (HRef a)))
            else Some h))"

text \<open>
  \<^verbatim>\<open>enrichDefinitionWithServerOrigin\<close> on the store: the definition is the object at \<open>d\<close>,
  the result is the new store and the address of the returned object.
\<close>

definition enrichDefinitionWithServerOrigin_store ::
  "objstore \<Rightarrow> addr \<Rightarrow> string option \<Rightarrow> (objstore \<times> addr) option" where
  "enrichDefinitionWithServerOrigin_store h d serverOrigin =
    (if \<not> str_truthy serverOrigin \<or> h_get h (HRef d) ''type'' \<noteq> HPrim (JStr ''mcpApps'')
     then Some (h, d)
     else
       (case spread_or_empty h (h_get h (HRef d) ''metadata'') of
          None \<Rightarrow> None
        | Some mkvs \<Rightarrow>
            let (h1, enrichedMetadata) = alloc h (HObject mkvs)
            in (case spread_or_empty h1 (h_get h1 (HRef enrichedMetadata) ''csp'') of
                  None \<Rightarrow> None
                | Some ckvs \<Rightarrow>
                    let (h2, c) = alloc h1 (HObject ckvs);
                        h3 = set_field h2 enrichedMetadata ''csp'' (HRef c)
                    in (case ensure_origin h3 c ''resourceDomains'' (the serverOrigin) of
                          None \<Rightarrow> None
                        | Some h4 \<Rightarrow>
                       (case ensure_origin h4 c ''connectDomains'' (the serverOrigin) of
                          None \<Rightarrow> None
                        | Some h5 \<Rightarrow>
                       (case ensure_origin h5 c ''baseUriDomains'' (the serverOrigin) of
                          None \<Rightarrow> None
                        | Some h6 \<Rightarrow>
                       (case obj_fields h6 (HRef d) of
                          None \<Rightarrow> None
                        | Some dkvs \<Rightarrow>
                            Some (alloc h6
                              (HObject (AList.update ''metadata'' (HRef enrichedMetadata) dkvs))))))))))"

text \<open>
  An example store: a definition with a metadata block, a CSP object and two domain
  lists.
\<close>

definition kanban_store :: objstore where
  "kanban_store =
    [HObject [(''type'', HPrim (JStr ''mcpApps'')), (''name'', HPrim (JStr ''kanban'')),
              (''metadata'', HRef 1)],
     HObject [(''csp'', HRef 2), (''prefersBorder'', HPrim (JBool True))],
     HObject [(''frameDomains'', HRef 3), (''resourceDomains'', HRef 4)],
     HArray [HPrim (JStr ''https://frames.example'')],
     HArray [HPrim (JStr ''https://cdn.example'')]]"

text \<open>
  A store is closed when every reference in it points into it. \<open>untouched h h'\<close> says that
  every object of \<open>h\<close> is still there in \<open>h'\<close>, unchanged.
\<close>

fun val_refs :: "hval \<Rightarrow> addr list" where
  "val_refs (HRef a) = [a]"
| "val_refs (HPrim v) = []"

fun obj_refs :: "hobj \<Rightarrow> addr list" where
  "obj_refs (HObject kvs) = concat (map (\<lambda>(k, v). val_refs v) kvs)"
| "obj_refs (HArray xs) = concat (map val_refs xs)"

definition closed_store :: "objstore \<Rightarrow> bool" where
  "closed_store h = (\<forall>ob \<in> set h. \<forall>a \<in> set (obj_refs ob). a < length h)"

definition untouched :: "objstore \<Rightarrow> objstore \<Rightarrow> bool" where
  "untouched h h' = (length h \<le> length h' \<and> (\<forall>a < length h. h' ! a = h ! a))"

text \<open>
  What each of the three blocks leaves in its list: the origin alone when there was no
  list, the old elements with the origin appended when it was missing, the old elements
  otherwise.
\<close>

definition with_origin :: "string \<Rightarrow> hval list option \<Rightarrow> hval list" where
  "with_origin origin l =
    (case l of
       None \<Rightarrow> [HPrim (JStr origin)]
     | Some xs \<Rightarrow> if HPrim (JStr origin) \<in> set xs then xs else xs @ [HPrim (JStr origin)])"

section \<open>Auxiliary definitions for the tool entry\<close>

text \<open>
  The structured content a tool call is given, read off the definition as the
  specification words it. \<open>definitionStructuredContent\<close> is what the definition's own
  \<^verbatim>\<open>structuredContent\<close> supplies: the value of a function at the call parameters, a given
  value when it is truthy, undefined otherwise. \<open>suppliedStructuredContent\<close> is what the
  output in use supplies: the \<^verbatim>\<open>structuredContent\<close> of the author's \<^verbatim>\<open>toolOutput\<close> when
  there is one (a function, or a truthy value), and what the definition supplies when
  there is none.
\<close>

definition definitionStructuredContent :: "UIResourceDefinition \<Rightarrow> jsval \<Rightarrow> jsval" where
  "definitionStructuredContent d p =
    (case structuredContent d of
       None \<Rightarrow> JUndefined
     | Some (Static v) \<Rightarrow> if truthy v then v else JUndefined
     | Some (Dynamic g) \<Rightarrow> g p)"

definition suppliedStructuredContent :: "UIResourceDefinition \<Rightarrow> jsval \<Rightarrow> jsval" where
  "suppliedStructuredContent d p =
    (case toolOutput d of
       None \<Rightarrow> definitionStructuredContent d p
     | Some (Static v) \<Rightarrow>
         if truthy v then js_get_opt v ''structuredContent'' else definitionStructuredContent d p
     | Some (Dynamic f) \<Rightarrow> js_get_opt (f p) ''structuredContent'')"

text \<open>
  The handlers the server was given with its tool registrations, in order; and the result
  of a tool call through the one tool handler the server holds after a registration.
\<close>

fun tool_handlers :: "call list \<Rightarrow> handler list" where
  "tool_handlers [] = []"
| "tool_handlers (CallTool def h # cs) = h # tool_handlers cs"
| "tool_handlers (CallAddWidgetTool def h # cs) = h # tool_handlers cs"
| "tool_handlers (c # cs) = tool_handlers cs"

definition call_tool_after ::
  "collaborators \<Rightarrow> server \<Rightarrow> UIResourceDefinition \<Rightarrow> jsval \<Rightarrow> jsval option" where
  "call_tool_after E s d p =
    (case uiResourceRegistration E s d of
       Inl e \<Rightarrow> None
     | Inr s' \<Rightarrow>
         (case tool_handlers (calls s') of
            [h] \<Rightarrow> run_handler E s' h (InvokeTool p)
          | _ \<Rightarrow> None))"

text \<open>
  The value a key has in the configuration of the record at an address, after the
  registrations.
\<close>

definition config_at ::
  "collaborators \<Rightarrow> server \<Rightarrow> UIResourceDefinition list \<Rightarrow> addr \<Rightarrow> string \<Rightarrow> jsval option" where
  "config_at E s ds a k =
    (case register_all E s ds of
       None \<Rightarrow> None
     | Some s' \<Rightarrow>
         if a < length (records s') then Some (js_get (JObj (config (records s' ! a))) k)
         else None)"

text \<open>
  Two registration records that differ at most in the \<^verbatim>\<open>_meta\<close> of their configuration:
  what the loop that patches tool metadata may change.
\<close>

definition same_but_meta :: "reg_record \<Rightarrow> reg_record \<Rightarrow> bool" where
  "same_but_meta x y =
     (handler y = handler x \<and> (\<forall>k. k \<noteq> ''_meta'' \<longrightarrow> map_of (config y) k = map_of (config x) k))"

text \<open>
  Example widgets: one titled \<^verbatim>\<open>Board\<close>; one whose author's \<^verbatim>\<open>toolOutput\<close> gives a text as
  content and no structured content, while the definition has a \<^verbatim>\<open>structuredContent\<close> of
  its own; and a file-based widget that leaves \<^verbatim>\<open>exposeAsTool\<close> unset and says false in
  \<^verbatim>\<open>_meta["mcp-use/widget"]\<close>.
\<close>

definition board_widget :: UIResourceDefinition where
  "board_widget = (bare_widget ''mcpApps'' ''kanban'')\<lparr>title := Some ''Board''\<rparr>"

definition summary_widget :: UIResourceDefinition where
  "summary_widget = (bare_widget ''mcpApps'' ''kanban'')
     \<lparr>title := Some ''Board'',
      toolOutput := Some (Static (JObj [(''content'', JStr ''3 tasks'')])),
      structuredContent := Some (Static (JObj [(''tasks'', JNum 3)]))\<rparr>"


section \<open>Properties of the CSP format converter\<close>

lemma isArray_get_object: "isArray (js_get w s) \<Longrightarrow> truthy w \<and> typeof w = ''object''"
  by (cases w) simp_all

lemma map_of_copy_field:
  "map_of (copy_field w s c r) k =
     (if k = c \<and> isArray (js_get w s) then Some (js_get w s) else map_of r k)"
  by (simp add: copy_field_def obj_set_def update_conv')

lemma copy_field_Nil: "copy_field w s c r = [] \<longleftrightarrow> r = [] \<and> \<not> isArray (js_get w s)"
  by (cases r) (auto simp: copy_field_def obj_set_def)

lemma snake_steps:
  "snakeCaseCspToCamelCase w =
    (if \<not> truthy w \<or> typeof w \<noteq> ''object'' then None
     else let r = copy_field w ''style_directives'' ''styleDirectives''
                 (copy_field w ''script_directives'' ''scriptDirectives''
                 (copy_field w ''base_uri_domains'' ''baseUriDomains''
                 (copy_field w ''frame_domains'' ''frameDomains''
                 (copy_field w ''resource_domains'' ''resourceDomains''
                 (copy_field w ''connect_domains'' ''connectDomains'' [])))))
          in if length r > 0 then Some r else None)"
  unfolding snakeCaseCspToCamelCase_def copy_field_def Let_def by (rule refl)

lemma conv_lookup:
  "converted (snakeCaseCspToCamelCase w) k =
    (if k = ''styleDirectives'' \<and> isArray (js_get w ''style_directives'')
       then Some (js_get w ''style_directives'')
     else if k = ''scriptDirectives'' \<and> isArray (js_get w ''script_directives'')
       then Some (js_get w ''script_directives'')
     else if k = ''baseUriDomains'' \<and> isArray (js_get w ''base_uri_domains'')
       then Some (js_get w ''base_uri_domains'')
     else if k = ''frameDomains'' \<and> isArray (js_get w ''frame_domains'')
       then Some (js_get w ''frame_domains'')
     else if k = ''resourceDomains'' \<and> isArray (js_get w ''resource_domains'')
       then Some (js_get w ''resource_domains'')
     else if k = ''connectDomains'' \<and> isArray (js_get w ''connect_domains'')
       then Some (js_get w ''connect_domains'')
     else None)"
proof (cases "truthy w \<and> typeof w = ''object''")
  case True
  then show ?thesis
    by (simp add: snake_steps converted_def Let_def copy_field_Nil map_of_copy_field)
next
  case False
  then have "\<And>s. \<not> isArray (js_get w s)"
    using isArray_get_object by blast
  with False show ?thesis
    by (simp add: snake_steps converted_def)
qed

text \<open>
  Claim C5. For every input value, the converter's result binds the camelCase key of each
  of the six table rows to the source value exactly when that value is an array (the
  array itself, so the same elements in the same order) and leaves it unbound otherwise;
  the result has no key outside the table; and the result is undefined exactly when no
  row's source value is an array. No input makes the converter fail: it is a total
  function into an optional object.
\<close>

theorem snakeCaseCspToCamelCase_fields:
  "(\<forall>(s, c) \<in> set csp_field_table.
      converted (snakeCaseCspToCamelCase wcsp) c =
        (if isArray (js_get wcsp s) then Some (js_get wcsp s) else None))
   \<and> converted_keys (snakeCaseCspToCamelCase wcsp) \<subseteq> snd ` set csp_field_table
   \<and> (snakeCaseCspToCamelCase wcsp = None \<longleftrightarrow>
        (\<forall>(s, c) \<in> set csp_field_table. \<not> isArray (js_get wcsp s)))"
proof (intro conjI)
  show "\<forall>(s, c) \<in> set csp_field_table.
      converted (snakeCaseCspToCamelCase wcsp) c =
        (if isArray (js_get wcsp s) then Some (js_get wcsp s) else None)"
    by (simp add: csp_field_table_def conv_lookup)
next
  show "converted_keys (snakeCaseCspToCamelCase wcsp) \<subseteq> snd ` set csp_field_table"
  proof
    fix k assume "k \<in> converted_keys (snakeCaseCspToCamelCase wcsp)"
    then have "converted (snakeCaseCspToCamelCase wcsp) k \<noteq> None"
      by (auto simp: converted_keys_def converted_def weak_map_of_SomeI split: option.splits)
    then show "k \<in> snd ` set csp_field_table"
      by (simp add: conv_lookup csp_field_table_def split: if_splits)
  qed
next
  show "snakeCaseCspToCamelCase wcsp = None \<longleftrightarrow>
        (\<forall>(s, c) \<in> set csp_field_table. \<not> isArray (js_get wcsp s))"
    using isArray_get_object[of wcsp]
    by (auto simp: snake_steps Let_def copy_field_Nil csp_field_table_def)
qed

text \<open>
  The theorem at an object with one array field, one field that is a string instead of
  an array, and one foreign key: only the array is converted.
\<close>

theorem snakeCaseCspToCamelCase_fields_witness:
  "(''connect_domains'', ''connectDomains'') \<in> set csp_field_table
   \<and> (''resource_domains'', ''resourceDomains'') \<in> set csp_field_table
   \<and> converted (snakeCaseCspToCamelCase
        (JObj [(''connect_domains'', JArr [JStr ''https://b.example'', JStr ''https://a.example'']),
               (''resource_domains'', JStr ''https://a.example''),
               (''sandbox'', JBool True)])) ''connectDomains''
       = Some (JArr [JStr ''https://b.example'', JStr ''https://a.example''])
   \<and> converted (snakeCaseCspToCamelCase
        (JObj [(''connect_domains'', JArr [JStr ''https://b.example'', JStr ''https://a.example'']),
               (''resource_domains'', JStr ''https://a.example''),
               (''sandbox'', JBool True)])) ''resourceDomains'' = None
   \<and> snakeCaseCspToCamelCase
        (JObj [(''connect_domains'', JArr [JStr ''https://b.example'', JStr ''https://a.example'']),
               (''resource_domains'', JStr ''https://a.example''),
               (''sandbox'', JBool True)]) \<noteq> None"
  using snakeCaseCspToCamelCase_fields
    [of "JObj [(''connect_domains'', JArr [JStr ''https://b.example'', JStr ''https://a.example'']),
               (''resource_domains'', JStr ''https://a.example''),
               (''sandbox'', JBool True)]"]
  by (simp add: csp_field_table_def)

section \<open>Properties of the URI resolver\<close>

text \<open>
  Claim C3 (standalone resolver). The switch of \<^verbatim>\<open>getResourceUriAndMimeType\<close> has no
  \<^verbatim>\<open>appsSdk\<close> case: an Apps SDK widget falls through to the default and the call throws
  instead of returning \<^verbatim>\<open>text/html+skybridge\<close>.
\<close>

theorem getResourceUriAndMimeType_appsSdk_throws:
  "getResourceUriAndMimeType (bare_widget ''appsSdk'' ''kanban'') None
     = Inl (UnknownWidgetType ''Unknown widget type: appsSdk'')"
  by (simp add: getResourceUriAndMimeType_def bare_widget_def)

text \<open>The four variants the standalone resolver does handle, and its default.\<close>

lemma getResourceUriAndMimeType_mime:
  "getResourceUriAndMimeType d b = Inr r \<Longrightarrow>
     (wtype d = ''externalUrl'' \<and> mimeType r = ''text/uri-list'')
   \<or> (wtype d = ''rawHtml'' \<and> mimeType r = ''text/html'')
   \<or> (wtype d = ''remoteDom'' \<and> mimeType r = ''application/vnd.mcp-ui.remote-dom+javascript'')
   \<or> (wtype d = ''mcpApps'' \<and> mimeType r = ''text/html;profile=mcp-app'')"
  by (auto simp: getResourceUriAndMimeType_def Let_def split: if_splits)

lemma getResourceUriAndMimeType_unknown:
  "wtype d \<notin> {''externalUrl'', ''rawHtml'', ''remoteDom'', ''mcpApps''} \<Longrightarrow>
   getResourceUriAndMimeType d b = Inl (UnknownWidgetType (''Unknown widget type: '' @ wtype d))"
  by (simp add: getResourceUriAndMimeType_def)

text \<open>
  Claim C4, as the claim states it, fails for \<^verbatim>\<open>generateUniqueWidgetUri\<close>: two invocations
  with the same name, build id and extension whose random draws differ return different
  URIs.
\<close>

theorem generateUniqueWidgetUri_two_runs_differ:
  "generateUniqueWidgetUri ''kanban'' (Some ''b42'') (Some ''.html'') ''k3j9x0q1zab''
     \<noteq> generateUniqueWidgetUri ''kanban'' (Some ''b42'') (Some ''.html'') ''7f0m2c8d1we''"
  by (simp add: generateUniqueWidgetUri_def str_truthy_def)

text \<open>
  Claim C4, amended. \<^verbatim>\<open>getResourceUriAndMimeType\<close> is deterministic and reads only the
  type tag, the name, \<^verbatim>\<open>href\<close>, \<^verbatim>\<open>url\<close> and the build id: definitions that agree on
  these get the same URI and MIME type (or the same error). \<^verbatim>\<open>generateUniqueWidgetUri\<close>
  is determined by its inputs together with its random draw, and two invocations with
  the same inputs return the same URI exactly when their draws coincide.
\<close>

theorem uri_resolution_determinism:
  assumes "wtype d1 = wtype d2" and "name d1 = name d2"
    and "href d1 = href d2" and "url d1 = url d2"
  shows "getResourceUriAndMimeType d1 b = getResourceUriAndMimeType d2 b
    \<and> (generateUniqueWidgetUri n b e r1 = generateUniqueWidgetUri n b e r2 \<longleftrightarrow> r1 = r2)"
  using assms by (simp add: getResourceUriAndMimeType_def generateUniqueWidgetUri_def Let_def)

text \<open>
  The amended claim at two raw HTML definitions that differ in title and body only, and
  at a fixed draw.
\<close>

theorem uri_resolution_determinism_witness:
  "getResourceUriAndMimeType (bare_widget ''rawHtml'' ''kanban'') (Some ''b42'')
     = getResourceUriAndMimeType
         ((bare_widget ''rawHtml'' ''kanban'')\<lparr>title := Some ''Board'', body := JStr ''<p/>''\<rparr>)
         (Some ''b42'')
   \<and> getResourceUriAndMimeType (bare_widget ''rawHtml'' ''kanban'') (Some ''b42'')
     = Inr \<lparr>uri = Some ''ui://widget/kanban-b42.html'', mimeType = ''text/html''\<rparr>
   \<and> generateUniqueWidgetUri ''kanban'' (Some ''b42'') None ''k3j9x0q1zab''
     = ''ui://widget/kanban-b42-k3j9x0q1zab.html''"
  using uri_resolution_determinism
    [of "bare_widget ''rawHtml'' ''kanban''"
        "(bare_widget ''rawHtml'' ''kanban'')\<lparr>title := Some ''Board'', body := JStr ''<p/>''\<rparr>"
        "Some ''b42''" "''kanban''" None "''k3j9x0q1zab''" "''k3j9x0q1zab''"]
  by (simp add: bare_widget_def getResourceUriAndMimeType_def generateUniqueWidgetUri_def
      str_truthy_def)

section \<open>Properties of the definition enricher\<close>

lemma step_resource:
  "(case resourceDomains c of
      None \<Rightarrow> c\<lparr>resourceDomains := Some [origin]\<rparr>
    | Some xs \<Rightarrow>
        if origin \<notin> set xs then c\<lparr>resourceDomains := Some (xs @ [origin])\<rparr> else c)
   = c\<lparr>resourceDomains := Some (add_origin origin (resourceDomains c))\<rparr>"
  by (simp add: add_origin_def split: option.splits)

lemma step_connect:
  "(case connectDomains c of
      None \<Rightarrow> c\<lparr>connectDomains := Some [origin]\<rparr>
    | Some xs \<Rightarrow>
        if origin \<notin> set xs then c\<lparr>connectDomains := Some (xs @ [origin])\<rparr> else c)
   = c\<lparr>connectDomains := Some (add_origin origin (connectDomains c))\<rparr>"
  by (simp add: add_origin_def split: option.splits)

lemma step_baseUri:
  "(case baseUriDomains c of
      None \<Rightarrow> c\<lparr>baseUriDomains := Some [origin]\<rparr>
    | Some xs \<Rightarrow>
        if origin \<notin> set xs then c\<lparr>baseUriDomains := Some (xs @ [origin])\<rparr> else c)
   = c\<lparr>baseUriDomains := Some (add_origin origin (baseUriDomains c))\<rparr>"
  by (simp add: add_origin_def split: option.splits)

text \<open>The enricher, when it applies, as one record update.\<close>

lemma enrich_eq:
  assumes "str_truthy so" "wtype d = ''mcpApps''"
  shows "enrichDefinitionWithServerOrigin d so =
    (let origin = the so;
         m = (case metadata d of Some m \<Rightarrow> m | None \<Rightarrow> empty_metadata);
         c = (case csp m of None \<Rightarrow> empty_csp | Some c0 \<Rightarrow> c0)
     in d\<lparr>metadata := Some (m\<lparr>csp := Some (c\<lparr>
            resourceDomains := Some (add_origin origin (resourceDomains c)),
            connectDomains := Some (add_origin origin (connectDomains c)),
            baseUriDomains := Some (add_origin origin (baseUriDomains c))\<rparr>)\<rparr>)\<rparr>)"
  using assms
  by (simp add: enrichDefinitionWithServerOrigin_def Let_def step_resource step_connect
      step_baseUri)

lemma enrich_noop:
  "\<not> str_truthy so \<or> wtype d \<noteq> ''mcpApps'' \<Longrightarrow> enrichDefinitionWithServerOrigin d so = d"
  by (auto simp: enrichDefinitionWithServerOrigin_def)

lemma add_origin_idem: "add_origin origin (Some (add_origin origin l)) = add_origin origin l"
  by (simp add: add_origin_def split: option.splits)

lemma enrich_idem:
  "enrichDefinitionWithServerOrigin (enrichDefinitionWithServerOrigin d so) so
     = enrichDefinitionWithServerOrigin d so"
proof (cases "str_truthy so \<and> wtype d = ''mcpApps''")
  case False
  then show ?thesis by (auto simp: enrich_noop)
next
  case True
  then have t: "str_truthy so" "wtype d = ''mcpApps''" by simp_all
  have t': "wtype (enrichDefinitionWithServerOrigin d so) = ''mcpApps''"
    using t by (simp add: enrich_eq Let_def)
  show ?thesis
    apply (subst enrich_eq[OF t(1) t'])
    apply (simp add: enrich_eq[OF t] Let_def add_origin_idem)
    done
qed

lemma add_origin_append_once:
  "add_origin origin l = append_once origin (case l of None \<Rightarrow> [] | Some xs \<Rightarrow> xs)"
  by (simp add: add_origin_def append_once_def split: option.splits)

lemma count_append_once:
  "count_list (append_once origin xs) origin = max 1 (count_list xs origin)"
  by (auto simp: append_once_def count_list_0_iff max_def Suc_le_eq)

lemma csp_list_enrich:
  assumes "str_truthy so" "wtype d = ''mcpApps''"
  shows "csp_list resourceDomains (enrichDefinitionWithServerOrigin d so)
           = append_once (the so) (csp_list resourceDomains d)"
    and "csp_list connectDomains (enrichDefinitionWithServerOrigin d so)
           = append_once (the so) (csp_list connectDomains d)"
    and "csp_list baseUriDomains (enrichDefinitionWithServerOrigin d so)
           = append_once (the so) (csp_list baseUriDomains d)"
  by (simp_all add: enrich_eq[OF assms] Let_def csp_list_def add_origin_append_once
        empty_csp_def empty_metadata_def split: option.splits)

text \<open>
  Claim C6, as the claim states it, fails in its last part: the enricher does not
  deduplicate. A list in which the author already wrote the origin twice keeps both
  occurrences.
\<close>

theorem enrich_keeps_duplicates:
  "count_list (csp_list resourceDomains
      (enrichDefinitionWithServerOrigin dup_widget (Some ''https://host:3000'')))
     ''https://host:3000'' = 2"
  by (simp add: enrichDefinitionWithServerOrigin_def dup_widget_def bare_widget_def
       csp_list_def empty_csp_def str_truthy_def Let_def)

text \<open>
  Claim C6, amended. Enriching twice with the same origin gives the same definition as
  enriching once. When the enricher applies (a non-empty origin and an \<^verbatim>\<open>mcpApps\<close>
  widget), each of \<^verbatim>\<open>resourceDomains\<close>, \<^verbatim>\<open>connectDomains\<close> and \<^verbatim>\<open>baseUriDomains\<close> is the
  list it was with the origin appended unless already present, so the existing order is
  kept and the origin ends up occurring once, or as often as the input list already had
  it.
\<close>

theorem enrich_idempotent:
  "enrichDefinitionWithServerOrigin (enrichDefinitionWithServerOrigin d so) so
     = enrichDefinitionWithServerOrigin d so
   \<and> (str_truthy so \<and> wtype d = ''mcpApps'' \<longrightarrow>
        (\<forall>sel \<in> {resourceDomains, connectDomains, baseUriDomains}.
           csp_list sel (enrichDefinitionWithServerOrigin d so)
             = append_once (the so) (csp_list sel d)
         \<and> count_list (csp_list sel (enrichDefinitionWithServerOrigin d so)) (the so)
             = max 1 (count_list (csp_list sel d) (the so))))"
  by (auto simp: enrich_idem csp_list_enrich count_append_once)

text \<open>
  The theorem at the specification's scenario: widget \<^verbatim>\<open>kanban\<close>, no CSP declared, origin
  \<^verbatim>\<open>https://host:3000\<close>.
\<close>

theorem enrich_idempotent_witness:
  "str_truthy (Some ''https://host:3000'') \<and> wtype (bare_widget ''mcpApps'' ''kanban'') = ''mcpApps''
   \<and> csp_list resourceDomains
        (enrichDefinitionWithServerOrigin (bare_widget ''mcpApps'' ''kanban'') (Some ''https://host:3000''))
       = [''https://host:3000'']
   \<and> csp_list connectDomains
        (enrichDefinitionWithServerOrigin (bare_widget ''mcpApps'' ''kanban'') (Some ''https://host:3000''))
       = [''https://host:3000'']
   \<and> csp_list baseUriDomains
        (enrichDefinitionWithServerOrigin (bare_widget ''mcpApps'' ''kanban'') (Some ''https://host:3000''))
       = [''https://host:3000'']
   \<and> enrichDefinitionWithServerOrigin
        (enrichDefinitionWithServerOrigin (bare_widget ''mcpApps'' ''kanban'') (Some ''https://host:3000''))
        (Some ''https://host:3000'')
       = enrichDefinitionWithServerOrigin (bare_widget ''mcpApps'' ''kanban'') (Some ''https://host:3000'')"
  using enrich_idempotent[of "bare_widget ''mcpApps'' ''kanban''" "Some ''https://host:3000''"]
  by (simp add: str_truthy_def bare_widget_def csp_list_def append_once_def)

section \<open>Properties of the tool-call output builder\<close>

lemma js_get_opt_falsy: "\<not> truthy v \<Longrightarrow> js_get_opt v k = JUndefined"
  by (cases v) (simp_all add: js_get_opt_def)

lemma generateToolOutput_content:
  "js_get_opt (generateToolOutput d p n) ''content'' = JArr [text_item n]"
  by (simp add: generateToolOutput_def js_get_opt_def obj_set_def text_item_def Let_def
      split: option.splits output_src.splits)

lemma generateToolOutput_sc:
  "js_get_opt (generateToolOutput d p n) ''structuredContent'' = definitionStructuredContent d p"
  by (simp add: generateToolOutput_def js_get_opt_def obj_set_def definitionStructuredContent_def
      split: option.splits output_src.splits)

text \<open>
  Claim C9, as the claim states it, fails: the content array is not always a single text
  item. Content that the author's \<^verbatim>\<open>toolOutput\<close> provides is returned as it is; here it has
  two items.
\<close>

theorem toolCallback_two_items:
  "js_get (toolCallback stub_collaborators (closure_of two_item_widget) (JObj [(''q'', JStr ''x'')]))
      ''content''
   = JArr [JObj [(''type'', JStr ''text''), (''text'', JStr ''3 tasks'')],
           JObj [(''type'', JStr ''text''), (''text'', JStr ''2 overdue'')]]"
  by (simp add: toolCallback_def closure_of_def two_item_widget_def bare_widget_def Let_def
       js_get_opt_def js_or_def)

section \<open>Properties of the registrar\<close>

lemma enrich_fields [simp]:
  "name (enrichDefinitionWithServerOrigin d so) = name d"
  "wtype (enrichDefinitionWithServerOrigin d so) = wtype d"
  "title (enrichDefinitionWithServerOrigin d so) = title d"
  "description (enrichDefinitionWithServerOrigin d so) = description d"
  "exposeAsTool (enrichDefinitionWithServerOrigin d so) = exposeAsTool d"
  "meta (enrichDefinitionWithServerOrigin d so) = meta d"
  "props (enrichDefinitionWithServerOrigin d so) = props d"
  "toolOutput (enrichDefinitionWithServerOrigin d so) = toolOutput d"
  "structuredContent (enrichDefinitionWithServerOrigin d so) = structuredContent d"
  by (cases "str_truthy so \<and> wtype d = ''mcpApps''";
      simp add: enrich_eq enrich_noop Let_def; auto simp: enrich_noop)+

lemma names_of_append [simp]: "names_of k (xs @ ys) = names_of k xs @ names_of k ys"
  by (simp add: names_of_def)

lemma names_of_Nil [simp]: "names_of k [] = []"
  by (simp add: names_of_def)

lemma names_of_Cons:
  "names_of k (c # cs) = (if kind_of c = k then call_name c # names_of k cs else names_of k cs)"
  by (simp add: names_of_def)

lemma patchTools_frame [simp]:
  "calls (patchToolsForWidget E d s) = calls s"
  "registrations (patchToolsForWidget E d s) = registrations s"
  "sessions (patchToolsForWidget E d s) = sessions s"
  "hasPropagate (patchToolsForWidget E d s) = hasPropagate s"
  "hasAddWidgetTool (patchToolsForWidget E d s) = hasAddWidgetTool s"
  "buildId (patchToolsForWidget E d s) = buildId s"
  "widgetDefinitions (patchToolsForWidget E d s) = widgetDefinitions s"
  "serverHost (patchToolsForWidget E d s) = serverHost s"
  "serverPort (patchToolsForWidget E d s) = serverPort s"
  "serverBaseUrl (patchToolsForWidget E d s) = serverBaseUrl s"
  by (simp_all add: patchToolsForWidget_def split: option.splits)

lemma store_frame [simp]:
  "calls (storeWidgetDefinition E d s) = calls s"
  "registrations (storeWidgetDefinition E d s) = registrations s"
  "sessions (storeWidgetDefinition E d s) = sessions s"
  "hasPropagate (storeWidgetDefinition E d s) = hasPropagate s"
  "hasAddWidgetTool (storeWidgetDefinition E d s) = hasAddWidgetTool s"
  "buildId (storeWidgetDefinition E d s) = buildId s"
  "serverHost (storeWidgetDefinition E d s) = serverHost s"
  "serverPort (storeWidgetDefinition E d s) = serverPort s"
  "serverBaseUrl (storeWidgetDefinition E d s) = serverBaseUrl s"
  by (simp_all add: storeWidgetDefinition_def Let_def)

lemma server_resource_frame [simp]:
  "calls (server_resource s def h) = calls s @ [CallResource def h]"
  "sessions (server_resource s def h) = sessions s"
  "hasPropagate (server_resource s def h) = hasPropagate s"
  "hasAddWidgetTool (server_resource s def h) = hasAddWidgetTool s"
  "buildId (server_resource s def h) = buildId s"
  "widgetDefinitions (server_resource s def h) = widgetDefinitions s"
  "(registrations (server_resource s def h) = None) = (registrations s = None)"
  by (simp_all add: server_resource_def Let_def split: option.splits jsval.splits)

lemma server_resourceTemplate_frame [simp]:
  "calls (server_resourceTemplate s def h) = calls s @ [CallResourceTemplate def h]"
  "sessions (server_resourceTemplate s def h) = sessions s"
  "hasPropagate (server_resourceTemplate s def h) = hasPropagate s"
  "hasAddWidgetTool (server_resourceTemplate s def h) = hasAddWidgetTool s"
  "buildId (server_resourceTemplate s def h) = buildId s"
  "widgetDefinitions (server_resourceTemplate s def h) = widgetDefinitions s"
  "(registrations (server_resourceTemplate s def h) = None) = (registrations s = None)"
  by (simp_all add: server_resourceTemplate_def Let_def split: option.splits jsval.splits)

lemma bind_tool_frame [simp]:
  "calls (bind_tool s def h) = calls s"
  "sessions (bind_tool s def h) = sessions s"
  "widgetDefinitions (bind_tool s def h) = widgetDefinitions s"
  by (simp_all add: bind_tool_def Let_def split: option.splits jsval.splits)

lemma def_name_simps [simp]:
  "def_name ((''name'', JStr n) # rest) = n"
  by (simp add: def_name_def)

lemma resources_names:
  "names_of k (calls (registerOrUpdateResources d s upd u m rm clo)) =
     names_of k (calls s) @
       (if \<not> upd \<and> k = KResource then [name d]
        else if \<not> upd \<and> k = KTemplate \<and> (wtype d = ''appsSdk'' \<or> wtype d = ''mcpApps'')
          then [name d @ ''-dynamic'']
        else [])"
  by (auto simp: registerOrUpdateResources_def Let_def names_of_Cons
      split: option.splits prod.splits)

lemma resources_frame [simp]:
  "sessions (registerOrUpdateResources d s upd u m rm clo) = sessions s"
  "hasPropagate (registerOrUpdateResources d s upd u m rm clo) = hasPropagate s"
  "hasAddWidgetTool (registerOrUpdateResources d s upd u m rm clo) = hasAddWidgetTool s"
  "widgetDefinitions (registerOrUpdateResources d s upd u m rm clo) = widgetDefinitions s"
  "(registrations (registerOrUpdateResources d s upd u m rm clo) = None) = (registrations s = None)"
  by (auto simp: registerOrUpdateResources_def Let_def split: option.splits prod.splits)

lemma propagate_names:
  "names_of k (calls (propagateResources d s upd)) =
     names_of k (calls s) @
       (if \<not> upd \<and> sessions s \<noteq> None \<and> hasPropagate s \<and> k = KPropagate then [name d] else [])"
  by (auto simp: propagateResources_def names_of_Cons)

lemma propagate_frame [simp]:
  "sessions (propagateResources d s upd) = sessions s"
  "hasAddWidgetTool (propagateResources d s upd) = hasAddWidgetTool s"
  "registrations (propagateResources d s upd) = registrations s"
  "records (propagateResources d s upd) = records s"
  "widgetDefinitions (propagateResources d s upd) = widgetDefinitions s"
  by (simp_all add: propagateResources_def)

lemma names_of_notify:
  "names_of k (notifyToolListChanged ss) =
     (if k = KNotify then map fst (filter (\<lambda>(sid, n). n \<noteq> None) ss) else [])"
  by (induction ss rule: notifyToolListChanged.induct)
     (auto simp: names_of_Cons split: option.splits)

lemma tool_names:
  "k \<noteq> KOther \<Longrightarrow> names_of k (calls (registerOrUpdateTool d s upd td clo)) =
     names_of k (calls s) @
       (if upd \<and> registrations s \<noteq> None then
          (if k = KNotify \<and> reg_get s (tools (the (registrations s))) (name d) \<noteq> None
           then (case sessions s of None \<Rightarrow> []
                 | Some ss \<Rightarrow> map fst (filter (\<lambda>(sid, n). n \<noteq> None) ss))
           else [])
        else (if k = KTool then [def_name td] else []))"
  by (auto simp: registerOrUpdateTool_def Let_def names_of_Cons names_of_notify
        server_tool_def server_addWidgetTool_def
      split: option.splits prod.splits)

lemma def_name_toolDefinition [simp]:
  "def_name (buildToolDefinition E d tm) = name d"
  by (simp add: buildToolDefinition_def Let_def def_name_def obj_set_def update_conv')

lemma widgetMetadata_of_enrich [simp]:
  "widgetMetadata_of (enrichDefinitionWithServerOrigin d so) = widgetMetadata_of d"
  by (simp add: widgetMetadata_of_def)

lemma resolveExposeAsTool_enrich [simp]:
  "resolveExposeAsTool (enrichDefinitionWithServerOrigin d so) = resolveExposeAsTool d"
  by (simp add: resolveExposeAsTool_def split: option.splits)

lemma registration_unfold:
  assumes "uiResourceRegistration E s d = Inr s'"
  shows "\<exists>u mime.
     resolveUriAndMime E (enrichDefinitionWithServerOrigin d (server_origin E s))
        (storeWidgetDefinition E (enrichDefinitionWithServerOrigin d (server_origin E s)) s)
       = Inr (u, mime)
     \<and> s' = registration_result E s d u mime"
proof -
  have "\<exists>so. (if str_truthy (serverBaseUrl s)
              then (case urlOrigin E (the (serverBaseUrl s)) of
                      None \<Rightarrow> Inl (InvalidURL (the (serverBaseUrl s)))
                    | Some origin \<Rightarrow> Inr (Some origin))
              else Inr None) = Inr so"
    using assms unfolding uiResourceRegistration_def Let_def
    by (cases "(if str_truthy (serverBaseUrl s)
              then (case urlOrigin E (the (serverBaseUrl s)) of
                      None \<Rightarrow> Inl (InvalidURL (the (serverBaseUrl s)))
                    | Some origin \<Rightarrow> Inr (Some origin))
              else Inr None)") simp_all
  then obtain so where so: "(if str_truthy (serverBaseUrl s)
              then (case urlOrigin E (the (serverBaseUrl s)) of
                      None \<Rightarrow> Inl (InvalidURL (the (serverBaseUrl s)))
                    | Some origin \<Rightarrow> Inr (Some origin))
              else Inr None) = Inr so" by blast
  then have so_eq: "so = server_origin E s"
    by (auto simp: server_origin_def split: if_splits option.splits)
  let ?ed = "enrichDefinitionWithServerOrigin d so"
  obtain u mime where um: "resolveUriAndMime E ?ed (storeWidgetDefinition E ?ed s) = Inr (u, mime)"
    using assms unfolding uiResourceRegistration_def Let_def so
    by (cases "resolveUriAndMime E ?ed (storeWidgetDefinition E ?ed s)") auto
  have "s' = registration_result E s d u mime"
    using assms
    unfolding uiResourceRegistration_def registration_result_def registration_closure_def
      Let_def so so_eq[symmetric]
    by (simp add: um split: if_splits)
  with um so_eq show ?thesis by blast
qed

lemma result_names:
  assumes "k \<noteq> KOther" and "k \<noteq> KNotify"
  shows "names_of k (calls (registration_result E s d u mime)) =
     names_of k (calls s) @
       (if map_of (widgetDefinitions s) (name d) = None \<and> k = KResource then [name d]
        else if map_of (widgetDefinitions s) (name d) = None \<and> k = KTemplate
                \<and> (wtype d = ''appsSdk'' \<or> wtype d = ''mcpApps'')
          then [name d @ ''-dynamic'']
        else []) @
       (if map_of (widgetDefinitions s) (name d) = None \<and> sessions s \<noteq> None \<and> hasPropagate s
           \<and> k = KPropagate then [name d] else []) @
       (if truthy (resolveExposeAsTool d) \<and> k = KTool
           \<and> \<not> (map_of (widgetDefinitions s) (name d) \<noteq> None \<and> registrations s \<noteq> None)
        then [name d] else [])"
  using assms
  by (cases k; cases "map_of (widgetDefinitions s) (name d)"; cases "registrations s")
     (simp_all add: registration_result_def Let_def resources_names propagate_names tool_names)

lemma registration_names:
  assumes "uiResourceRegistration E s d = Inr s'" and "k \<noteq> KOther" and "k \<noteq> KNotify"
  shows "names_of k (calls s') =
     names_of k (calls s) @
       (if map_of (widgetDefinitions s) (name d) = None \<and> k = KResource then [name d]
        else if map_of (widgetDefinitions s) (name d) = None \<and> k = KTemplate
                \<and> (wtype d = ''appsSdk'' \<or> wtype d = ''mcpApps'')
          then [name d @ ''-dynamic'']
        else []) @
       (if map_of (widgetDefinitions s) (name d) = None \<and> sessions s \<noteq> None \<and> hasPropagate s
           \<and> k = KPropagate then [name d] else []) @
       (if truthy (resolveExposeAsTool d) \<and> k = KTool
           \<and> \<not> (map_of (widgetDefinitions s) (name d) \<noteq> None \<and> registrations s \<noteq> None)
        then [name d] else [])"
  using registration_unfold[OF assms(1)] result_names[OF assms(2,3)] by auto

lemma resolve_known:
  "known_type d \<Longrightarrow> \<exists>u mime. resolveUriAndMime E d s = Inr (u, mime)"
  by (auto simp: known_type_def resolveUriAndMime_def)

lemma resolve_unknown:
  "\<not> known_type d \<Longrightarrow> resolveUriAndMime E d s = Inl UnsupportedUIResourceType"
  by (auto simp: known_type_def resolveUriAndMime_def)

lemma registration_total:
  assumes "known_type d" and "origin_ok E s"
  shows "\<exists>s'. uiResourceRegistration E s d = Inr s'"
proof -
  have "\<exists>so. (if str_truthy (serverBaseUrl s)
              then (case urlOrigin E (the (serverBaseUrl s)) of
                      None \<Rightarrow> Inl (InvalidURL (the (serverBaseUrl s)))
                    | Some origin \<Rightarrow> Inr (Some origin))
              else Inr None) = Inr so"
    using assms(2) by (cases "str_truthy (serverBaseUrl s)") (auto simp: origin_ok_def)
  then obtain so where so: "(if str_truthy (serverBaseUrl s)
              then (case urlOrigin E (the (serverBaseUrl s)) of
                      None \<Rightarrow> Inl (InvalidURL (the (serverBaseUrl s)))
                    | Some origin \<Rightarrow> Inr (Some origin))
              else Inr None) = Inr so" by blast
  let ?ed = "enrichDefinitionWithServerOrigin d so"
  have "known_type ?ed" using assms(1) by (simp add: known_type_def)
  then obtain u mime where
    um: "resolveUriAndMime E ?ed (storeWidgetDefinition E ?ed s) = Inr (u, mime)"
    using resolve_known by blast
  show ?thesis
    unfolding uiResourceRegistration_def Let_def so
    by (simp add: um)
qed

lemma registration_Inr_known:
  assumes "uiResourceRegistration E s d = Inr s'"
  shows "known_type d"
proof -
  from registration_unfold[OF assms] obtain u mime where
    "resolveUriAndMime E (enrichDefinitionWithServerOrigin d (server_origin E s))
        (storeWidgetDefinition E (enrichDefinitionWithServerOrigin d (server_origin E s)) s)
       = Inr (u, mime)"
    by blast
  then have "known_type (enrichDefinitionWithServerOrigin d (server_origin E s))"
    using resolve_unknown by fastforce
  then show ?thesis by (simp add: known_type_def)
qed

lemma registration_log_Inr:
  "uiResourceRegistration E s d = Inr s' \<Longrightarrow>
   registration_log E s d k = Some (names_of k (calls s'))"
  by (simp add: registration_log_def)

lemma tools_of_frames [simp]:
  "tools_of (storeWidgetDefinition E d s) = tools_of s"
  "tools_of (server_resource s def h) = tools_of s"
  "tools_of (server_resourceTemplate s def h) = tools_of s"
  "tools_of (propagateResources d s upd) = tools_of s"
  by (auto simp: tools_of_def server_resource_def server_resourceTemplate_def Let_def
      split: option.splits jsval.splits)

lemma tools_of_records [simp]: "tools_of (s\<lparr>records := rs\<rparr>) = tools_of s"
  by (simp add: tools_of_def)

lemma tools_of_resources [simp]:
  "tools_of (registerOrUpdateResources d s upd u m rm clo) = tools_of s"
  by (auto simp: registerOrUpdateResources_def Let_def split: option.splits prod.splits)


lemma resolve_truthy:
  "truthy (resolveExposeAsTool d) =
     (case exposeAsTool d of
        Some b \<Rightarrow> b
      | None \<Rightarrow> nullish (js_get_opt (widgetMetadata_of d) ''exposeAsTool'')
                \<or> truthy (js_get_opt (widgetMetadata_of d) ''exposeAsTool''))"
  by (auto simp: resolveExposeAsTool_def js_nullish_or_def split: option.splits)



lemma example_facts [simp]:
  "known_type (bare_widget ''appsSdk'' n)"
  "known_type (bare_widget ''mcpApps'' n)"
  "known_type (bare_widget ''rawHtml'' n)"
  "known_type manual_widget"
  "origin_ok E bare_server" "origin_ok E live_server" "origin_ok E hookless_server"
  "widgetDefinitions live_server = []" "widgetDefinitions hookless_server = []"
  "widgetDefinitions bare_server = []"
  "calls live_server = []" "calls hookless_server = []" "calls bare_server = []"
  "name manual_widget = ''manual-widget''" "name (bare_widget t n) = n"
  "wtype manual_widget = ''appsSdk''" "wtype (bare_widget t n) = t"
  by (simp_all add: known_type_def origin_ok_def bare_widget_def manual_widget_def
       bare_server_def live_server_def hookless_server_def str_truthy_def)


text \<open>
  Claim C8, as the claim states it, fails on a server that has a live session but does
  not provide \<^verbatim>\<open>propagateWidgetResourcesToSessions\<close>: the resource is registered and
  nothing is propagated.
\<close>

theorem first_registration_without_hook:
  "registration_log stub_collaborators hookless_server (bare_widget ''mcpApps'' ''kanban'') KPropagate
     = Some []
   \<and> registration_log stub_collaborators hookless_server (bare_widget ''mcpApps'' ''kanban'') KResource
     = Some [''kanban'']
   \<and> sessions hookless_server = Some [(''session-1'', Some Notifies)]"
proof -
  obtain s1 where s1: "uiResourceRegistration stub_collaborators hookless_server
      (bare_widget ''mcpApps'' ''kanban'') = Inr s1"
    using registration_total[of "bare_widget ''mcpApps'' ''kanban''" stub_collaborators
        hookless_server] by auto
  have "hasPropagate hookless_server = False"
    by (simp add: hookless_server_def bare_server_def)
  then show ?thesis
    by (simp add: registration_log_Inr[OF s1] registration_names[OF s1])
       (simp add: hookless_server_def bare_server_def)
qed

text \<open>
  Claim C8, amended. A first-time registration of a widget (its name not yet in the
  widget-definition store) with one of the five variant tags on a server whose base URL
  parses returns, and in doing so calls the server's resource registration once for
  the name, its resource-template registration once for \<^verbatim>\<open>name-dynamic\<close> when the variant
  is Apps SDK or MCP Apps, and the server's \<^verbatim>\<open>propagateWidgetResourcesToSessions\<close> once
  for the name when the server has a session registry and that method. None of this
  depends on \<^verbatim>\<open>exposeAsTool\<close>, which decides only whether a tool is registered as well.
\<close>

theorem first_registration_resources:
  assumes "known_type d" and "origin_ok E s"
    and "map_of (widgetDefinitions s) (name d) = None"
  shows "\<exists>s'. uiResourceRegistration E s d = Inr s'
     \<and> names_of KResource (calls s') = names_of KResource (calls s) @ [name d]
     \<and> names_of KTemplate (calls s') = names_of KTemplate (calls s) @
          (if wtype d = ''appsSdk'' \<or> wtype d = ''mcpApps'' then [name d @ ''-dynamic''] else [])
     \<and> names_of KPropagate (calls s') = names_of KPropagate (calls s) @
          (if sessions s \<noteq> None \<and> hasPropagate s then [name d] else [])
     \<and> names_of KTool (calls s') = names_of KTool (calls s) @
          (if truthy (resolveExposeAsTool d) then [name d] else [])"
proof -
  from registration_total[OF assms(1,2)] obtain s' where
    s': "uiResourceRegistration E s d = Inr s'" by blast
  show ?thesis
    using s' assms(3) by (simp add: registration_names[OF s'])
qed

text \<open>
  The amended claim at the widget with \<^verbatim>\<open>exposeAsTool: false\<close> on the live server:
  resource, template and propagation, and no tool.
\<close>

theorem first_registration_resources_witness:
  "known_type manual_widget \<and> origin_ok stub_collaborators live_server
   \<and> map_of (widgetDefinitions live_server) (name manual_widget) = None
   \<and> truthy (resolveExposeAsTool manual_widget) = False
   \<and> registration_log stub_collaborators live_server manual_widget KResource = Some [''manual-widget'']
   \<and> registration_log stub_collaborators live_server manual_widget KTemplate
       = Some [''manual-widget-dynamic'']
   \<and> registration_log stub_collaborators live_server manual_widget KPropagate
       = Some [''manual-widget'']
   \<and> registration_log stub_collaborators live_server manual_widget KTool = Some []"
proof -
  have nt: "truthy (resolveExposeAsTool manual_widget) = False"
    by (simp add: resolve_truthy manual_widget_def bare_widget_def)
  have l: "sessions live_server \<noteq> None \<and> hasPropagate live_server"
    by (simp add: live_server_def bare_server_def)
  from first_registration_resources[of manual_widget stub_collaborators live_server]
  obtain s1 where s1: "uiResourceRegistration stub_collaborators live_server manual_widget = Inr s1"
    and r: "names_of KResource (calls s1) = [''manual-widget'']"
           "names_of KTemplate (calls s1) = [''manual-widget-dynamic'']"
           "names_of KPropagate (calls s1) = [''manual-widget'']"
           "names_of KTool (calls s1) = []"
    using nt l by auto
  show ?thesis
    using nt r by (simp add: registration_log_Inr[OF s1])
qed

section \<open>Properties of hot updates\<close>

lemma server_tool_frames [simp]:
  "widgetDefinitions (server_tool s def h) = widgetDefinitions s"
  "widgetDefinitions (server_addWidgetTool s def h) = widgetDefinitions s"
  by (simp_all add: server_tool_def server_addWidgetTool_def)

lemma tool_update_found:
  assumes "upd" and "registrations s = Some r"
    and "reg_get s (tools r) (name d) = Some (a, ex)"
  shows "registerOrUpdateTool d s upd td clo =
     s\<lparr>records := (records s)[a :=
          \<lparr>config = tool_update_config (config ex) td, handler = ToolCallback clo\<rparr>],
       calls := calls s @ (case sessions s of None \<Rightarrow> [] | Some ss \<Rightarrow> notifyToolListChanged ss)\<rparr>"
  using assms
  by (cases "sessions s") (simp_all add: registerOrUpdateTool_def Let_def tool_update_config_def)

lemma tool_update_missing:
  assumes "upd" and "registrations s = Some r" and "reg_get s (tools r) (name d) = None"
  shows "registerOrUpdateTool d s upd td clo = s"
  using assms by (simp add: registerOrUpdateTool_def)

lemma tool_register:
  assumes "\<not> (upd \<and> registrations s \<noteq> None)"
  shows "registerOrUpdateTool d s upd td clo =
    (if hasAddWidgetTool s
     then server_addWidgetTool
            (s\<lparr>calls := calls s @
               [CallConsoleLog (''[UI Registration] Registering new tool: '' @ name d)]\<rparr>)
            td (ToolCallback clo)
     else (server_tool
            (s\<lparr>calls := calls s @
               [CallConsoleLog (''[UI Registration] Registering new tool: '' @ name d)]\<rparr>)
            td (ToolCallback clo))
          \<lparr>calls := calls (server_tool
            (s\<lparr>calls := calls s @
               [CallConsoleLog (''[UI Registration] Registering new tool: '' @ name d)]\<rparr>)
            td (ToolCallback clo)) @ [CallSetTimeout 50]\<rparr>)"
proof -
  from assms have c: "(upd \<and> registrations s \<noteq> None) = False" by simp
  show ?thesis unfolding registerOrUpdateTool_def Let_def c by simp
qed

lemma tool_widgetDefinitions [simp]:
  "widgetDefinitions (registerOrUpdateTool d s upd td clo) = widgetDefinitions s"
proof (cases "upd \<and> registrations s \<noteq> None")
  case True
  then obtain r where r: "upd" "registrations s = Some r" by auto
  show ?thesis
  proof (cases "reg_get s (tools r) (name d)")
    case None
    then show ?thesis by (simp add: tool_update_missing[OF r])
  next
    case (Some p)
    then show ?thesis by (cases p) (simp add: tool_update_found[OF r])
  qed
next
  case False
  then show ?thesis by (simp add: tool_register)
qed

lemma store_widgetDefinitions:
  "widgetDefinitions (storeWidgetDefinition E d s) =
     (if wtype d = ''appsSdk'' \<or> wtype d = ''mcpApps'' then
        AList.update (name d)
          \<lparr>widgetType = wtype d,
           stored_metadata = (if wtype d = ''mcpApps'' then metadata d else None),
           fullDefinition = None\<rparr> (widgetDefinitions s)
      else widgetDefinitions s)"
  by (simp add: storeWidgetDefinition_def Let_def)

lemma result_widgetDefinitions:
  "widgetDefinitions (registration_result E s d u mime) =
     widgetDefinitions (storeWidgetDefinition E
        (enrichDefinitionWithServerOrigin d (server_origin E s)) s)"
  by (simp add: registration_result_def Let_def)

lemma registration_widgetDefinitions:
  assumes "uiResourceRegistration E s d = Inr s'"
  shows "map_of (widgetDefinitions s') k =
     (if (wtype d = ''appsSdk'' \<or> wtype d = ''mcpApps'') \<and> k = name d
      then Some \<lparr>widgetType = wtype d,
                 stored_metadata = (if wtype d = ''mcpApps''
                    then metadata (enrichDefinitionWithServerOrigin d (server_origin E s))
                    else None),
                 fullDefinition = None\<rparr>
      else map_of (widgetDefinitions s) k)"
proof -
  from registration_unfold[OF assms] obtain u mime where
    s': "s' = registration_result E s d u mime" by blast
  show ?thesis
    by (auto simp: s' result_widgetDefinitions store_widgetDefinitions update_conv')
qed

text \<open>
  Claim C1. After any registration of an Apps SDK or MCP Apps widget, first or hot update,
  the entry the store holds for the widget's name has no \<^verbatim>\<open>"mcp-use/fullDefinition"\<close>: the
  registrar writes only \<^verbatim>\<open>widgetType\<close> and \<^verbatim>\<open>metadata\<close>. So \<^verbatim>\<open>getLatestDefinition\<close> falls
  back to the definition the handler's closure captured, and every read handler for that
  name, also one created by an earlier registration, computes its result from its own
  captured definition, not from the latest one. (The tool callback does not consult the
  store at all.)
\<close>

theorem handlers_use_captured_definition:
  assumes "uiResourceRegistration E s d = Inr s'"
    and "wtype d = ''appsSdk'' \<or> wtype d = ''mcpApps''"
    and "name (c_definition clo) = name d"
  shows "getLatestDefinition s' clo = c_definition clo
    \<and> run_handler E s' (ResourceReadCallback clo) ReadResource =
        Some (JObj [(''contents'', JArr [resource_with_uri
           (createWidgetUIResource E (c_definition clo)
              (if wtype (c_definition clo) = ''externalUrl''
               then applyDefaultProps E (props (c_definition clo)) else JObj [])
              (c_serverConfig clo))
           (c_resourceUri clo)])])
    \<and> run_handler E s' (TemplateReadCallback clo) (ReadTemplate u) =
        Some (JObj [(''contents'', JArr [resource_with_uri
           (createWidgetUIResource E (c_definition clo) (JObj []) (c_serverConfig clo)) u])])"
proof -
  have g: "getLatestDefinition s' clo = c_definition clo"
    using assms(2,3)
    by (simp add: getLatestDefinition_def registration_widgetDefinitions[OF assms(1)])
  then show ?thesis
    by (simp add: resourceReadCallback_def templateReadCallback_def Let_def)
qed

lemma reg_get_addr:
  "reg_get s m k = (case reg_addr s m k of None \<Rightarrow> None | Some a \<Rightarrow> Some (a, records s ! a))"
  by (simp add: reg_get_def reg_addr_def split: option.splits)

lemma reg_addr_cong:
  "length (records s1) = length (records s) \<Longrightarrow> reg_addr s1 m k = reg_addr s m k"
  by (simp add: reg_addr_def split: option.splits)

lemma reg_addr_bound: "reg_addr s m k = Some a \<Longrightarrow> a < length (records s)"
  by (simp add: reg_addr_def split: option.splits if_splits)

lemma patch_fold_length:
  "length (foldl (\<lambda>rs (k, a). if a < length rs then f rs k a else rs) rs0 ts) = length rs0"
  if "\<And>rs k a. length (f rs k a) = length rs"
  using that by (induction ts arbitrary: rs0) (auto split: prod.splits)

lemma patch_length [simp]:
  "length (records (patchToolsForWidget E d s)) = length (records s)"
proof (cases "registrations s")
  case None
  then show ?thesis by (simp add: patchToolsForWidget_def)
next
  case (Some r)
  have "length (foldl (\<lambda>rs (k, a). if a < length rs then
           (let toolReg = rs ! a;
                widgetConfig = js_get (JObj (config toolReg)) ''widget''
            in if js_get_opt widgetConfig ''name'' = JStr (name d) then
                 let buildIdPart = getBuildIdPart (buildId s);
                     outputTemplate = ''ui://widget/'' @ name d @ buildIdPart @ ''.html''
                 in rs[a := toolReg\<lparr>config :=
                      obj_set (config toolReg) ''_meta''
                        (JObj (buildDualProtocolMetadata E d outputTemplate
                           (js_get (JObj (config toolReg)) ''_meta'')))\<rparr>]
               else rs) else rs) (records s) (tools r)) = length (records s)"
    by (rule patch_fold_length) (simp add: Let_def)
  then show ?thesis using Some by (simp add: patchToolsForWidget_def)
qed

lemma store_length [simp]:
  "length (records (storeWidgetDefinition E d s)) = length (records s)"
  by (simp add: storeWidgetDefinition_def Let_def)

lemma hot_records_length [simp]: "length (hot_records d s r u rm clo) = length (records s)"
  by (simp add: hot_records_def Let_def split: option.splits)

lemma reg_addr_records [simp]:
  "length rs = length (records s) \<Longrightarrow> reg_addr (s\<lparr>records := rs\<rparr>) m k = reg_addr s m k"
  by (simp add: reg_addr_def split: option.splits)

lemma resources_update:
  assumes "registrations s = Some r"
  shows "registerOrUpdateResources d s True u mime rm clo = s\<lparr>records := hot_records d s r u rm clo\<rparr>"
proof -
  let ?k1 = "name d @ '':'' @ u"
  let ?k2 = "name d @ ''-dynamic''"
  show ?thesis
  proof (cases "reg_addr s (resources r) ?k1")
    case None
    then show ?thesis
      using assms
      by (cases "reg_addr s (resourceTemplates r) ?k2")
         (simp_all add: registerOrUpdateResources_def hot_records_def reg_get_addr Let_def
            resource_update_config_def)
  next
    case (Some a)
    then show ?thesis
      using assms
      by (cases "reg_addr s (resourceTemplates r) ?k2")
         (simp_all add: registerOrUpdateResources_def hot_records_def reg_get_addr Let_def
            resource_update_config_def)
  qed
qed

lemma tool_update:
  assumes "registrations s = Some r"
  shows "registerOrUpdateTool d s True td clo =
    (case reg_addr s (tools r) (name d) of
       None \<Rightarrow> s
     | Some a \<Rightarrow>
         s\<lparr>records := (records s)[a :=
              \<lparr>config = tool_update_config (config (records s ! a)) td,
               handler = ToolCallback clo\<rparr>],
           calls := calls s @
             (case sessions s of None \<Rightarrow> [] | Some ss \<Rightarrow> notifyToolListChanged ss)\<rparr>)"
proof (cases "reg_addr s (tools r) (name d)")
  case None
  then have "reg_get s (tools r) (name d) = None" by (simp add: reg_get_addr)
  from tool_update_missing[OF _ assms this] None show ?thesis by simp
next
  case (Some a)
  then have "reg_get s (tools r) (name d) = Some (a, records s ! a)" by (simp add: reg_get_addr)
  from tool_update_found[OF _ assms this] Some show ?thesis by simp
qed

lemma reg_addr_store [simp]:
  "reg_addr (storeWidgetDefinition E d s) m k = reg_addr s m k"
  by (rule reg_addr_cong) simp

lemma hot_result_eq:
  assumes "map_of (widgetDefinitions s) (name d) \<noteq> None" and "registrations s = Some r"
  shows "registration_result E s d u mime = hot_result E s r d u"
proof -
  let ?ed = "enrichDefinitionWithServerOrigin d (server_origin E s)"
  let ?s1 = "storeWidgetDefinition E ?ed s"
  have r1: "registrations ?s1 = Some r" using assms(2) by simp
  let ?s2 = "?s1\<lparr>records := hot_records ?ed ?s1 r u (buildResourceMeta E ?ed)
                 (registration_closure E s d u)\<rparr>"
  have r2: "registrations ?s2 = Some r" using r1 by simp
  have p: "propagateResources ?ed ?s2 True = ?s2" by (simp add: propagateResources_def)
  show ?thesis
    using assms(1)
    by (cases "reg_addr s (tools r) (name d)")
       (simp_all add: registration_result_def hot_result_def Let_def resources_update[OF r1] p
          tool_update[OF r2])
qed

lemma enrich_widget [simp]: "widget (enrichDefinitionWithServerOrigin d so) = widget d"
  by (cases "str_truthy so \<and> wtype d = ''mcpApps''")
     (auto simp: enrich_eq enrich_noop Let_def)

lemma resolve_frame [simp]:
  "resolveUriAndMime E (enrichDefinitionWithServerOrigin d so) (storeWidgetDefinition E d' s)
     = resolveUriAndMime E d s"
  by (simp add: resolveUriAndMime_def)

lemma registration_unfold_uri:
  assumes "uiResourceRegistration E s d = Inr s'"
  shows "\<exists>u mime. resolveUriAndMime E d s = Inr (u, mime) \<and> s' = registration_result E s d u mime"
  using registration_unfold[OF assms] by simp

lemma reg_addr_mem: "reg_addr s m k = Some a \<Longrightarrow> a \<in> set (map snd m)"
  by (auto simp: reg_addr_def split: option.splits if_splits dest!: map_of_SomeD
      intro: rev_image_eqI)

lemma distinct_addrs:
  assumes "distinct (map snd (tools r) @ map snd (resources r) @ map snd (resourceTemplates r))"
  shows "reg_addr s (resources r) k1 = Some a \<Longrightarrow> reg_addr s (resourceTemplates r) k2 \<noteq> Some a"
    and "reg_addr s (resources r) k1 = Some a \<Longrightarrow> reg_addr s (tools r) k3 \<noteq> Some a"
    and "reg_addr s (resourceTemplates r) k2 = Some a \<Longrightarrow> reg_addr s (tools r) k3 \<noteq> Some a"
proof -
  from assms have
    d1: "set (map snd (resources r)) \<inter> set (map snd (resourceTemplates r)) = {}" and
    d2: "set (map snd (tools r)) \<inter> set (map snd (resources r)) = {}" and
    d3: "set (map snd (tools r)) \<inter> set (map snd (resourceTemplates r)) = {}"
    by auto
  show "reg_addr s (resources r) k1 = Some a \<Longrightarrow> reg_addr s (resourceTemplates r) k2 \<noteq> Some a"
    using d1 reg_addr_mem[of s "resources r" k1 a] reg_addr_mem[of s "resourceTemplates r" k2 a]
    by blast
  show "reg_addr s (resources r) k1 = Some a \<Longrightarrow> reg_addr s (tools r) k3 \<noteq> Some a"
    using d2 reg_addr_mem[of s "resources r" k1 a] reg_addr_mem[of s "tools r" k3 a]
    by blast
  show "reg_addr s (resourceTemplates r) k2 = Some a \<Longrightarrow> reg_addr s (tools r) k3 \<noteq> Some a"
    using d3 reg_addr_mem[of s "resourceTemplates r" k2 a] reg_addr_mem[of s "tools r" k3 a]
    by blast
qed

lemma hot_result_frame:
  assumes "registrations s = Some r"
  shows "registrations (hot_result E s r d u) = Some r"
    and "length (records (hot_result E s r d u)) = length (records s)"
  using assms by (auto simp: hot_result_def Let_def split: option.splits)

lemma map_of_obj_set: "map_of (obj_set kvs k v) k' = (if k' = k then Some v else map_of kvs k')"
  by (simp add: obj_set_def update_conv')

lemma resource_update_lookup:
  "map_of (resource_update_config cfg rm) k =
     (if k = ''_meta'' then Some (JObj rm) else map_of cfg k)"
  by (simp add: resource_update_config_def obj_spread_def map_of_obj_set)

lemma tool_update_lookup:
  "map_of (tool_update_config cfg td) k =
     (if k \<in> {''title'', ''description'', ''annotations'', ''_meta'', ''inputs'', ''schema''}
      then Some (js_get (JObj td) k) else map_of cfg k)"
  by (simp add: tool_update_config_def obj_spread_def map_of_obj_set)

lemma toolDefinition_lookup:
  assumes "k \<noteq> ''schema''" and "k \<noteq> ''inputs''"
  shows "map_of (buildToolDefinition E d tm) k =
     map_of [(''name'', JStr (name d)),
             (''title'', opt_str (title d)),
             (''description'', opt_str (description d)),
             (''annotations'', toolAnnotations d),
             (''_meta'', if length tm > 0 then JObj tm else JUndefined)] k"
proof -
  have gen: "\<And>A B C D td x y z.
      map_of (if A then obj_set td ''schema'' x
              else if B then (if C then obj_set td ''inputs'' y else td)
              else if D then obj_set td ''inputs'' z else td) k = map_of td k"
    using assms by (simp add: map_of_obj_set)
  show ?thesis unfolding buildToolDefinition_def Let_def by (rule gen)
qed

lemma toolDefinition_fields [simp]:
  "map_of (buildToolDefinition E d tm) ''title'' = Some (opt_str (title d))"
  "map_of (buildToolDefinition E d tm) ''description'' = Some (opt_str (description d))"
  "map_of (buildToolDefinition E d tm) ''annotations'' = Some (toolAnnotations d)"
  by (simp_all add: toolDefinition_lookup)

lemma enrich_toolAnnotations [simp]:
  "toolAnnotations (enrichDefinitionWithServerOrigin d so) = toolAnnotations d"
  by (cases "str_truthy so \<and> wtype d = ''mcpApps''")
     (auto simp: enrich_eq enrich_noop Let_def)

lemma fold_rel:
  assumes len: "\<And>rs x. length (g rs x) = length rs"
    and step: "\<And>rs x b. b < length rs \<Longrightarrow> R (rs ! b) (g rs x ! b)"
    and refl: "\<And>x. R x x"
    and trans: "\<And>x y z. R x y \<Longrightarrow> R y z \<Longrightarrow> R x z"
  shows "b < length rs0 \<Longrightarrow> R (rs0 ! b) (foldl g rs0 ts ! b)"
proof (induction ts arbitrary: rs0)
  case Nil
  then show ?case by (simp add: refl)
next
  case (Cons x ts)
  have "R (rs0 ! b) (g rs0 x ! b)" using step Cons.prems by blast
  moreover have "R (g rs0 x ! b) (foldl g (g rs0 x) ts ! b)"
    using Cons.IH[of "g rs0 x"] Cons.prems len by simp
  ultimately show ?case using trans by fastforce
qed

lemma patch_rel:
  assumes "b < length (records s)"
  shows "same_but_meta (records s ! b) (records (patchToolsForWidget E d s) ! b)"
proof (cases "registrations s")
  case None
  then show ?thesis by (simp add: patchToolsForWidget_def same_but_meta_def)
next
  case (Some r)
  let ?g = "\<lambda>rs (k, a). if a < length rs then
           (let toolReg = rs ! a;
                widgetConfig = js_get (JObj (config toolReg)) ''widget''
            in if js_get_opt widgetConfig ''name'' = JStr (name d) then
                 let buildIdPart = getBuildIdPart (buildId s);
                     outputTemplate = ''ui://widget/'' @ name d @ buildIdPart @ ''.html''
                 in rs[a := toolReg\<lparr>config :=
                      obj_set (config toolReg) ''_meta''
                        (JObj (buildDualProtocolMetadata E d outputTemplate
                           (js_get (JObj (config toolReg)) ''_meta'')))\<rparr>]
               else rs) else rs"
  have "same_but_meta (records s ! b) (foldl ?g (records s) (tools r) ! b)"
  proof (rule fold_rel[where R = same_but_meta and g = ?g])
    show "\<And>rs x. length (?g rs x) = length rs"
      by (auto simp: Let_def split: prod.splits)
    show "\<And>rs x b. b < length rs \<Longrightarrow> same_but_meta (rs ! b) (?g rs x ! b)"
      by (auto simp: Let_def same_but_meta_def nth_list_update map_of_obj_set split: prod.splits)
    show "\<And>x. same_but_meta x x" by (simp add: same_but_meta_def)
    show "\<And>x y z. same_but_meta x y \<Longrightarrow> same_but_meta y z \<Longrightarrow> same_but_meta x z"
      by (simp add: same_but_meta_def)
    show "b < length (records s)" by (rule assms)
  qed
  then show ?thesis using Some by (simp add: patchToolsForWidget_def)
qed

lemma store_rel:
  assumes "b < length (records s)"
  shows "same_but_meta (records s ! b) (records (storeWidgetDefinition E d s) ! b)"
proof -
  have r: "same_but_meta x x" for x by (simp add: same_but_meta_def)
  show ?thesis
    using patch_rel[of b "s\<lparr>widgetDefinitions := w\<rparr>" for w] assms
    by (auto simp: storeWidgetDefinition_def Let_def r)
qed


lemma hot_records_nth:
  shows "reg_addr s (resources r) (name d @ '':'' @ u) = Some a \<Longrightarrow>
         reg_addr s (resourceTemplates r) (name d @ ''-dynamic'') \<noteq> Some a \<Longrightarrow>
         hot_records d s r u rm clo ! a =
           \<lparr>config = resource_update_config (config (records s ! a)) rm,
            handler = ResourceReadCallback clo\<rparr>"
    and "reg_addr s (resourceTemplates r) (name d @ ''-dynamic'') = Some a \<Longrightarrow>
         reg_addr s (resources r) (name d @ '':'' @ u) \<noteq> Some a \<Longrightarrow>
         hot_records d s r u rm clo ! a =
           \<lparr>config = resource_update_config (config (records s ! a)) rm,
            handler = TemplateReadCallback clo\<rparr>"
    and "reg_addr s (resources r) (name d @ '':'' @ u) \<noteq> Some a \<Longrightarrow>
         reg_addr s (resourceTemplates r) (name d @ ''-dynamic'') \<noteq> Some a \<Longrightarrow>
         hot_records d s r u rm clo ! a = records s ! a"
proof -
  show "reg_addr s (resources r) (name d @ '':'' @ u) = Some a \<Longrightarrow>
         reg_addr s (resourceTemplates r) (name d @ ''-dynamic'') \<noteq> Some a \<Longrightarrow>
         hot_records d s r u rm clo ! a =
           \<lparr>config = resource_update_config (config (records s ! a)) rm,
            handler = ResourceReadCallback clo\<rparr>"
    using reg_addr_bound[of s "resources r" "name d @ '':'' @ u" a]
    by (auto simp: hot_records_def Let_def split: option.splits)
  show "reg_addr s (resourceTemplates r) (name d @ ''-dynamic'') = Some a \<Longrightarrow>
         reg_addr s (resources r) (name d @ '':'' @ u) \<noteq> Some a \<Longrightarrow>
         hot_records d s r u rm clo ! a =
           \<lparr>config = resource_update_config (config (records s ! a)) rm,
            handler = TemplateReadCallback clo\<rparr>"
    using reg_addr_bound[of s "resourceTemplates r" "name d @ ''-dynamic''" a]
    by (auto simp: hot_records_def Let_def split: option.splits)
  show "reg_addr s (resources r) (name d @ '':'' @ u) \<noteq> Some a \<Longrightarrow>
         reg_addr s (resourceTemplates r) (name d @ ''-dynamic'') \<noteq> Some a \<Longrightarrow>
         hot_records d s r u rm clo ! a = records s ! a"
    by (auto simp: hot_records_def Let_def split: option.splits)
qed

lemma hot_result_records:
  assumes dist: "distinct (map snd (tools r) @ map snd (resources r) @ map snd (resourceTemplates r))"
  shows "reg_addr s (resources r) (name d @ '':'' @ u) = Some a \<Longrightarrow>
           records (hot_result E s r d u) ! a =
             \<lparr>config = resource_update_config
                  (config (records (storeWidgetDefinition E
                     (enrichDefinitionWithServerOrigin d (server_origin E s)) s) ! a))
                  (buildResourceMeta E (enrichDefinitionWithServerOrigin d (server_origin E s))),
              handler = ResourceReadCallback (registration_closure E s d u)\<rparr>"
    and "reg_addr s (resourceTemplates r) (name d @ ''-dynamic'') = Some a \<Longrightarrow>
           records (hot_result E s r d u) ! a =
             \<lparr>config = resource_update_config
                  (config (records (storeWidgetDefinition E
                     (enrichDefinitionWithServerOrigin d (server_origin E s)) s) ! a))
                  (buildResourceMeta E (enrichDefinitionWithServerOrigin d (server_origin E s))),
              handler = TemplateReadCallback (registration_closure E s d u)\<rparr>"
    and "truthy (resolveExposeAsTool d) \<Longrightarrow> reg_addr s (tools r) (name d) = Some a \<Longrightarrow>
           records (hot_result E s r d u) ! a =
             \<lparr>config = tool_update_config
                  (config (records (storeWidgetDefinition E
                     (enrichDefinitionWithServerOrigin d (server_origin E s)) s) ! a))
                  (buildToolDefinition E (enrichDefinitionWithServerOrigin d (server_origin E s))
                     (buildToolMetadata E
                        (enrichDefinitionWithServerOrigin d (server_origin E s)) u)),
              handler = ToolCallback (registration_closure E s d u)\<rparr>"
proof -
  let ?ed = "enrichDefinitionWithServerOrigin d (server_origin E s)"
  let ?s1 = "storeWidgetDefinition E ?ed s"
  let ?clo = "registration_closure E s d u"
  let ?rm = "buildResourceMeta E ?ed"
  let ?hr = "hot_records ?ed ?s1 r u ?rm ?clo"
  have nth: "\<And>b. reg_addr s (tools r) (name d) \<noteq> Some b \<Longrightarrow>
     records (hot_result E s r d u) ! b = ?hr ! b"
    by (auto simp: hot_result_def Let_def split: option.splits)
  {
    assume a: "reg_addr s (resources r) (name d @ '':'' @ u) = Some a"
    have n1: "reg_addr s (resourceTemplates r) (name d @ ''-dynamic'') \<noteq> Some a"
      and n2: "reg_addr s (tools r) (name d) \<noteq> Some a"
      using distinct_addrs(1,2)[OF dist a] by auto
    have a1: "reg_addr ?s1 (resources r) (name ?ed @ '':'' @ u) = Some a" using a by simp
    have n1': "reg_addr ?s1 (resourceTemplates r) (name ?ed @ ''-dynamic'') \<noteq> Some a"
      using n1 by simp
    show "records (hot_result E s r d u) ! a =
             \<lparr>config = resource_update_config (config (records ?s1 ! a)) ?rm,
              handler = ResourceReadCallback ?clo\<rparr>"
      unfolding nth[OF n2] by (rule hot_records_nth(1)[OF a1 n1'])
  }
  {
    assume a: "reg_addr s (resourceTemplates r) (name d @ ''-dynamic'') = Some a"
    have n2: "reg_addr s (tools r) (name d) \<noteq> Some a"
      using distinct_addrs(3)[OF dist a] by auto
    have n1: "reg_addr s (resources r) (name d @ '':'' @ u) \<noteq> Some a"
      using distinct_addrs(1)[OF dist, of s "name d @ '':'' @ u" a "name d @ ''-dynamic''"] a
      by auto
    have a1: "reg_addr ?s1 (resourceTemplates r) (name ?ed @ ''-dynamic'') = Some a"
      using a by simp
    have n1': "reg_addr ?s1 (resources r) (name ?ed @ '':'' @ u) \<noteq> Some a"
      using n1 by simp
    show "records (hot_result E s r d u) ! a =
             \<lparr>config = resource_update_config (config (records ?s1 ! a)) ?rm,
              handler = TemplateReadCallback ?clo\<rparr>"
      unfolding nth[OF n2] by (rule hot_records_nth(2)[OF a1 n1'])
  }
  {
    assume t: "truthy (resolveExposeAsTool d)" and a: "reg_addr s (tools r) (name d) = Some a"
    have n1: "reg_addr s (resources r) (name d @ '':'' @ u) \<noteq> Some a"
      using distinct_addrs(2)[OF dist, of s "name d @ '':'' @ u" a "name d"] a by auto
    have n2: "reg_addr s (resourceTemplates r) (name d @ ''-dynamic'') \<noteq> Some a"
      using distinct_addrs(3)[OF dist, of s "name d @ ''-dynamic''" a "name d"] a by auto
    have n1': "reg_addr ?s1 (resources r) (name ?ed @ '':'' @ u) \<noteq> Some a"
      using n1 by simp
    have n2': "reg_addr ?s1 (resourceTemplates r) (name ?ed @ ''-dynamic'') \<noteq> Some a"
      using n2 by simp
    have hr: "?hr ! a = records ?s1 ! a" by (rule hot_records_nth(3)[OF n1' n2'])
    from reg_addr_bound[OF a] have "a < length ?hr" by simp
    then show "records (hot_result E s r d u) ! a =
             \<lparr>config = tool_update_config (config (records ?s1 ! a))
                  (buildToolDefinition E ?ed (buildToolMetadata E ?ed u)),
              handler = ToolCallback ?clo\<rparr>"
      using t a by (simp add: hot_result_def Let_def hr)
  }
qed

lemma store_lookup:
  assumes "b < length (records s)" and "k \<noteq> ''_meta''"
  shows "map_of (config (records (storeWidgetDefinition E d s) ! b)) k
           = map_of (config (records s ! b)) k"
  using store_rel[OF assms(1), of E d] assms(2) by (simp add: same_but_meta_def)

lemma hot_result_other:
  assumes "\<not> (truthy (resolveExposeAsTool d) \<and> reg_addr s (tools r) (name d) = Some b)"
    and "reg_addr s (resources r) (name d @ '':'' @ u) \<noteq> Some b"
    and "reg_addr s (resourceTemplates r) (name d @ ''-dynamic'') \<noteq> Some b"
  shows "records (hot_result E s r d u) ! b =
           records (storeWidgetDefinition E
             (enrichDefinitionWithServerOrigin d (server_origin E s)) s) ! b"
proof -
  let ?ed = "enrichDefinitionWithServerOrigin d (server_origin E s)"
  let ?s1 = "storeWidgetDefinition E ?ed s"
  let ?hr = "hot_records ?ed ?s1 r u (buildResourceMeta E ?ed) (registration_closure E s d u)"
  have n1: "reg_addr ?s1 (resources r) (name ?ed @ '':'' @ u) \<noteq> Some b"
    using assms(2) by simp
  have n2: "reg_addr ?s1 (resourceTemplates r) (name ?ed @ ''-dynamic'') \<noteq> Some b"
    using assms(3) by simp
  have hr: "?hr ! b = records ?s1 ! b" by (rule hot_records_nth(3)[OF n1 n2])
  have "records (hot_result E s r d u) ! b = ?hr ! b"
    using assms(1) by (auto simp: hot_result_def Let_def split: option.splits)
  then show ?thesis using hr by simp
qed

text \<open>
  Claim C2, amended. A registration whose name is already in the widget-definition store
  (an earlier registration of an Apps SDK or MCP Apps widget of that name put it there;
  the definition now registered may be of any variant), on a server that exposes its
  registrations, each record bound once, makes no call to the server's resource,
  resource-template or tool registration; the registration maps are unchanged, so every
  key is bound to the record it was bound to; and no record is allocated. The records
  found under the widget's resource key, template key and, if the tool is exposed, tool
  name are written in place: the handler becomes the new callback, which captures the
  new definition, and the configuration becomes the old one with \<^verbatim>\<open>_meta\<close> replaced by the
  new resource metadata (resource and template), or with \<^verbatim>\<open>title\<close>, \<^verbatim>\<open>description\<close>,
  \<^verbatim>\<open>annotations\<close>, \<^verbatim>\<open>_meta\<close>, \<^verbatim>\<open>inputs\<close> and \<^verbatim>\<open>schema\<close> replaced by those of the new tool
  definition (tool). Every other record keeps its handler and its configuration, but for
  the \<^verbatim>\<open>_meta\<close> that the registrar's loop over the tools may patch; so does the tool record
  when the tool is not exposed. A registration whose name is not in the store is a first
  registration: it calls the resource registration, and the tool registration if the
  tool is exposed; afterwards the name is in the store exactly when the variant is Apps
  SDK or MCP Apps, so a name that was registered with legacy variants only is registered
  again each time. When the name is in the store and the server does not expose its
  registrations, no resource is registered and the tool, if exposed, is registered again.
\<close>

theorem hot_update_in_place:
  assumes reg: "uiResourceRegistration E s d = Inr s'"
  shows
   "(map_of (widgetDefinitions s) (name d) \<noteq> None \<and> registrations s = Some r
       \<and> distinct (map snd (tools r) @ map snd (resources r) @ map snd (resourceTemplates r)) \<longrightarrow>
      names_of KResource (calls s') = names_of KResource (calls s)
    \<and> names_of KTemplate (calls s') = names_of KTemplate (calls s)
    \<and> names_of KTool (calls s') = names_of KTool (calls s)
    \<and> registrations s' = Some r
    \<and> length (records s') = length (records s)
    \<and> (\<exists>u mime clo. resolveUriAndMime E d s = Inr (u, mime)
        \<and> c_definition clo = enrichDefinitionWithServerOrigin d (server_origin E s)
        \<and> c_displayName clo = (if str_truthy (title d) then the (title d) else name d)
        \<and> c_resourceUri clo = u
        \<and> (\<forall>a. reg_addr s (resources r) (name d @ '':'' @ u) = Some a \<longrightarrow>
              handler (records s' ! a) = ResourceReadCallback clo
            \<and> (\<forall>k. map_of (config (records s' ! a)) k =
                  (if k = ''_meta''
                   then Some (JObj (buildResourceMeta E
                          (enrichDefinitionWithServerOrigin d (server_origin E s))))
                   else map_of (config (records s ! a)) k)))
        \<and> (\<forall>a. reg_addr s (resourceTemplates r) (name d @ ''-dynamic'') = Some a \<longrightarrow>
              handler (records s' ! a) = TemplateReadCallback clo
            \<and> (\<forall>k. map_of (config (records s' ! a)) k =
                  (if k = ''_meta''
                   then Some (JObj (buildResourceMeta E
                          (enrichDefinitionWithServerOrigin d (server_origin E s))))
                   else map_of (config (records s ! a)) k)))
        \<and> (\<forall>a. truthy (resolveExposeAsTool d) \<and> reg_addr s (tools r) (name d) = Some a \<longrightarrow>
              handler (records s' ! a) = ToolCallback clo
            \<and> (\<forall>k. map_of (config (records s' ! a)) k =
                  (if k \<in> {''title'', ''description'', ''annotations'', ''_meta'', ''inputs'',
                            ''schema''}
                   then Some (js_get (JObj (buildToolDefinition E
                          (enrichDefinitionWithServerOrigin d (server_origin E s))
                          (buildToolMetadata E
                             (enrichDefinitionWithServerOrigin d (server_origin E s)) u))) k)
                   else map_of (config (records s ! a)) k))
            \<and> js_get (JObj (config (records s' ! a))) ''title'' = opt_str (title d)
            \<and> js_get (JObj (config (records s' ! a))) ''description'' = opt_str (description d)
            \<and> js_get (JObj (config (records s' ! a))) ''annotations'' = toolAnnotations d)
        \<and> (\<forall>b. b < length (records s)
               \<and> reg_addr s (resources r) (name d @ '':'' @ u) \<noteq> Some b
               \<and> reg_addr s (resourceTemplates r) (name d @ ''-dynamic'') \<noteq> Some b
               \<and> \<not> (truthy (resolveExposeAsTool d) \<and> reg_addr s (tools r) (name d) = Some b) \<longrightarrow>
              handler (records s' ! b) = handler (records s ! b)
            \<and> (\<forall>k. k \<noteq> ''_meta'' \<longrightarrow>
                  map_of (config (records s' ! b)) k = map_of (config (records s ! b)) k))))
    \<and> (map_of (widgetDefinitions s) (name d) = None \<longrightarrow>
          names_of KResource (calls s') = names_of KResource (calls s) @ [name d]
        \<and> names_of KTool (calls s') = names_of KTool (calls s) @
             (if truthy (resolveExposeAsTool d) then [name d] else [])
        \<and> (map_of (widgetDefinitions s') (name d) \<noteq> None)
             = (wtype d = ''appsSdk'' \<or> wtype d = ''mcpApps''))
    \<and> (map_of (widgetDefinitions s) (name d) \<noteq> None \<and> registrations s = None \<longrightarrow>
          names_of KResource (calls s') = names_of KResource (calls s)
        \<and> names_of KTool (calls s') = names_of KTool (calls s) @
             (if truthy (resolveExposeAsTool d) then [name d] else []))"
proof (intro conjI impI)
  assume h: "map_of (widgetDefinitions s) (name d) \<noteq> None \<and> registrations s = Some r
       \<and> distinct (map snd (tools r) @ map snd (resources r) @ map snd (resourceTemplates r))"
  then have upd: "map_of (widgetDefinitions s) (name d) \<noteq> None"
    and r: "registrations s = Some r"
    and dist: "distinct (map snd (tools r) @ map snd (resources r) @ map snd (resourceTemplates r))"
    by simp_all
  let ?ed = "enrichDefinitionWithServerOrigin d (server_origin E s)"
  let ?rm = "buildResourceMeta E ?ed"
  from registration_unfold_uri[OF reg] obtain u mime where
    um: "resolveUriAndMime E d s = Inr (u, mime)"
    and s': "s' = registration_result E s d u mime" by blast
  have hr: "s' = hot_result E s r d u" using s' hot_result_eq[OF upd r] by simp
  show "names_of KResource (calls s') = names_of KResource (calls s)"
    and "names_of KTemplate (calls s') = names_of KTemplate (calls s)"
    and "names_of KTool (calls s') = names_of KTool (calls s)"
    using upd r by (simp_all add: registration_names[OF reg])
  show "registrations s' = Some r" and "length (records s') = length (records s)"
    using hot_result_frame[OF r] hr by simp_all
  let ?clo = "registration_closure E s d u"
  let ?td = "buildToolDefinition E ?ed (buildToolMetadata E ?ed u)"
  note rec = hot_result_records[OF dist, where s = s and d = d and u = u and E = E, folded hr]
  have res: "handler (records s' ! a) = ResourceReadCallback ?clo
            \<and> (\<forall>k. map_of (config (records s' ! a)) k =
                  (if k = ''_meta'' then Some (JObj ?rm) else map_of (config (records s ! a)) k))"
    if a: "reg_addr s (resources r) (name d @ '':'' @ u) = Some a" for a
    using reg_addr_bound[OF a]
    by (simp add: rec(1)[OF a] resource_update_lookup store_lookup)
  have tmpl: "handler (records s' ! a) = TemplateReadCallback ?clo
            \<and> (\<forall>k. map_of (config (records s' ! a)) k =
                  (if k = ''_meta'' then Some (JObj ?rm) else map_of (config (records s ! a)) k))"
    if a: "reg_addr s (resourceTemplates r) (name d @ ''-dynamic'') = Some a" for a
    using reg_addr_bound[OF a]
    by (simp add: rec(2)[OF a] resource_update_lookup store_lookup)
  have tool: "handler (records s' ! a) = ToolCallback ?clo
            \<and> (\<forall>k. map_of (config (records s' ! a)) k =
                  (if k \<in> {''title'', ''description'', ''annotations'', ''_meta'', ''inputs'',
                            ''schema''}
                   then Some (js_get (JObj ?td) k)
                   else map_of (config (records s ! a)) k))
            \<and> js_get (JObj (config (records s' ! a))) ''title'' = opt_str (title d)
            \<and> js_get (JObj (config (records s' ! a))) ''description'' = opt_str (description d)
            \<and> js_get (JObj (config (records s' ! a))) ''annotations'' = toolAnnotations d"
    if t: "truthy (resolveExposeAsTool d) \<and> reg_addr s (tools r) (name d) = Some a" for a
  proof -
    from t have a: "reg_addr s (tools r) (name d) = Some a" and tt: "truthy (resolveExposeAsTool d)"
      by simp_all
    have lk: "map_of (config (records s' ! a)) k =
                  (if k \<in> {''title'', ''description'', ''annotations'', ''_meta'', ''inputs'',
                            ''schema''}
                   then Some (js_get (JObj ?td) k)
                   else map_of (config (records s ! a)) k)" for k
      using reg_addr_bound[OF a]
      by (simp add: rec(3)[OF tt a] tool_update_lookup store_lookup)
    have "handler (records s' ! a) = ToolCallback ?clo" by (simp add: rec(3)[OF tt a])
    moreover have "js_get (JObj (config (records s' ! a))) ''title'' = opt_str (title d)"
      "js_get (JObj (config (records s' ! a))) ''description'' = opt_str (description d)"
      "js_get (JObj (config (records s' ! a))) ''annotations'' = toolAnnotations d"
      by (simp_all add: lk)
    ultimately show ?thesis using lk by blast
  qed
  have frame: "handler (records s' ! b) = handler (records s ! b)
            \<and> (\<forall>k. k \<noteq> ''_meta'' \<longrightarrow>
                  map_of (config (records s' ! b)) k = map_of (config (records s ! b)) k)"
    if b: "b < length (records s)
               \<and> reg_addr s (resources r) (name d @ '':'' @ u) \<noteq> Some b
               \<and> reg_addr s (resourceTemplates r) (name d @ ''-dynamic'') \<noteq> Some b
               \<and> \<not> (truthy (resolveExposeAsTool d) \<and> reg_addr s (tools r) (name d) = Some b)" for b
  proof -
    have "records s' ! b = records (storeWidgetDefinition E ?ed s) ! b"
      unfolding hr using b by (intro hot_result_other) simp_all
    then show ?thesis
      using store_rel[of b s E ?ed] b by (simp add: same_but_meta_def)
  qed
  have clo: "c_definition ?clo = ?ed"
    "c_displayName ?clo = (if str_truthy (title d) then the (title d) else name d)"
    "c_resourceUri ?clo = u"
    by (simp_all add: registration_closure_def)
  show "\<exists>u mime clo. resolveUriAndMime E d s = Inr (u, mime)
        \<and> c_definition clo = ?ed
        \<and> c_displayName clo = (if str_truthy (title d) then the (title d) else name d)
        \<and> c_resourceUri clo = u
        \<and> (\<forall>a. reg_addr s (resources r) (name d @ '':'' @ u) = Some a \<longrightarrow>
              handler (records s' ! a) = ResourceReadCallback clo
            \<and> (\<forall>k. map_of (config (records s' ! a)) k =
                  (if k = ''_meta'' then Some (JObj ?rm) else map_of (config (records s ! a)) k)))
        \<and> (\<forall>a. reg_addr s (resourceTemplates r) (name d @ ''-dynamic'') = Some a \<longrightarrow>
              handler (records s' ! a) = TemplateReadCallback clo
            \<and> (\<forall>k. map_of (config (records s' ! a)) k =
                  (if k = ''_meta'' then Some (JObj ?rm) else map_of (config (records s ! a)) k)))
        \<and> (\<forall>a. truthy (resolveExposeAsTool d) \<and> reg_addr s (tools r) (name d) = Some a \<longrightarrow>
              handler (records s' ! a) = ToolCallback clo
            \<and> (\<forall>k. map_of (config (records s' ! a)) k =
                  (if k \<in> {''title'', ''description'', ''annotations'', ''_meta'', ''inputs'',
                            ''schema''}
                   then Some (js_get (JObj (buildToolDefinition E ?ed
                          (buildToolMetadata E ?ed u))) k)
                   else map_of (config (records s ! a)) k))
            \<and> js_get (JObj (config (records s' ! a))) ''title'' = opt_str (title d)
            \<and> js_get (JObj (config (records s' ! a))) ''description'' = opt_str (description d)
            \<and> js_get (JObj (config (records s' ! a))) ''annotations'' = toolAnnotations d)
        \<and> (\<forall>b. b < length (records s)
               \<and> reg_addr s (resources r) (name d @ '':'' @ u) \<noteq> Some b
               \<and> reg_addr s (resourceTemplates r) (name d @ ''-dynamic'') \<noteq> Some b
               \<and> \<not> (truthy (resolveExposeAsTool d) \<and> reg_addr s (tools r) (name d) = Some b) \<longrightarrow>
              handler (records s' ! b) = handler (records s ! b)
            \<and> (\<forall>k. k \<noteq> ''_meta'' \<longrightarrow>
                  map_of (config (records s' ! b)) k = map_of (config (records s ! b)) k))"
    apply (rule exI[of _ u])
    apply (rule exI[of _ mime])
    apply (rule exI[of _ ?clo])
    using um clo res tmpl tool frame by blast
next
  assume n: "map_of (widgetDefinitions s) (name d) = None"
  show "names_of KResource (calls s') = names_of KResource (calls s) @ [name d]"
    using n by (simp add: registration_names[OF reg])
  show "names_of KTool (calls s') = names_of KTool (calls s) @
             (if truthy (resolveExposeAsTool d) then [name d] else [])"
    using n by (simp add: registration_names[OF reg])
  show "(map_of (widgetDefinitions s') (name d) \<noteq> None)
             = (wtype d = ''appsSdk'' \<or> wtype d = ''mcpApps'')"
    using n by (simp add: registration_widgetDefinitions[OF reg])
next
  assume h: "map_of (widgetDefinitions s) (name d) \<noteq> None \<and> registrations s = None"
  show "names_of KResource (calls s') = names_of KResource (calls s)"
    using h by (simp add: registration_names[OF reg])
  show "names_of KTool (calls s') = names_of KTool (calls s) @
             (if truthy (resolveExposeAsTool d) then [name d] else [])"
    using h by (simp add: registration_names[OF reg])
qed

lemmas reg_defs = uiResourceRegistration_def storeWidgetDefinition_def patchToolsForWidget_def
  resolveUriAndMime_def buildResourceMeta_def buildResourceUiMeta_def registerOrUpdateResources_def
  resolveExposeAsTool_def widgetMetadata_of_def propagateResources_def buildToolMetadata_def
  buildDualProtocolMetadata_def buildToolDefinition_def resolvePropsOrSchema_def
  registerOrUpdateTool_def server_resource_def server_resourceTemplate_def server_tool_def
  server_addWidgetTool_def bind_tool_def enrichDefinitionWithServerOrigin_def
  stub_collaborators_def live_server_def bare_server_def bare_widget_def
  str_truthy_def Let_def obj_set_def obj_spread_def js_or_def js_get_opt_def js_nullish_or_def
  getBuildIdPart_def opt_str_def snakeCaseCspToCamelCase_def reg_get_def
  empty_csp_def empty_metadata_def

lemma origin_ok_stub [simp]: "origin_ok stub_collaborators s"
  by (simp add: origin_ok_def stub_collaborators_def)

lemma widget_AB_facts [simp]:
  "known_type widget_A" "known_type widget_B"
  "name widget_A = ''w''" "name widget_B = ''w''"
  "wtype widget_A = ''mcpApps''" "wtype widget_B = ''mcpApps''"
  "title widget_A = Some ''A''" "title widget_B = Some ''B''"
  by (simp_all add: widget_A_def widget_B_def bare_widget_def known_type_def)

lemma register_all_two:
  assumes "uiResourceRegistration E s d1 = Inr s1" and "uiResourceRegistration E s1 d2 = Inr s2"
  shows "register_all E s [d1] = Some s1" and "register_all E s [d1, d2] = Some s2"
  using assms by simp_all

text \<open>
  Claim C2, as the claim states it, fails for a name that is registered with a legacy
  variant: such a registration does not enter the name into the widget-definition store,
  so a second registration of the same name is not recognised as an update and calls the
  server's resource and tool registration again.
\<close>

theorem repeated_legacy_registration:
  "log_after stub_collaborators live_server
      [bare_widget ''rawHtml'' ''w'', bare_widget ''rawHtml'' ''w''] KResource
     = Some [''w'', ''w'']
   \<and> log_after stub_collaborators live_server
      [bare_widget ''rawHtml'' ''w'', bare_widget ''rawHtml'' ''w''] KTool
     = Some [''w'', ''w'']"
proof -
  let ?d = "bare_widget ''rawHtml'' ''w''"
  obtain s1 where s1: "uiResourceRegistration stub_collaborators live_server ?d = Inr s1"
    using registration_total[of ?d stub_collaborators live_server] by auto
  obtain s2 where s2: "uiResourceRegistration stub_collaborators s1 ?d = Inr s2"
    using registration_total[of ?d stub_collaborators s1] by auto
  have w1: "map_of (widgetDefinitions s1) (name ?d) = None"
    by (simp add: registration_widgetDefinitions[OF s1])
  have t: "truthy (resolveExposeAsTool ?d)"
    by (simp add: resolve_truthy bare_widget_def widgetMetadata_of_def js_get_opt_def)
  have n1: "names_of KResource (calls s1) = [''w'']" "names_of KTool (calls s1) = [''w'']"
    using t by (simp_all add: registration_names[OF s1])
  have n2: "names_of KResource (calls s2) = [''w'', ''w'']"
           "names_of KTool (calls s2) = [''w'', ''w'']"
    using t w1 n1 by (simp_all add: registration_names[OF s2])
  show ?thesis
    using n2 by (simp add: log_after_def register_all_two[OF s1 s2] del: register_all.simps)
qed

text \<open>
  The theorem at the failing input: on a server that does not expose its registrations,
  widget \<^verbatim>\<open>w\<close> is registered with title \<^verbatim>\<open>A\<close> and then hot-updated with title \<^verbatim>\<open>B\<close>. The
  server was given one resource handler, the first registration's; a read through it
  after the update still returns the title and body of the first definition.
\<close>

theorem handlers_use_captured_definition_witness:
  "uiResourceRegistration stub_collaborators
       (the (register_all stub_collaborators bare_server [widget_A])) widget_B
     = Inr (the (register_all stub_collaborators bare_server [widget_A, widget_B]))
   \<and> (wtype widget_B = ''appsSdk'' \<or> wtype widget_B = ''mcpApps'')
   \<and> name (c_definition (registration_closure stub_collaborators bare_server widget_A
               ''ui://widget/w.html'')) = name widget_B
   \<and> resource_handlers
        (calls (the (register_all stub_collaborators bare_server [widget_A, widget_B])))
       = [ResourceReadCallback (registration_closure stub_collaborators bare_server widget_A
               ''ui://widget/w.html'')]
   \<and> getLatestDefinition (the (register_all stub_collaborators bare_server [widget_A, widget_B]))
         (registration_closure stub_collaborators bare_server widget_A ''ui://widget/w.html'')
       = widget_A
   \<and> read_after stub_collaborators bare_server [widget_A, widget_B]
       = Some (JObj [(''contents'', JArr [JObj [(''uri'', JStr ''ui://widget/w.html''),
            (''title'', JStr ''A''), (''text'', JStr ''<p>old</p>'')]])])"
proof -
  let ?E = stub_collaborators
  let ?clo = "registration_closure ?E bare_server widget_A ''ui://widget/w.html''"
  obtain s1 where s1: "uiResourceRegistration ?E bare_server widget_A = Inr s1"
    using registration_total[of widget_A ?E bare_server] by auto
  obtain s2 where s2: "uiResourceRegistration ?E s1 widget_B = Inr s2"
    using registration_total[of widget_B ?E s1] by auto
  note ra = register_all_two[OF s1 s2]
  have c: "c_definition ?clo = widget_A"
    by (simp add: registration_closure_def server_origin_def bare_server_def str_truthy_def
         enrich_noop)
  have nm: "name (c_definition ?clo) = name widget_B" by (simp add: c)
  from handlers_use_captured_definition[OF s2 _ nm]
  have g: "getLatestDefinition s2 ?clo = c_definition ?clo" by simp
  have ev: "read_after ?E bare_server [widget_A, widget_B]
       = Some (JObj [(''contents'', JArr [JObj [(''uri'', JStr ''ui://widget/w.html''),
            (''title'', JStr ''A''), (''text'', JStr ''<p>old</p>'')]])])"
    by (simp add: read_after_def reg_defs widget_A_def widget_B_def resourceReadCallback_def
         getLatestDefinition_def resource_with_uri_def)
  have hs: "resource_handlers (calls s2) = [ResourceReadCallback ?clo]"
    using s1 s2
    by (auto simp: reg_defs widget_A_def widget_B_def registration_closure_def server_origin_def)
  show ?thesis
    using s2 g c hs ev by (simp add: ra del: register_all.simps)
qed

text \<open>
  The amended claim at widget \<^verbatim>\<open>w\<close> registered with title \<^verbatim>\<open>A\<close> and hot-updated with title
  \<^verbatim>\<open>B\<close> on the server that exposes its registrations: one resource, one template and one
  tool registration call in all, the same three records under the same keys; all three
  handlers now capture the second definition, and the tool record's configuration has
  the new title and the name it had. A raw HTML definition of the same name registered
  after the first is an update as well. The first registration itself, the name not yet
  in the store, calls the resource registration.
\<close>

theorem hot_update_in_place_witness:
  "uiResourceRegistration stub_collaborators
       (the (register_all stub_collaborators live_server [widget_A])) widget_B
     = Inr (the (register_all stub_collaborators live_server [widget_A, widget_B]))
   \<and> map_of (widgetDefinitions (the (register_all stub_collaborators live_server [widget_A])))
         (name widget_B) \<noteq> None
   \<and> registrations_after stub_collaborators live_server [widget_A] = Some live_registrations
   \<and> distinct (map snd (tools live_registrations) @ map snd (resources live_registrations)
         @ map snd (resourceTemplates live_registrations))
   \<and> registrations_after stub_collaborators live_server [widget_A, widget_B]
       = Some live_registrations
   \<and> log_after stub_collaborators live_server [widget_A, widget_B] KResource = Some [''w'']
   \<and> log_after stub_collaborators live_server [widget_A, widget_B] KTemplate = Some [''w-dynamic'']
   \<and> log_after stub_collaborators live_server [widget_A, widget_B] KTool = Some [''w'']
   \<and> handler_title_at stub_collaborators live_server [widget_A, widget_B] 0 = Some ''B''
   \<and> handler_title_at stub_collaborators live_server [widget_A, widget_B] 1 = Some ''B''
   \<and> handler_title_at stub_collaborators live_server [widget_A, widget_B] 2 = Some ''B''
   \<and> config_at stub_collaborators live_server [widget_A] 2 ''title'' = Some (JStr ''A'')
   \<and> config_at stub_collaborators live_server [widget_A, widget_B] 2 ''title''
       = Some (JStr ''B'')
   \<and> config_at stub_collaborators live_server [widget_A] 2 ''name'' = Some (JStr ''w'')
   \<and> config_at stub_collaborators live_server [widget_A, widget_B] 2 ''name''
       = Some (JStr ''w'')
   \<and> log_after stub_collaborators live_server [widget_A, bare_widget ''rawHtml'' ''w''] KResource
       = Some [''w'']
   \<and> log_after stub_collaborators live_server [widget_A, bare_widget ''rawHtml'' ''w''] KTool
       = Some [''w'']
   \<and> map_of (widgetDefinitions live_server) (name widget_A) = None
   \<and> log_after stub_collaborators live_server [widget_A] KResource = Some [''w'']"
proof -
  let ?E = stub_collaborators
  let ?raw = "bare_widget ''rawHtml'' ''w''"
  obtain s1 where s1: "uiResourceRegistration ?E live_server widget_A = Inr s1"
    using registration_total[of widget_A ?E live_server] by auto
  obtain s2 where s2: "uiResourceRegistration ?E s1 widget_B = Inr s2"
    using registration_total[of widget_B ?E s1] by auto
  obtain s3 where s3: "uiResourceRegistration ?E s1 ?raw = Inr s3"
    using registration_total[of ?raw ?E s1] by auto
  note ra = register_all_two[OF s1 s2]
  note rb = register_all_two[OF s1 s3]
  have f1: "registrations s1 = Some live_registrations" "length (records s1) = 3"
    "buildId s1 = None"
    "js_get (JObj (config (records s1 ! 2))) ''title'' = JStr ''A''"
    "map_of (config (records s1 ! 2)) ''name'' = Some (JStr ''w'')"
    using s1 by (auto simp: reg_defs widget_A_def live_registrations_def)
  have upd: "map_of (widgetDefinitions s1) (name widget_B) \<noteq> None"
    "map_of (widgetDefinitions s1) (name ?raw) \<noteq> None"
    by (simp_all add: registration_widgetDefinitions[OF s1])
  have first: "map_of (widgetDefinitions live_server) (name widget_A) = None" by simp
  have dist: "distinct (map snd (tools live_registrations) @ map snd (resources live_registrations)
         @ map snd (resourceTemplates live_registrations))"
    by (simp add: live_registrations_def)
  have t: "truthy (resolveExposeAsTool widget_A)" "truthy (resolveExposeAsTool widget_B)"
    by (simp_all add: resolve_truthy widget_A_def widget_B_def bare_widget_def
          widgetMetadata_of_def js_get_opt_def)
  have n1: "names_of KResource (calls s1) = [''w'']" "names_of KTool (calls s1) = [''w'']"
    using hot_update_in_place[OF s1, of live_registrations] first t(1) by simp_all
  have n1t: "names_of KTemplate (calls s1) = [''w-dynamic'']"
    by (simp add: registration_names[OF s1])
  have u: "resolveUriAndMime ?E widget_B s1 = Inr (''ui://widget/w.html'', ''text/html;profile=mcp-app'')"
    by (simp add: resolveUriAndMime_def stub_collaborators_def f1 getBuildIdPart_def str_truthy_def)
  have a: "reg_addr s1 (resources live_registrations) (name widget_B @ '':'' @ ''ui://widget/w.html'') = Some 0"
    "reg_addr s1 (resourceTemplates live_registrations) (name widget_B @ ''-dynamic'') = Some 1"
    "reg_addr s1 (tools live_registrations) (name widget_B) = Some 2"
    by (simp_all add: reg_addr_def live_registrations_def f1)
  note hot = hot_update_in_place[OF s2, of live_registrations, THEN conjunct1, rule_format]
  have hyp: "map_of (widgetDefinitions s1) (name widget_B) \<noteq> None
       \<and> registrations s1 = Some live_registrations
       \<and> distinct (map snd (tools live_registrations) @ map snd (resources live_registrations)
           @ map snd (resourceTemplates live_registrations))"
    using upd f1 dist by simp
  from hot[OF hyp] u a t(2)
  obtain clo where h: "names_of KResource (calls s2) = names_of KResource (calls s1)"
    "names_of KTemplate (calls s2) = names_of KTemplate (calls s1)"
    "names_of KTool (calls s2) = names_of KTool (calls s1)"
    "registrations s2 = Some live_registrations"
    "length (records s2) = length (records s1)"
    "c_definition clo = enrichDefinitionWithServerOrigin widget_B (server_origin ?E s1)"
    "handler (records s2 ! 0) = ResourceReadCallback clo"
    "handler (records s2 ! 1) = TemplateReadCallback clo"
    "handler (records s2 ! 2) = ToolCallback clo"
    "js_get (JObj (config (records s2 ! 2))) ''title'' = opt_str (title widget_B)"
    "map_of (config (records s2 ! 2)) ''name'' = map_of (config (records s1 ! 2)) ''name''"
    by auto
  have tt: "title (c_definition clo) = Some ''B''" by (simp add: h(6))
  note hot3 = hot_update_in_place[OF s3, of live_registrations, THEN conjunct1, rule_format]
  have hyp3: "map_of (widgetDefinitions s1) (name ?raw) \<noteq> None
       \<and> registrations s1 = Some live_registrations
       \<and> distinct (map snd (tools live_registrations) @ map snd (resources live_registrations)
           @ map snd (resourceTemplates live_registrations))"
    using upd f1 dist by simp
  from hot3[OF hyp3]
  have h3: "names_of KResource (calls s3) = names_of KResource (calls s1)"
    "names_of KTool (calls s3) = names_of KTool (calls s1)"
    by simp_all
  show ?thesis
    using s2 upd f1 dist h n1 n1t tt h3 first
    by (simp add: ra rb registrations_after_def log_after_def handler_title_at_def config_at_def
          opt_str_def del: register_all.simps)
qed

section \<open>Properties of the registered tool callback\<close>

lemma tool_handlers_append [simp]:
  "tool_handlers (xs @ ys) = tool_handlers xs @ tool_handlers ys"
  by (induction xs rule: tool_handlers.induct) simp_all

lemma tool_handlers_notify [simp]: "tool_handlers (notifyToolListChanged ss) = []"
  by (induction ss rule: notifyToolListChanged.induct) (simp_all split: option.splits)

lemma resources_tool_handlers [simp]:
  "tool_handlers (calls (registerOrUpdateResources d s upd u m rm clo)) = tool_handlers (calls s)"
proof (cases upd)
  case False
  then show ?thesis by (simp add: registerOrUpdateResources_def Let_def)
next
  case True
  then show ?thesis
    by (cases "registrations s")
       (simp_all add: registerOrUpdateResources_def Let_def split: option.splits prod.splits)
qed

lemma propagate_tool_handlers [simp]:
  "tool_handlers (calls (propagateResources d s upd)) = tool_handlers (calls s)"
  by (simp add: propagateResources_def)

lemma tool_tool_handlers:
  "tool_handlers (calls (registerOrUpdateTool d s upd td clo)) =
     tool_handlers (calls s) @
       (if upd \<and> registrations s \<noteq> None then [] else [ToolCallback clo])"
proof (cases "upd \<and> registrations s \<noteq> None")
  case True
  then obtain r where r: "upd" "registrations s = Some r" by auto
  show ?thesis
  proof (cases "reg_get s (tools r) (name d)")
    case None
    show ?thesis unfolding tool_update_missing[OF r None] using r by simp
  next
    case (Some q)
    obtain a ex where q: "q = (a, ex)" by (cases q)
    show ?thesis
      unfolding tool_update_found[OF r Some[unfolded q]] using r
      by (simp split: option.splits)
  qed
next
  case False
  then show ?thesis
    by (auto simp: tool_register server_tool_def server_addWidgetTool_def)
qed

lemma result_tool_handlers:
  "tool_handlers (calls (registration_result E s d u mime)) =
     tool_handlers (calls s) @
       (if truthy (resolveExposeAsTool d)
           \<and> \<not> (map_of (widgetDefinitions s) (name d) \<noteq> None \<and> registrations s \<noteq> None)
        then [ToolCallback (registration_closure E s d u)] else [])"
  by (cases "map_of (widgetDefinitions s) (name d)"; cases "registrations s")
     (simp_all add: registration_result_def Let_def tool_tool_handlers)

text \<open>
  Claim C9, amended. For an Apps SDK or MCP Apps widget the tool call returns an object
  with exactly \<^verbatim>\<open>content\<close>, an array, and \<^verbatim>\<open>structuredContent\<close>. The array is the content
  that the author's \<^verbatim>\<open>toolOutput\<close> provides, unchanged (wrapped into a one-element array
  when it is not an array); when the \<^verbatim>\<open>toolOutput\<close> provides none, or there is no
  \<^verbatim>\<open>toolOutput\<close>, it is the single text item carrying the display name.
  \<^verbatim>\<open>structuredContent\<close> is what the output in use supplies: the \<^verbatim>\<open>structuredContent\<close> of the
  author's \<^verbatim>\<open>toolOutput\<close> when there is a \<^verbatim>\<open>toolOutput\<close>, otherwise the definition's own;
  when that is undefined or null, in particular when the author's \<^verbatim>\<open>toolOutput\<close> carries
  none, whatever the definition has, it is the call parameters. The result is the same
  for every choice of the collaborators, so nothing that the resource construction
  routine builds (the presentation body) is part of it. The callback that a registration
  hands to the server's tool registration captures the enriched definition, which has
  the type, \<^verbatim>\<open>toolOutput\<close> and \<^verbatim>\<open>structuredContent\<close> of the definition, and as display
  name the title when there is a non-empty one and the name otherwise.
\<close>

theorem toolCallback_widget_result:
  "(wtype (c_definition clo) = ''appsSdk'' \<or> wtype (c_definition clo) = ''mcpApps'' \<longrightarrow>
      toolCallback E clo p = toolCallback E' clo p
    \<and> toolCallback E clo p =
        JObj [(''content'',
                JArr (if truthy (authoredContent (c_definition clo) p)
                      then (if isArray (authoredContent (c_definition clo) p)
                            then elements (authoredContent (c_definition clo) p)
                            else [authoredContent (c_definition clo) p])
                      else [text_item (c_displayName clo)])),
              (''structuredContent'',
                if nullish (suppliedStructuredContent (c_definition clo) p) then p
                else suppliedStructuredContent (c_definition clo) p)])
   \<and> (\<forall>s s'. uiResourceRegistration E s d = Inr s' \<and> truthy (resolveExposeAsTool d)
          \<and> (map_of (widgetDefinitions s) (name d) = None \<or> registrations s = None) \<longrightarrow>
        (\<exists>c. tool_handlers (calls s') = tool_handlers (calls s) @ [ToolCallback c]
            \<and> c_displayName c = (if str_truthy (title d) then the (title d) else name d)
            \<and> c_definition c = enrichDefinitionWithServerOrigin d (server_origin E s)
            \<and> wtype (c_definition c) = wtype d
            \<and> toolOutput (c_definition c) = toolOutput d
            \<and> structuredContent (c_definition c) = structuredContent d))"
proof (intro conjI impI allI)
  assume ty: "wtype (c_definition clo) = ''appsSdk'' \<or> wtype (c_definition clo) = ''mcpApps''"
  show "toolCallback E clo p = toolCallback E' clo p"
    using ty by (auto simp: toolCallback_def Let_def)
  let ?d = "c_definition clo"
  let ?n = "c_displayName clo"
  define out where "out =
     (case toolOutput ?d of
        Some (Dynamic f) \<Rightarrow> f p
      | Some (Static v) \<Rightarrow> if truthy v then v else generateToolOutput ?d p ?n
      | None \<Rightarrow> generateToolOutput ?d p ?n)"
  define content where "content = js_or (js_get_opt out ''content'') (JArr [text_item ?n])"
  have res: "toolCallback E clo p =
     JObj [(''content'', if isArray content then content else JArr [content]),
           (''structuredContent'', js_nullish_or (js_get_opt out ''structuredContent'') p)]"
    using ty by (auto simp: toolCallback_def Let_def out_def content_def text_item_def)
  have c1: "\<not> truthy (authoredContent ?d p) \<Longrightarrow> content = JArr [text_item ?n]"
    by (auto simp: content_def out_def authoredContent_def js_or_def generateToolOutput_content
         js_get_opt_falsy split: option.splits output_src.splits)
  have c2: "truthy (authoredContent ?d p) \<Longrightarrow> content = authoredContent ?d p"
    by (auto simp: content_def out_def authoredContent_def js_or_def js_get_opt_falsy
         split: option.splits output_src.splits)
  have c3: "js_get_opt out ''structuredContent'' = suppliedStructuredContent ?d p"
    by (simp add: out_def suppliedStructuredContent_def generateToolOutput_sc
         split: option.splits output_src.splits)
  have items: "(if isArray content then content else JArr [content]) =
      JArr (if truthy (authoredContent ?d p)
            then (if isArray (authoredContent ?d p)
                  then elements (authoredContent ?d p)
                  else [authoredContent ?d p])
            else [text_item ?n])"
  proof (cases "truthy (authoredContent ?d p)")
    case True
    then show ?thesis using c2 by (cases "authoredContent ?d p") simp_all
  next
    case False
    then show ?thesis using c1 by simp
  qed
  show "toolCallback E clo p =
        JObj [(''content'',
                JArr (if truthy (authoredContent ?d p)
                      then (if isArray (authoredContent ?d p)
                            then elements (authoredContent ?d p)
                            else [authoredContent ?d p])
                      else [text_item ?n])),
              (''structuredContent'',
                if nullish (suppliedStructuredContent ?d p) then p
                else suppliedStructuredContent ?d p)]"
    unfolding res items c3 by (simp add: js_nullish_or_def)
next
  fix s s'
  assume h: "uiResourceRegistration E s d = Inr s' \<and> truthy (resolveExposeAsTool d)
          \<and> (map_of (widgetDefinitions s) (name d) = None \<or> registrations s = None)"
  from h registration_unfold obtain u mime where
    s': "s' = registration_result E s d u mime" by blast
  let ?c = "registration_closure E s d u"
  have "tool_handlers (calls s') = tool_handlers (calls s) @ [ToolCallback ?c]"
    using h by (auto simp: s' result_tool_handlers)
  moreover have "c_displayName ?c = (if str_truthy (title d) then the (title d) else name d)"
    and "c_definition ?c = enrichDefinitionWithServerOrigin d (server_origin E s)"
    by (simp_all add: registration_closure_def)
  ultimately show "\<exists>c. tool_handlers (calls s') = tool_handlers (calls s) @ [ToolCallback c]
            \<and> c_displayName c = (if str_truthy (title d) then the (title d) else name d)
            \<and> c_definition c = enrichDefinitionWithServerOrigin d (server_origin E s)
            \<and> wtype (c_definition c) = wtype d
            \<and> toolOutput (c_definition c) = toolOutput d
            \<and> structuredContent (c_definition c) = structuredContent d"
    by (intro exI[of _ ?c]) simp
qed

lemma call_tool_after_Inr:
  "uiResourceRegistration E s d = Inr s' \<Longrightarrow> tool_handlers (calls s') = [ToolCallback c] \<Longrightarrow>
   call_tool_after E s d p = Some (toolCallback E c p)"
  by (simp add: call_tool_after_def)

text \<open>
  The theorem at three widgets. The author of the first gives the text \<^verbatim>\<open>3 tasks\<close> as
  content and no structured content: the text is wrapped into an array and the structured
  content is the call parameters, not the definition's own \<^verbatim>\<open>structuredContent\<close>; the
  result is the same when the resource construction routine is replaced. The second,
  titled \<^verbatim>\<open>Board\<close>, and the third, without a title, are registered and called through the
  handler the server was given: one text item with the title, or with the name, and the
  parameters as structured content.
\<close>

theorem toolCallback_widget_result_witness:
  "(wtype (c_definition (closure_of summary_widget)) = ''appsSdk''
      \<or> wtype (c_definition (closure_of summary_widget)) = ''mcpApps'')
   \<and> toolCallback stub_collaborators (closure_of summary_widget) (JObj [(''q'', JStr ''x'')])
     = JObj [(''content'', JArr [JStr ''3 tasks'']),
             (''structuredContent'', JObj [(''q'', JStr ''x'')])]
   \<and> toolCallback stub_collaborators (closure_of summary_widget) (JObj [(''q'', JStr ''x'')])
     = toolCallback (stub_collaborators\<lparr>createWidgetUIResource := (\<lambda>d p c. JNull)\<rparr>)
         (closure_of summary_widget) (JObj [(''q'', JStr ''x'')])
   \<and> truthy (resolveExposeAsTool board_widget)
   \<and> map_of (widgetDefinitions live_server) (name board_widget) = None
   \<and> call_tool_after stub_collaborators live_server board_widget (JObj [(''q'', JStr ''x'')])
     = Some (JObj [(''content'', JArr [text_item ''Board'']),
                   (''structuredContent'', JObj [(''q'', JStr ''x'')])])
   \<and> truthy (resolveExposeAsTool (bare_widget ''appsSdk'' ''kanban''))
   \<and> map_of (widgetDefinitions bare_server) (name (bare_widget ''appsSdk'' ''kanban'')) = None
   \<and> call_tool_after stub_collaborators bare_server (bare_widget ''appsSdk'' ''kanban'')
        (JObj [(''q'', JStr ''x'')])
     = Some (JObj [(''content'', JArr [text_item ''kanban'']),
                   (''structuredContent'', JObj [(''q'', JStr ''x'')])])"
proof -
  let ?E = stub_collaborators
  let ?E' = "stub_collaborators\<lparr>createWidgetUIResource := (\<lambda>d p c. JNull)\<rparr>"
  let ?p = "JObj [(''q'', JStr ''x'')]"
  let ?u = "bare_widget ''appsSdk'' ''kanban''"
  note A = toolCallback_widget_result[THEN conjunct1, rule_format]
  note B = toolCallback_widget_result[THEN conjunct2, rule_format]
  have ty: "wtype (c_definition (closure_of summary_widget)) = ''mcpApps''"
    by (simp add: closure_of_def summary_widget_def bare_widget_def)
  have ac: "authoredContent (c_definition (closure_of summary_widget)) ?p = JStr ''3 tasks''"
    and sc: "suppliedStructuredContent (c_definition (closure_of summary_widget)) ?p = JUndefined"
    by (simp_all add: closure_of_def summary_widget_def bare_widget_def authoredContent_def
          suppliedStructuredContent_def js_get_opt_def)
  have a: "toolCallback ?E (closure_of summary_widget) ?p
     = JObj [(''content'', JArr [JStr ''3 tasks'']), (''structuredContent'', ?p)]"
    using A[of "closure_of summary_widget" ?E ?p ?E] ty by (simp add: ac sc)
  have a': "toolCallback ?E (closure_of summary_widget) ?p
     = toolCallback ?E' (closure_of summary_widget) ?p"
    using A[of "closure_of summary_widget" ?E ?p ?E'] ty by simp
  have kt: "known_type board_widget" "name board_widget = ''kanban''"
    "title board_widget = Some ''Board''" "wtype board_widget = ''mcpApps''"
    "toolOutput board_widget = None" "structuredContent board_widget = None"
    "title ?u = None" "toolOutput ?u = None" "structuredContent ?u = None"
    by (simp_all add: board_widget_def bare_widget_def known_type_def)
  have t: "truthy (resolveExposeAsTool board_widget)" "truthy (resolveExposeAsTool ?u)"
    by (simp_all add: resolve_truthy board_widget_def bare_widget_def widgetMetadata_of_def
          js_get_opt_def)
  obtain s1 where s1: "uiResourceRegistration ?E live_server board_widget = Inr s1"
    using registration_total[of board_widget ?E live_server] kt by auto
  obtain s2 where s2: "uiResourceRegistration ?E bare_server ?u = Inr s2"
    using registration_total[of ?u ?E bare_server] by auto
  have "\<exists>c. tool_handlers (calls s1) = tool_handlers (calls live_server) @ [ToolCallback c]
      \<and> c_displayName c = (if str_truthy (title board_widget) then the (title board_widget)
                            else name board_widget)
      \<and> c_definition c = enrichDefinitionWithServerOrigin board_widget (server_origin ?E live_server)
      \<and> wtype (c_definition c) = wtype board_widget
      \<and> toolOutput (c_definition c) = toolOutput board_widget
      \<and> structuredContent (c_definition c) = structuredContent board_widget"
    by (rule B) (use s1 t(1) kt in simp)
  then obtain c1 where c1: "tool_handlers (calls s1) = [ToolCallback c1]"
    "c_displayName c1 = ''Board''" "wtype (c_definition c1) = ''mcpApps''"
    "toolOutput (c_definition c1) = None" "structuredContent (c_definition c1) = None"
    by (auto simp: kt str_truthy_def)
  have "\<exists>c. tool_handlers (calls s2) = tool_handlers (calls bare_server) @ [ToolCallback c]
      \<and> c_displayName c = (if str_truthy (title ?u) then the (title ?u) else name ?u)
      \<and> c_definition c = enrichDefinitionWithServerOrigin ?u (server_origin ?E bare_server)
      \<and> wtype (c_definition c) = wtype ?u
      \<and> toolOutput (c_definition c) = toolOutput ?u
      \<and> structuredContent (c_definition c) = structuredContent ?u"
    by (rule B) (use s2 t(2) in simp)
  then obtain c2 where c2: "tool_handlers (calls s2) = [ToolCallback c2]"
    "c_displayName c2 = ''kanban''" "wtype (c_definition c2) = ''appsSdk''"
    "toolOutput (c_definition c2) = None" "structuredContent (c_definition c2) = None"
    by (auto simp: kt str_truthy_def)
  have r1: "toolCallback ?E c1 ?p
     = JObj [(''content'', JArr [text_item ''Board'']), (''structuredContent'', ?p)]"
    using A[of c1 ?E ?p ?E] c1
    by (simp add: authoredContent_def suppliedStructuredContent_def
          definitionStructuredContent_def)
  have r2: "toolCallback ?E c2 ?p
     = JObj [(''content'', JArr [text_item ''kanban'']), (''structuredContent'', ?p)]"
    using A[of c2 ?E ?p ?E] c2
    by (simp add: authoredContent_def suppliedStructuredContent_def
          definitionStructuredContent_def)
  show ?thesis
    using ty a a' t r1 r2
    by (simp add: call_tool_after_Inr[OF s1 c1(1)] call_tool_after_Inr[OF s2 c2(1)] kt)
qed

section \<open>Properties of the enricher on the store\<close>

lemma alloc_simps [simp]: "alloc h ob = (h @ [ob], length h)"
  by (simp add: alloc_def)

lemma set_field_length [simp]: "length (set_field h a k v) = length h"
  by (simp add: set_field_def split: option.splits)

lemma set_field_nth [simp]: "b \<noteq> a \<Longrightarrow> set_field h a k v ! b = h ! b"
  by (simp add: set_field_def split: option.splits)

lemma set_field_get_other [simp]:
  "b \<noteq> a \<Longrightarrow> h_get (set_field h a k v) (HRef b) k' = h_get h (HRef b) k'"
  by simp

lemma set_field_get_same:
  "k' \<noteq> k \<Longrightarrow> h_get (set_field h a k v) (HRef a) k' = h_get h (HRef a) k'"
  by (auto simp: set_field_def hprop_def update_conv' split: option.splits hobj.splits if_splits)

lemma set_field_get_eq:
  "obj_fields h (HRef a) = Some kvs \<Longrightarrow> h_get (set_field h a k v) (HRef a) k = v"
  by (auto simp: set_field_def hprop_def update_conv' split: option.splits hobj.splits if_splits)

lemma set_field_fields_other [simp]:
  "b \<noteq> a \<Longrightarrow> obj_fields (set_field h a k v) (HRef b) = obj_fields h (HRef b)"
  by simp

lemma h_get_append [simp]: "b < length h \<Longrightarrow> h_get (h @ xs) (HRef b) k = h_get h (HRef b) k"
  by (simp add: nth_append)

lemma obj_fields_append [simp]:
  "b < length h \<Longrightarrow> obj_fields (h @ xs) (HRef b) = obj_fields h (HRef b)"
  by (simp add: nth_append)

lemma ensure_origin_cases:
  "ensure_origin h c k origin = Some h' \<Longrightarrow>
   h' = h \<or> (\<exists>ob. h' = set_field (h @ [ob]) c k (HRef (length h)))"
  by (auto simp: ensure_origin_def Let_def split: option.splits if_splits)

lemma ensure_origin_length:
  "ensure_origin h c k origin = Some h' \<Longrightarrow> length h \<le> length h'"
  by (auto dest!: ensure_origin_cases)

lemma ensure_origin_nth:
  "ensure_origin h c k origin = Some h' \<Longrightarrow> b < length h \<Longrightarrow> b \<noteq> c \<Longrightarrow> h' ! b = h ! b"
  by (auto dest!: ensure_origin_cases simp: nth_append)

lemma ensure_origin_get:
  "ensure_origin h c k origin = Some h' \<Longrightarrow> c < length h \<Longrightarrow> k' \<noteq> k \<Longrightarrow>
   h_get h' (HRef c) k' = h_get h (HRef c) k'"
  by (auto dest!: ensure_origin_cases simp: set_field_get_same simp del: h_get.simps)

lemma ensure_origin_fields:
  "ensure_origin h c k origin = Some h' \<Longrightarrow> b < length h \<Longrightarrow> b \<noteq> c \<Longrightarrow>
   obj_fields h' (HRef b) = obj_fields h (HRef b)"
  by (auto dest!: ensure_origin_cases simp del: obj_fields.simps)

lemma ensure_origin_get_other:
  "ensure_origin h c k origin = Some h' \<Longrightarrow> b < length h \<Longrightarrow> b \<noteq> c \<Longrightarrow>
   h_get h' (HRef b) k' = h_get h (HRef b) k'"
  by (auto dest!: ensure_origin_cases simp del: h_get.simps)

lemma h_get_fresh [simp]: "h_get (h @ [HObject kvs]) (HRef (length h)) k = hprop kvs k"
  by simp

lemma enrich_store_noop:
  "\<not> str_truthy so \<or> h_get h (HRef d) ''type'' \<noteq> HPrim (JStr ''mcpApps'') \<Longrightarrow>
   enrichDefinitionWithServerOrigin_store h d so = Some (h, d)"
  by (auto simp: enrichDefinitionWithServerOrigin_store_def)

lemma enrich_store_applies:
  assumes "enrichDefinitionWithServerOrigin_store h d so = Some (h', r)"
    and "str_truthy so"
    and "h_get h (HRef d) ''type'' = HPrim (JStr ''mcpApps'')"
  shows "\<exists>mkvs ckvs h4 h5 h6 dkvs.
    spread_or_empty h (h_get h (HRef d) ''metadata'') = Some mkvs
    \<and> spread_or_empty (h @ [HObject mkvs]) (hprop mkvs ''csp'') = Some ckvs
    \<and> ensure_origin (set_field (h @ [HObject mkvs] @ [HObject ckvs]) (length h) ''csp''
            (HRef (Suc (length h)))) (Suc (length h)) ''resourceDomains'' (the so) = Some h4
    \<and> ensure_origin h4 (Suc (length h)) ''connectDomains'' (the so) = Some h5
    \<and> ensure_origin h5 (Suc (length h)) ''baseUriDomains'' (the so) = Some h6
    \<and> obj_fields h6 (HRef d) = Some dkvs
    \<and> h' = h6 @ [HObject (AList.update ''metadata'' (HRef (length h)) dkvs)]
    \<and> r = length h6"
  using assms
  by (auto simp: enrichDefinitionWithServerOrigin_store_def Let_def simp del: h_get.simps obj_fields.simps
        split: option.splits)

lemma h_get_defined: "h_get h (HRef d) k \<noteq> HPrim JUndefined \<Longrightarrow> d < length h"
  by (simp split: if_splits)

lemma obj_fields_get: "obj_fields h v = Some kvs \<Longrightarrow> h_get h v k = hprop kvs k"
  by (cases v) (auto split: if_splits hobj.splits)

lemma spread_get: "spread_or_empty h v = Some kvs \<Longrightarrow> h_get h v k = hprop kvs k"
  by (cases v) (auto simp: spread_or_empty_def hprop_def obj_fields_get split: if_splits
        simp del: h_get.simps(1) obj_fields.simps(1))

lemma closed_fields:
  assumes "closed_store h" and "obj_fields h v = Some kvs" and "hprop kvs k = HRef a"
  shows "a < length h"
proof -
  from assms(2) obtain b where b: "v = HRef b" "b < length h" "h ! b = HObject kvs"
    by (cases v) (auto split: if_splits hobj.splits)
  from assms(3) have "(k, HRef a) \<in> set kvs"
    by (auto simp: hprop_def split: option.splits dest: map_of_SomeD)
  then have "a \<in> set (obj_refs (HObject kvs))" by force
  moreover have "HObject kvs \<in> set h" using b by (metis nth_mem)
  ultimately show ?thesis using assms(1) by (auto simp: closed_store_def)
qed

lemma spread_closed:
  assumes "closed_store h" and "spread_or_empty h v = Some kvs" and "hprop kvs k = HRef a"
  shows "a < length h"
proof (cases "h_truthy v")
  case True
  with assms(2) have "obj_fields h v = Some kvs" by (simp add: spread_or_empty_def)
  from closed_fields[OF assms(1) this assms(3)] show ?thesis .
next
  case False
  with assms(2) have "kvs = []" by (simp add: spread_or_empty_def)
  with assms(3) show ?thesis by (simp add: hprop_def)
qed

lemma spread_append:
  assumes "\<And>a. v = HRef a \<Longrightarrow> a < length h"
  shows "spread_or_empty (h @ xs) v = spread_or_empty h v"
  using assms by (cases v) (simp_all add: spread_or_empty_def del: obj_fields.simps(1))

lemma enrich_store_applied_frame:
  assumes e: "enrichDefinitionWithServerOrigin_store h d so = Some (h', r)"
    and t: "str_truthy so"
    and ty: "h_get h (HRef d) ''type'' = HPrim (JStr ''mcpApps'')"
    and cl: "closed_store h"
  shows "untouched h h'"
    and "k \<noteq> ''metadata'' \<Longrightarrow> h_get h' (HRef r) k = h_get h (HRef d) k"
    and "h_get h' (HRef r) ''metadata'' = HRef (length h)"
    and "k \<noteq> ''csp'' \<Longrightarrow>
           h_get h' (HRef (length h)) k = h_get h (h_get h (HRef d) ''metadata'') k"
    and "h_get h' (HRef (length h)) ''csp'' = HRef (Suc (length h))"
    and "k \<notin> {''resourceDomains'', ''connectDomains'', ''baseUriDomains''} \<Longrightarrow>
           h_get h' (HRef (Suc (length h))) k
             = h_get h (h_get h (h_get h (HRef d) ''metadata'') ''csp'') k"
    and "Suc (Suc (length h)) \<le> r"
proof -
  from enrich_store_applies[OF e t ty] obtain mkvs ckvs h4 h5 h6 dkvs where
    m: "spread_or_empty h (h_get h (HRef d) ''metadata'') = Some mkvs" and
    c: "spread_or_empty (h @ [HObject mkvs]) (hprop mkvs ''csp'') = Some ckvs" and
    e4: "ensure_origin (set_field (h @ [HObject mkvs] @ [HObject ckvs]) (length h) ''csp''
            (HRef (Suc (length h)))) (Suc (length h)) ''resourceDomains'' (the so) = Some h4" and
    e5: "ensure_origin h4 (Suc (length h)) ''connectDomains'' (the so) = Some h5" and
    e6: "ensure_origin h5 (Suc (length h)) ''baseUriDomains'' (the so) = Some h6" and
    dk: "obj_fields h6 (HRef d) = Some dkvs" and
    h': "h' = h6 @ [HObject (AList.update ''metadata'' (HRef (length h)) dkvs)]" and
    r: "r = length h6"
    by blast
  let ?h2 = "h @ [HObject mkvs] @ [HObject ckvs]"
  let ?h3 = "set_field ?h2 (length h) ''csp'' (HRef (Suc (length h)))"
  have l3: "length ?h3 = Suc (Suc (length h))" by simp
  have l4: "Suc (Suc (length h)) \<le> length h4" using ensure_origin_length[OF e4] l3 by simp
  have l5: "Suc (Suc (length h)) \<le> length h5" using ensure_origin_length[OF e5] l4 by simp
  have l6: "Suc (Suc (length h)) \<le> length h6" using ensure_origin_length[OF e6] l5 by simp
  show "Suc (Suc (length h)) \<le> r" using l6 r by simp
  have nth6: "h6 ! b = ?h3 ! b" if "b < Suc (Suc (length h))" "b \<noteq> Suc (length h)" for b
    using that ensure_origin_nth[OF e6, of b] ensure_origin_nth[OF e5, of b]
      ensure_origin_nth[OF e4, of b] l4 l5 l3 by simp
  have old: "h6 ! b = h ! b" if "b < length h" for b
    using that nth6[of b] by (simp add: nth_append)
  show "untouched h h'"
    using l6 old by (auto simp: untouched_def h' nth_append)
  have "h_get h (HRef d) ''type'' \<noteq> HPrim JUndefined" unfolding ty by simp
  then have dlt: "d < length h" by (rule h_get_defined)
  have dk0: "obj_fields h (HRef d) = Some dkvs"
    using dk dlt l6 old[OF dlt] by simp
  have getr: "h_get h' (HRef r) k' = hprop (AList.update ''metadata'' (HRef (length h)) dkvs) k'"
    for k' by (simp add: h' r)
  show "k \<noteq> ''metadata'' \<Longrightarrow> h_get h' (HRef r) k = h_get h (HRef d) k"
    by (simp add: getr obj_fields_get[OF dk0] hprop_def update_conv' del: h_get.simps)
  show "h_get h' (HRef r) ''metadata'' = HRef (length h)"
    by (simp add: getr hprop_def update_conv' del: h_get.simps)
  have get6m: "h_get h6 (HRef (length h)) k' = h_get ?h3 (HRef (length h)) k'" for k'
    using ensure_origin_get_other[OF e6, of "length h" k']
      ensure_origin_get_other[OF e5, of "length h" k']
      ensure_origin_get_other[OF e4, of "length h" k'] l4 l5 l3 by simp
  have get'm: "h_get h' (HRef (length h)) k' = h_get ?h3 (HRef (length h)) k'" for k'
    using get6m[of k'] l6 by (simp add: h' del: h_get.simps)
  have f2: "obj_fields ?h2 (HRef (length h)) = Some mkvs" by (simp add: nth_append)
  show "h_get h' (HRef (length h)) ''csp'' = HRef (Suc (length h))"
    using set_field_get_eq[OF f2] by (simp add: get'm del: h_get.simps)
  show "k \<noteq> ''csp'' \<Longrightarrow>
           h_get h' (HRef (length h)) k = h_get h (h_get h (HRef d) ''metadata'') k"
    using spread_get[OF m, of k]
    by (simp add: get'm set_field_get_same nth_append del: h_get.simps(1))
       (simp add: nth_append)
  have get6c: "h_get h6 (HRef (Suc (length h))) k = h_get ?h3 (HRef (Suc (length h))) k"
    if "k \<notin> {''resourceDomains'', ''connectDomains'', ''baseUriDomains''}"
    using that ensure_origin_get[OF e6, of k] ensure_origin_get[OF e5, of k]
      ensure_origin_get[OF e4, of k] l4 l5 l3 by simp
  have cref: "\<And>a. hprop mkvs ''csp'' = HRef a \<Longrightarrow> a < length h"
    using spread_closed[OF cl m] by blast
  have c0: "spread_or_empty h (hprop mkvs ''csp'') = Some ckvs"
    using c spread_append[of "hprop mkvs ''csp''" h "[HObject mkvs]"] cref by simp
  show "h_get h' (HRef (Suc (length h))) k
             = h_get h (h_get h (h_get h (HRef d) ''metadata'') ''csp'') k"
    if kk: "k \<notin> {''resourceDomains'', ''connectDomains'', ''baseUriDomains''}"
  proof -
    have "h_get h' (HRef (Suc (length h))) k = h_get h6 (HRef (Suc (length h))) k"
      using l6 by (simp add: h' del: h_get.simps)
    also have "\<dots> = h_get ?h3 (HRef (Suc (length h))) k" using get6c[OF kk] .
    also have "\<dots> = hprop ckvs k" by (simp add: nth_append)
    also have "\<dots> = h_get h (hprop mkvs ''csp'') k" using spread_get[OF c0, of k] by simp
    also have "\<dots> = h_get h (h_get h (h_get h (HRef d) ''metadata'') ''csp'') k"
      using spread_get[OF m, of "''csp''"] by simp
    finally show ?thesis .
  qed
qed

text \<open>
  Claim C10, as the claim states it, fails where it says that the function returns a copy
  for every definition and origin: without an origin the enricher returns the object it
  was given, and no metadata or CSP object is created.
\<close>

theorem enrich_store_returns_input:
  "enrichDefinitionWithServerOrigin_store kanban_store 0 None = Some (kanban_store, 0)"
  by (simp add: enrichDefinitionWithServerOrigin_store_def str_truthy_def)

text \<open>
  Claim C10, amended. On a closed store, whenever the enricher returns: every object that
  existed before is unchanged (the input definition, its metadata, its CSP object and
  its arrays are not mutated); every property of the returned definition other than
  \<^verbatim>\<open>metadata\<close>, every property of its metadata other than \<^verbatim>\<open>csp\<close>, and every property of
  its CSP object other than \<^verbatim>\<open>resourceDomains\<close>, \<^verbatim>\<open>connectDomains\<close> and \<^verbatim>\<open>baseUriDomains\<close>
  has the value it has on the input (an absent metadata or CSP object reading as
  undefined). When the enricher applies (non-empty origin, type \<^verbatim>\<open>mcpApps\<close>) the returned
  definition, its metadata and its CSP object are three distinct fresh objects;
  otherwise the enricher returns the input object itself and allocates nothing.
\<close>

theorem enrich_store_frame:
  assumes e: "enrichDefinitionWithServerOrigin_store h d so = Some (h', r)"
    and cl: "closed_store h"
  shows "untouched h h'
    \<and> (\<forall>k. k \<noteq> ''metadata'' \<longrightarrow> path_get h' (HRef r) [k] = path_get h (HRef d) [k])
    \<and> (\<forall>k. k \<noteq> ''csp'' \<longrightarrow>
          path_get h' (HRef r) [''metadata'', k] = path_get h (HRef d) [''metadata'', k])
    \<and> (\<forall>k. k \<notin> {''resourceDomains'', ''connectDomains'', ''baseUriDomains''} \<longrightarrow>
          path_get h' (HRef r) [''metadata'', ''csp'', k]
            = path_get h (HRef d) [''metadata'', ''csp'', k])
    \<and> (if str_truthy so \<and> h_get h (HRef d) ''type'' = HPrim (JStr ''mcpApps'')
        then length h \<le> r
           \<and> (\<exists>m c. path_get h' (HRef r) [''metadata''] = HRef m \<and> length h \<le> m
                 \<and> path_get h' (HRef r) [''metadata'', ''csp''] = HRef c \<and> length h \<le> c
                 \<and> m \<noteq> c \<and> m \<noteq> r \<and> c \<noteq> r)
        else r = d \<and> h' = h)"
proof (cases "str_truthy so \<and> h_get h (HRef d) ''type'' = HPrim (JStr ''mcpApps'')")
  case False
  then have "enrichDefinitionWithServerOrigin_store h d so = Some (h, d)"
    by (auto simp: enrich_store_noop)
  with e have "h' = h" "r = d" by simp_all
  with False show ?thesis by (auto simp: untouched_def)
next
  case True
  then have t: "str_truthy so" and ty: "h_get h (HRef d) ''type'' = HPrim (JStr ''mcpApps'')"
    by simp_all
  note f = enrich_store_applied_frame[OF e t ty cl]
  have p1: "\<forall>k. k \<noteq> ''metadata'' \<longrightarrow> path_get h' (HRef r) [k] = path_get h (HRef d) [k]"
    using f(2) by (simp del: h_get.simps)
  have p2: "\<forall>k. k \<noteq> ''csp'' \<longrightarrow>
          path_get h' (HRef r) [''metadata'', k] = path_get h (HRef d) [''metadata'', k]"
    using f(3) f(4) by (simp del: h_get.simps)
  have p3: "\<forall>k. k \<notin> {''resourceDomains'', ''connectDomains'', ''baseUriDomains''} \<longrightarrow>
          path_get h' (HRef r) [''metadata'', ''csp'', k]
            = path_get h (HRef d) [''metadata'', ''csp'', k]"
    using f(3) f(5) f(6) by (simp del: h_get.simps)
  have p4: "length h \<le> r
           \<and> (\<exists>m c. path_get h' (HRef r) [''metadata''] = HRef m \<and> length h \<le> m
                 \<and> path_get h' (HRef r) [''metadata'', ''csp''] = HRef c \<and> length h \<le> c
                 \<and> m \<noteq> c \<and> m \<noteq> r \<and> c \<noteq> r)"
    using f(3) f(5) f(7) by (simp del: h_get.simps)
  from True f(1) p1 p2 p3 p4 show ?thesis by simp
qed

lemma closed_kanban: "closed_store kanban_store"
  by (simp add: closed_store_def kanban_store_def)

text \<open>
  The amended claim at the example store with origin \<^verbatim>\<open>https://host:3000\<close>: six objects
  are allocated, the five old ones are untouched, and the new CSP object shares the
  \<^verbatim>\<open>frameDomains\<close> array of the old one.
\<close>

theorem enrich_store_frame_witness:
  "enrichDefinitionWithServerOrigin_store kanban_store 0 (Some ''https://host:3000'') =
     Some (kanban_store @
       [HObject [(''csp'', HRef 6), (''prefersBorder'', HPrim (JBool True))],
        HObject [(''frameDomains'', HRef 3), (''resourceDomains'', HRef 7),
                 (''connectDomains'', HRef 8), (''baseUriDomains'', HRef 9)],
        HArray [HPrim (JStr ''https://cdn.example''), HPrim (JStr ''https://host:3000'')],
        HArray [HPrim (JStr ''https://host:3000'')],
        HArray [HPrim (JStr ''https://host:3000'')],
        HObject [(''type'', HPrim (JStr ''mcpApps'')), (''name'', HPrim (JStr ''kanban'')),
                 (''metadata'', HRef 5)]], 10)
   \<and> closed_store kanban_store
   \<and> untouched kanban_store
        (fst (the (enrichDefinitionWithServerOrigin_store kanban_store 0
                     (Some ''https://host:3000''))))
   \<and> path_get
        (fst (the (enrichDefinitionWithServerOrigin_store kanban_store 0
                     (Some ''https://host:3000''))))
        (HRef 10) [''metadata'', ''csp'', ''frameDomains'']
       = path_get kanban_store (HRef 0) [''metadata'', ''csp'', ''frameDomains'']
   \<and> path_get kanban_store (HRef 0) [''metadata'', ''csp'', ''frameDomains''] = HRef 3"
proof -
  have ev: "enrichDefinitionWithServerOrigin_store kanban_store 0 (Some ''https://host:3000'') =
     Some (kanban_store @
       [HObject [(''csp'', HRef 6), (''prefersBorder'', HPrim (JBool True))],
        HObject [(''frameDomains'', HRef 3), (''resourceDomains'', HRef 7),
                 (''connectDomains'', HRef 8), (''baseUriDomains'', HRef 9)],
        HArray [HPrim (JStr ''https://cdn.example''), HPrim (JStr ''https://host:3000'')],
        HArray [HPrim (JStr ''https://host:3000'')],
        HArray [HPrim (JStr ''https://host:3000'')],
        HObject [(''type'', HPrim (JStr ''mcpApps'')), (''name'', HPrim (JStr ''kanban'')),
                 (''metadata'', HRef 5)]], 10)"
    by (simp add: enrichDefinitionWithServerOrigin_store_def ensure_origin_def spread_or_empty_def set_field_def
          kanban_store_def str_truthy_def hprop_def Let_def)
  from enrich_store_frame[OF ev closed_kanban]
  have "untouched kanban_store
          (fst (the (enrichDefinitionWithServerOrigin_store kanban_store 0
                       (Some ''https://host:3000''))))"
    and "path_get
          (fst (the (enrichDefinitionWithServerOrigin_store kanban_store 0
                       (Some ''https://host:3000''))))
          (HRef 10) [''metadata'', ''csp'', ''frameDomains'']
       = path_get kanban_store (HRef 0) [''metadata'', ''csp'', ''frameDomains'']"
    unfolding ev by simp_all
  moreover have "path_get kanban_store (HRef 0) [''metadata'', ''csp'', ''frameDomains''] = HRef 3"
    by (simp add: kanban_store_def hprop_def)
  ultimately show ?thesis using ev closed_kanban by simp
qed

subsection \<open>The three lists after the enricher\<close>

text \<open>
  The frame property says what the enricher leaves alone. The lists it does change are
  the three domain lists of the new CSP object: each holds the elements of the list the
  definition had, followed by the origin unless it was among them.
\<close>

lemma arr_elems_falsy: "\<not> h_truthy v \<Longrightarrow> arr_elems h v = None"
  by (cases v) simp_all

lemma obj_fields_bound: "obj_fields h (HRef c) = Some kvs \<Longrightarrow> c < length h"
  by (simp split: if_splits)

lemma arr_elems_fresh:
  "c < length h \<Longrightarrow> arr_elems (set_field (h @ [HArray xs]) c k v) (HRef (length h)) = Some xs"
  by (simp add: nth_append)

lemma ensure_origin_elems:
  assumes e: "ensure_origin h c k origin = Some h'"
    and c: "obj_fields h (HRef c) = Some ckvs"
  shows "arr_elems h' (h_get h' (HRef c) k)
           = Some (with_origin origin (arr_elems h (h_get h (HRef c) k)))"
proof -
  have cl: "c < length h" using c by (rule obj_fields_bound)
  have c': "obj_fields (h @ [ob]) (HRef c) = Some ckvs" for ob
    using c cl by (simp del: obj_fields.simps)
  let ?cur = "h_get h (HRef c) k"
  show ?thesis
  proof (cases "h_truthy ?cur")
    case False
    then have h': "h' = set_field (h @ [HArray [HPrim (JStr origin)]]) c k (HRef (length h))"
      using e by (simp add: ensure_origin_def Let_def del: h_get.simps)
    show ?thesis
      unfolding h' set_field_get_eq[OF c'] arr_elems_fresh[OF cl]
      using False by (simp add: with_origin_def arr_elems_falsy del: h_get.simps)
  next
    case True
    then obtain xs where xs: "arr_elems h ?cur = Some xs"
      using e by (auto simp: ensure_origin_def Let_def simp del: h_get.simps split: option.splits)
    show ?thesis
    proof (cases "HPrim (JStr origin) \<in> set xs")
      case True
      with \<open>h_truthy ?cur\<close> xs e have "h' = h"
        by (simp add: ensure_origin_def Let_def del: h_get.simps)
      then show ?thesis using xs True by (simp add: with_origin_def del: h_get.simps)
    next
      case False
      with \<open>h_truthy ?cur\<close> xs e
      have h': "h' = set_field (h @ [HArray (xs @ [HPrim (JStr origin)])]) c k (HRef (length h))"
        by (simp add: ensure_origin_def Let_def del: h_get.simps)
      show ?thesis
        unfolding h' set_field_get_eq[OF c'] arr_elems_fresh[OF cl]
        using False xs by (simp add: with_origin_def del: h_get.simps)
    qed
  qed
qed

lemma ensure_origin_obj:
  assumes "ensure_origin h c k origin = Some h'" and "obj_fields h (HRef c) = Some ckvs"
  shows "\<exists>kvs'. obj_fields h' (HRef c) = Some kvs'"
proof -
  have cl: "c < length h" using assms(2) by (rule obj_fields_bound)
  from ensure_origin_cases[OF assms(1)] show ?thesis
  proof
    assume "h' = h" then show ?thesis using assms(2) by blast
  next
    assume "\<exists>ob. h' = set_field (h @ [ob]) c k (HRef (length h))"
    then obtain ob where h': "h' = set_field (h @ [ob]) c k (HRef (length h))" by blast
    have "obj_fields (h @ [ob]) (HRef c) = Some ckvs"
      using assms(2) cl by (simp del: obj_fields.simps)
    then show ?thesis using cl by (simp add: h' set_field_def nth_append)
  qed
qed

lemma ensure_origin_elems_other:
  assumes e: "ensure_origin h c k origin = Some h'"
    and c: "obj_fields h (HRef c) = Some ckvs" and k: "k' \<noteq> k"
    and inv: "\<forall>k a. h_get h (HRef c) k = HRef a \<longrightarrow> a < length h"
  shows "arr_elems h' (h_get h' (HRef c) k') = arr_elems h (h_get h (HRef c) k')"
proof -
  have cl: "c < length h" using c by (rule obj_fields_bound)
  have g: "h_get h' (HRef c) k' = h_get h (HRef c) k'"
    using ensure_origin_get[OF e cl k] .
  show ?thesis
  proof (cases "h_get h (HRef c) k'")
    case (HPrim v)
    then show ?thesis by (simp add: g del: h_get.simps)
  next
    case (HRef a)
    then have al: "a < length h" using inv by blast
    have l: "length h \<le> length h'" using ensure_origin_length[OF e] .
    show ?thesis
    proof (cases "a = c")
      case True
      then have "arr_elems h (HRef a) = None" using c cl by (simp split: hobj.splits if_splits)
      moreover obtain kvs' where "obj_fields h' (HRef c) = Some kvs'"
        using ensure_origin_obj[OF e c] by blast
      then have "arr_elems h' (HRef a) = None" using True by (simp split: hobj.splits if_splits)
      ultimately show ?thesis by (simp add: g HRef del: h_get.simps arr_elems.simps)
    next
      case False
      then have "h' ! a = h ! a" using ensure_origin_nth[OF e al] by simp
      then show ?thesis using al l by (simp add: g HRef del: h_get.simps)
    qed
  qed
qed


lemma ensure_origin_refs:
  assumes e: "ensure_origin h c k origin = Some h'"
    and c: "obj_fields h (HRef c) = Some ckvs"
    and inv: "\<forall>k a. h_get h (HRef c) k = HRef a \<longrightarrow> a < length h"
  shows "\<forall>k a. h_get h' (HRef c) k = HRef a \<longrightarrow> a < length h'"
proof (intro allI impI)
  fix k' a
  assume g: "h_get h' (HRef c) k' = HRef a"
  have cl: "c < length h" using c by (rule obj_fields_bound)
  from ensure_origin_cases[OF e] show "a < length h'"
  proof
    assume "h' = h" then show ?thesis using inv g by blast
  next
    assume "\<exists>ob. h' = set_field (h @ [ob]) c k (HRef (length h))"
    then obtain ob where h': "h' = set_field (h @ [ob]) c k (HRef (length h))" by blast
    have c': "obj_fields (h @ [ob]) (HRef c) = Some ckvs"
      using c cl by (simp del: obj_fields.simps)
    show ?thesis
    proof (cases "k' = k")
      case True
      then have "a = length h" using g set_field_get_eq[OF c'] by (simp add: h' del: h_get.simps)
      then show ?thesis by (simp add: h')
    next
      case False
      then have "h_get h (HRef c) k' = HRef a"
        using g ensure_origin_get[OF e cl False] by simp
      then have "a < length h" using inv by blast
      then show ?thesis by (simp add: h')
    qed
  qed
qed

lemma arr_elems_old:
  assumes "\<And>a. v = HRef a \<Longrightarrow> a < length h"
    and "length h \<le> length H" and "\<And>b. b < length h \<Longrightarrow> H ! b = h ! b"
  shows "arr_elems H v = arr_elems h v"
  using assms by (cases v) auto

lemma arr_elems_append:
  "\<forall>a. v = HRef a \<longrightarrow> a < length h \<Longrightarrow> arr_elems (h @ xs) v = arr_elems h v"
  by (cases v) (simp_all add: nth_append)

lemma enrich_store_lists:
  assumes e: "enrichDefinitionWithServerOrigin_store h d so = Some (h', r)"
    and t: "str_truthy so"
    and ty: "h_get h (HRef d) ''type'' = HPrim (JStr ''mcpApps'')"
    and cl: "closed_store h"
    and k: "k \<in> {''resourceDomains'', ''connectDomains'', ''baseUriDomains''}"
  shows "arr_elems h' (path_get h' (HRef r) [''metadata'', ''csp'', k])
           = Some (with_origin (the so)
                (arr_elems h (path_get h (HRef d) [''metadata'', ''csp'', k])))"
proof -
  from enrich_store_applies[OF e t ty] obtain mkvs ckvs h4 h5 h6 dkvs where
    m: "spread_or_empty h (h_get h (HRef d) ''metadata'') = Some mkvs" and
    c: "spread_or_empty (h @ [HObject mkvs]) (hprop mkvs ''csp'') = Some ckvs" and
    e4: "ensure_origin (set_field (h @ [HObject mkvs] @ [HObject ckvs]) (length h) ''csp''
            (HRef (Suc (length h)))) (Suc (length h)) ''resourceDomains'' (the so) = Some h4" and
    e5: "ensure_origin h4 (Suc (length h)) ''connectDomains'' (the so) = Some h5" and
    e6: "ensure_origin h5 (Suc (length h)) ''baseUriDomains'' (the so) = Some h6" and
    dk: "obj_fields h6 (HRef d) = Some dkvs" and
    h': "h' = h6 @ [HObject (AList.update ''metadata'' (HRef (length h)) dkvs)]" and
    r: "r = length h6"
    by blast
  let ?c = "Suc (length h)"
  let ?h2 = "h @ [HObject mkvs] @ [HObject ckvs]"
  let ?h3 = "set_field ?h2 (length h) ''csp'' (HRef ?c)"
  let ?o = "the so"
  have l3: "length ?h3 = Suc (Suc (length h))" by simp
  have cref: "\<And>a. hprop mkvs ''csp'' = HRef a \<Longrightarrow> a < length h"
    using spread_closed[OF cl m] by blast
  have c0: "spread_or_empty h (hprop mkvs ''csp'') = Some ckvs"
    using c spread_append[of "hprop mkvs ''csp''" h "[HObject mkvs]"] cref by simp
  have oref: "\<And>k a. hprop ckvs k = HRef a \<Longrightarrow> a < length h"
    using spread_closed[OF cl c0] by blast
  have f3: "obj_fields ?h3 (HRef ?c) = Some ckvs" by (simp add: nth_append)
  have g3: "h_get ?h3 (HRef ?c) k' = hprop ckvs k'" for k'
    using obj_fields_get[OF f3] .
  have inv3: "\<forall>k a. h_get ?h3 (HRef ?c) k = HRef a \<longrightarrow> a < length ?h3"
    unfolding g3 l3 using oref by (meson less_Suc_eq)
  obtain kv4 where f4: "obj_fields h4 (HRef ?c) = Some kv4"
    using ensure_origin_obj[OF e4 f3] by blast
  have inv4: "\<forall>k a. h_get h4 (HRef ?c) k = HRef a \<longrightarrow> a < length h4"
    using ensure_origin_refs[OF e4 f3 inv3] .
  obtain kv5 where f5: "obj_fields h5 (HRef ?c) = Some kv5"
    using ensure_origin_obj[OF e5 f4] by blast
  have inv5: "\<forall>k a. h_get h5 (HRef ?c) k = HRef a \<longrightarrow> a < length h5"
    using ensure_origin_refs[OF e5 f4 inv4] .
  obtain kv6 where f6: "obj_fields h6 (HRef ?c) = Some kv6"
    using ensure_origin_obj[OF e6 f5] by blast
  have inv6: "\<forall>k a. h_get h6 (HRef ?c) k = HRef a \<longrightarrow> a < length h6"
    using ensure_origin_refs[OF e6 f5 inv5] .
  have c6: "?c < length h6" using f6 by (rule obj_fields_bound)
  have old3: "?h3 ! b = h ! b" if "b < length h" for b
    using that by (simp add: nth_append)
  have a3: "arr_elems ?h3 (h_get ?h3 (HRef ?c) k') = arr_elems h (hprop ckvs k')" for k'
    unfolding g3 by (rule arr_elems_old) (use oref old3 in auto)
  have rc: "''resourceDomains'' \<noteq> ''connectDomains''"
    and rb: "''resourceDomains'' \<noteq> ''baseUriDomains''"
    and cb: "''connectDomains'' \<noteq> ''baseUriDomains''"
    by simp_all
  have six: "arr_elems h6 (h_get h6 (HRef ?c) k)
               = Some (with_origin ?o (arr_elems h (hprop ckvs k)))"
  proof -
    consider "k = ''resourceDomains''" | "k = ''connectDomains''" | "k = ''baseUriDomains''"
      using k by blast
    then show ?thesis
    proof cases
      case 1
      have "arr_elems h6 (h_get h6 (HRef ?c) k) = arr_elems h5 (h_get h5 (HRef ?c) k)"
        unfolding 1 by (rule ensure_origin_elems_other[OF e6 f5 rb inv5])
      also have "\<dots> = arr_elems h4 (h_get h4 (HRef ?c) k)"
        unfolding 1 by (rule ensure_origin_elems_other[OF e5 f4 rc inv4])
      also have "\<dots> = Some (with_origin ?o (arr_elems ?h3 (h_get ?h3 (HRef ?c) k)))"
        unfolding 1 by (rule ensure_origin_elems[OF e4 f3])
      finally show ?thesis unfolding a3 .
    next
      case 2
      have "arr_elems h6 (h_get h6 (HRef ?c) k) = arr_elems h5 (h_get h5 (HRef ?c) k)"
        unfolding 2 by (rule ensure_origin_elems_other[OF e6 f5 cb inv5])
      also have "\<dots> = Some (with_origin ?o (arr_elems h4 (h_get h4 (HRef ?c) k)))"
        unfolding 2 by (rule ensure_origin_elems[OF e5 f4])
      also have "arr_elems h4 (h_get h4 (HRef ?c) k) = arr_elems ?h3 (h_get ?h3 (HRef ?c) k)"
        unfolding 2 by (rule ensure_origin_elems_other[OF e4 f3 rc[symmetric] inv3])
      finally show ?thesis unfolding a3 .
    next
      case 3
      have "arr_elems h6 (h_get h6 (HRef ?c) k)
              = Some (with_origin ?o (arr_elems h5 (h_get h5 (HRef ?c) k)))"
        unfolding 3 by (rule ensure_origin_elems[OF e6 f5])
      also have "arr_elems h5 (h_get h5 (HRef ?c) k) = arr_elems h4 (h_get h4 (HRef ?c) k)"
        unfolding 3 by (rule ensure_origin_elems_other[OF e5 f4 cb[symmetric] inv4])
      also have "arr_elems h4 (h_get h4 (HRef ?c) k) = arr_elems ?h3 (h_get ?h3 (HRef ?c) k)"
        unfolding 3 by (rule ensure_origin_elems_other[OF e4 f3 rb[symmetric] inv3])
      finally show ?thesis unfolding a3 .
    qed
  qed
  have g': "h_get h' (HRef ?c) k = h_get h6 (HRef ?c) k"
    using c6 by (simp add: h' del: h_get.simps)
  have r6: "\<forall>a. h_get h6 (HRef ?c) k = HRef a \<longrightarrow> a < length h6"
    using inv6 by blast
  have new: "arr_elems h' (h_get h' (HRef ?c) k)
               = Some (with_origin ?o (arr_elems h (hprop ckvs k)))"
    unfolding g' unfolding h' arr_elems_append[OF r6] by (rule six)
  have p': "path_get h' (HRef r) [''metadata'', ''csp'', k] = h_get h' (HRef ?c) k"
    using enrich_store_applied_frame(3,5)[OF e t ty cl] by (simp del: h_get.simps)
  have "h_get h (hprop mkvs ''csp'') k = hprop ckvs k" using spread_get[OF c0, of k] by simp
  then have p: "path_get h (HRef d) [''metadata'', ''csp'', k] = hprop ckvs k"
    using spread_get[OF m, of "''csp''"] by (simp del: h_get.simps)
  show ?thesis unfolding p' p using new .
qed

section \<open>The variant switch of the registrar\<close>

text \<open>
  The sibling of the standalone resolver handles all five variants, Apps SDK among them,
  and throws on every other tag before the server is written to.
\<close>

lemma resolveUriAndMime_mime:
  "resolveUriAndMime E d s = Inr (u, m) \<Longrightarrow>
     (wtype d = ''externalUrl'' \<and> m = ''text/uri-list'')
   \<or> (wtype d = ''rawHtml'' \<and> m = ''text/html'')
   \<or> (wtype d = ''remoteDom'' \<and> m = ''application/vnd.mcp-ui.remote-dom+javascript'')
   \<or> (wtype d = ''appsSdk'' \<and> m = ''text/html+skybridge'')
   \<or> (wtype d = ''mcpApps'' \<and> m = ''text/html;profile=mcp-app'')"
  by (auto simp: resolveUriAndMime_def split: if_splits)

lemma registration_unknown_type:
  assumes "\<not> known_type d" and "origin_ok E s"
  shows "uiResourceRegistration E s d = Inl UnsupportedUIResourceType"
proof -
  have "\<exists>so. (if str_truthy (serverBaseUrl s)
              then (case urlOrigin E (the (serverBaseUrl s)) of
                      None \<Rightarrow> Inl (InvalidURL (the (serverBaseUrl s)))
                    | Some origin \<Rightarrow> Inr (Some origin))
              else Inr None) = Inr so"
    using assms(2) by (cases "str_truthy (serverBaseUrl s)") (auto simp: origin_ok_def)
  then obtain so where so: "(if str_truthy (serverBaseUrl s)
              then (case urlOrigin E (the (serverBaseUrl s)) of
                      None \<Rightarrow> Inl (InvalidURL (the (serverBaseUrl s)))
                    | Some origin \<Rightarrow> Inr (Some origin))
              else Inr None) = Inr so" by blast
  have "\<not> known_type (enrichDefinitionWithServerOrigin d so)"
    using assms(1) by (simp add: known_type_def)
  then have "resolveUriAndMime E (enrichDefinitionWithServerOrigin d so)
       (storeWidgetDefinition E (enrichDefinitionWithServerOrigin d so) s)
     = Inl UnsupportedUIResourceType"
    by (rule resolve_unknown)
  then show ?thesis
    unfolding uiResourceRegistration_def Let_def so by simp
qed

lemma registration_appsSdk_mime:
  "resolveUriAndMime stub_collaborators (bare_widget ''appsSdk'' ''kanban'') bare_server
     = Inr (''ui://widget/kanban.html'', ''text/html+skybridge'')"
  by (simp add: resolveUriAndMime_def stub_collaborators_def bare_widget_def bare_server_def
        getBuildIdPart_def str_truthy_def)

end
